theory Spec2Isabelle
  imports Complex_Main
begin

section \<open>The spline module: wrappers around the B-spline and filter routines\<close>

text \<open>
  The theory embeds \<^verbatim>\<open>Lib/signal/splinemodule.c\<close>: the helper \<^verbatim>\<open>convert_strides\<close> and the
  five entry points \<^verbatim>\<open>cspline2d\<close>, \<^verbatim>\<open>qspline2d\<close>, \<^verbatim>\<open>FIRsepsym2d\<close> (exported as
  \<^verbatim>\<open>sepfir2d\<close>), \<^verbatim>\<open>IIRsymorder1\<close> (\<^verbatim>\<open>symiirorder1\<close>) and \<^verbatim>\<open>IIRsymorder2\<close>
  (\<^verbatim>\<open>symiirorder2\<close>).

  Conventions of the embedding.
  \<^item> A C \<^verbatim>\<open>int\<close> is an \<^typ>\<open>int\<close>. The module only shifts ints to the right, counts up to the
    bit length of an element size and compares status codes, so no operation can overflow.
  \<^item> The two doubles that the module compares with constants, \<^verbatim>\<open>lambda\<close> and \<^verbatim>\<open>precision\<close>, are
    values of the type \<open>double\<close> below: a real number, an infinity or NaN, with the
    comparisons of IEEE arithmetic. The format \<^verbatim>\<open>d\<close> of \<^verbatim>\<open>PyArg_ParseTuple\<close> accepts all of
    them. The two zeros are one value, and a finite double is any real.
  \<^item> The doubles that the module only hands on --- \<^verbatim>\<open>r\<close>, \<^verbatim>\<open>omega\<close> and the parts of \<^verbatim>\<open>c0\<close>
    and \<^verbatim>\<open>z1\<close> --- are finite: they are values of \<^typ>\<open>real\<close> and \<^typ>\<open>complex\<close>. The narrowing
    conversion of a finite double to \<^verbatim>\<open>float\<close> is a parameter \<open>to_float\<close> of the one wrapper
    that performs it.
  \<^item> The complex cases of the two \<^verbatim>\<open>switch\<close> statements are compiled only under
    \<^verbatim>\<open>#ifdef __GNUC__\<close>. Whether the macro is defined is a parameter \<open>GNUC\<close> of the two
    wrappers that contain such a statement.
  \<^item> Reference counting (\<^verbatim>\<open>Py_DECREF\<close>, \<^verbatim>\<open>Py_XDECREF\<close>) and the release of the wrappers'
    temporaries are not modelled.
  \<^item> Names are those of the source. The variables \<^verbatim>\<open>image\<close> and \<^verbatim>\<open>size\<close> are written \<open>img\<close>
    and \<open>sz\<close>, the source's names being constants of the logic.
\<close>

subsection \<open>Element types\<close>

text \<open>
  The type numbers of \<^verbatim>\<open>Numeric/arrayobject.h\<close>, a header of the Numeric library that is not
  among the sources. The wrappers use the four floating constants and compare type numbers
  with \<^verbatim>\<open>MIN\<close>; \<open>type_num\<close> is the position in the library's enumeration, of which only the
  relative order matters here.
\<close>

datatype PyArray_TYPES =
    PyArray_CHAR | PyArray_UBYTE | PyArray_SBYTE | PyArray_SHORT | PyArray_USHORT
  | PyArray_INT | PyArray_UINT | PyArray_LONG
  | PyArray_FLOAT | PyArray_DOUBLE | PyArray_CFLOAT | PyArray_CDOUBLE
  | PyArray_OBJECT

fun type_num :: "PyArray_TYPES \<Rightarrow> int" where
  "type_num PyArray_CHAR = 0"
| "type_num PyArray_UBYTE = 1"
| "type_num PyArray_SBYTE = 2"
| "type_num PyArray_SHORT = 3"
| "type_num PyArray_USHORT = 4"
| "type_num PyArray_INT = 5"
| "type_num PyArray_UINT = 6"
| "type_num PyArray_LONG = 7"
| "type_num PyArray_FLOAT = 8"
| "type_num PyArray_DOUBLE = 9"
| "type_num PyArray_CFLOAT = 10"
| "type_num PyArray_CDOUBLE = 11"
| "type_num PyArray_OBJECT = 12"

text \<open>The macros \<^verbatim>\<open>MIN(a,b) (((a) > (b)) ? (b) : (a))\<close> and \<^verbatim>\<open>MAX\<close>, on type numbers.\<close>

definition MIN_type :: "PyArray_TYPES \<Rightarrow> PyArray_TYPES \<Rightarrow> PyArray_TYPES" where
  "MIN_type a b = (if type_num a > type_num b then b else a)"

definition MAX_type :: "PyArray_TYPES \<Rightarrow> PyArray_TYPES \<Rightarrow> PyArray_TYPES" where
  "MAX_type a b = (if type_num a > type_num b then a else b)"

text \<open>Vocabulary for the statements: complex element types, and the order of element types.\<close>

definition is_complex :: "PyArray_TYPES \<Rightarrow> bool" where
  "is_complex t = (t = PyArray_CFLOAT \<or> t = PyArray_CDOUBLE)"

definition is_real_float :: "PyArray_TYPES \<Rightarrow> bool" where
  "is_real_float t = (t = PyArray_FLOAT \<or> t = PyArray_DOUBLE)"

definition narrower :: "PyArray_TYPES \<Rightarrow> PyArray_TYPES \<Rightarrow> bool" where
  "narrower t u = (type_num t < type_num u)"

subsection \<open>Array objects, the heap, errors and outcomes\<close>

text \<open>
  An array object, with one field for each accessor macro of the module (\<^verbatim>\<open>DATA\<close>,
  \<^verbatim>\<open>RANK\<close>, \<^verbatim>\<open>DIMS\<close>, \<^verbatim>\<open>STRIDES\<close>, \<^verbatim>\<open>OBJECTTYPE\<close>, \<^verbatim>\<open>ELSIZE\<close>). \<open>DATA\<close> is the address of
  the data buffer; \<open>STRIDES\<close> are in bytes.
\<close>

type_synonym addr = nat

record PyArrayObject =
  DATA :: addr
  RANK :: nat
  DIMS :: "int list"
  STRIDES :: "int list"
  OBJECTTYPE :: PyArray_TYPES
  ELSIZE :: int

text \<open>
  The heap is the list of the data buffers allocated so far; the address of a buffer is its
  index, so an allocation appends and \<open>length h\<close> is the next fresh address. The contents
  \<open>'v\<close> of a buffer are left open.
\<close>

type_synonym 'v heap = "'v list"

datatype PyErr =
    PyExc_ValueError string
  | PyExc_TypeError string
  | PyExc_MemoryError string

text \<open>
  What a wrapper does: it returns an array, or it returns \<^verbatim>\<open>NULL\<close> with an exception set, or
  the C program has no defined behaviour (an uninitialised status is read, an array is read
  outside its bounds, a shift count is negative, or a loop does not exit).
\<close>

datatype outcome = Returns PyArrayObject | Raises PyErr | Undefined

text \<open>\<^verbatim>\<open>PYERR(message)\<close>: set a \<^verbatim>\<open>ValueError\<close> and go to \<^verbatim>\<open>fail\<close>, which returns \<^verbatim>\<open>NULL\<close>.\<close>

definition PYERR :: "string \<Rightarrow> outcome" where
  "PYERR message = Raises (PyExc_ValueError message)"

text \<open>Reading \<^verbatim>\<open>a[i]\<close>; outside the bounds of the array the read is undefined.\<close>

definition c_index :: "'a list \<Rightarrow> nat \<Rightarrow> 'a option" where
  "c_index a i = (if i < length a then Some (a ! i) else None)"

subsection \<open>Doubles\<close>

text \<open>
  A C \<^verbatim>\<open>double\<close> that the module tests, and the three comparisons it applies to one:
  \<^verbatim>\<open>x <= y\<close>, \<^verbatim>\<open>x > y\<close> and \<^verbatim>\<open>x != y\<close>. An ordered comparison with NaN is false, and NaN
  differs from every value, itself included.
\<close>

datatype double = Finite real | PlusInfinity | MinusInfinity | NaN

fun double_le :: "double \<Rightarrow> double \<Rightarrow> bool" where
  "double_le (Finite x) (Finite y) = (x \<le> y)"
| "double_le (Finite x) PlusInfinity = True"
| "double_le (Finite x) MinusInfinity = False"
| "double_le PlusInfinity (Finite y) = False"
| "double_le PlusInfinity PlusInfinity = True"
| "double_le PlusInfinity MinusInfinity = False"
| "double_le MinusInfinity (Finite y) = True"
| "double_le MinusInfinity PlusInfinity = True"
| "double_le MinusInfinity MinusInfinity = True"
| "double_le NaN y = False"
| "double_le (Finite x) NaN = False"
| "double_le PlusInfinity NaN = False"
| "double_le MinusInfinity NaN = False"

fun double_gt :: "double \<Rightarrow> double \<Rightarrow> bool" where
  "double_gt (Finite x) (Finite y) = (x > y)"
| "double_gt (Finite x) PlusInfinity = False"
| "double_gt (Finite x) MinusInfinity = True"
| "double_gt PlusInfinity (Finite y) = True"
| "double_gt PlusInfinity PlusInfinity = False"
| "double_gt PlusInfinity MinusInfinity = True"
| "double_gt MinusInfinity (Finite y) = False"
| "double_gt MinusInfinity PlusInfinity = False"
| "double_gt MinusInfinity MinusInfinity = False"
| "double_gt NaN y = False"
| "double_gt (Finite x) NaN = False"
| "double_gt PlusInfinity NaN = False"
| "double_gt MinusInfinity NaN = False"

definition double_ne :: "double \<Rightarrow> double \<Rightarrow> bool" where
  "double_ne x y = (x = NaN \<or> y = NaN \<or> x \<noteq> y)"

text \<open>
  The cast \<^verbatim>\<open>(float)x\<close> of such a double, given the conversion \<open>to_float\<close> of the finite ones:
  an infinity and NaN are converted to themselves. The module casts the precision only,
  after the test that leaves a number of \<open>(0, 1]\<close> or NaN, so no value that is cast
  exceeds the range of \<^verbatim>\<open>float\<close>.
\<close>

definition float_cast :: "(real \<Rightarrow> real) \<Rightarrow> double \<Rightarrow> double" where
  "float_cast to_float x = (case x of Finite v \<Rightarrow> Finite (to_float v) | _ \<Rightarrow> x)"

subsection \<open>The array library\<close>

text \<open>
  The functions of the Numeric C API that the wrappers call. The library is not part of the
  sources, so the model takes it as a parameter. A call either fails with the exception it
  sets, or returns an array and the heap it leaves.
\<close>

record 'v numeric_api =
  PyArray_ObjectType :: "PyArrayObject \<Rightarrow> PyArray_TYPES \<Rightarrow> PyArray_TYPES"
  PyArray_FromObject ::
    "PyArrayObject \<Rightarrow> PyArray_TYPES \<Rightarrow> nat \<Rightarrow> nat \<Rightarrow> 'v heap \<Rightarrow> PyErr + PyArrayObject \<times> 'v heap"
  PyArray_ContiguousFromObject ::
    "PyArrayObject \<Rightarrow> PyArray_TYPES \<Rightarrow> nat \<Rightarrow> nat \<Rightarrow> 'v heap \<Rightarrow> PyErr + PyArrayObject \<times> 'v heap"
  PyArray_FromDims ::
    "nat \<Rightarrow> int list \<Rightarrow> PyArray_TYPES \<Rightarrow> 'v heap \<Rightarrow> PyErr + PyArrayObject \<times> 'v heap"

subsection \<open>The numerical routines\<close>

text \<open>
  The routines that compute the coefficients and filters are defined in other files of the
  repository, which are not among the sources. A call of one of them is a value: the name
  of the routine and its arguments in the order of the C call (input pointer, output
  pointer, extents, parameters, strides, precision). The routines themselves are a
  parameter \<open>cores\<close> of the wrappers: \<open>cores call h\<close> is the status the routine returns and
  the heap it leaves. Every wrapper reports the calls it made, so that the statements can
  speak about the routine chosen and the arguments it received.
\<close>

datatype spline2D_routine =
  S_cubic_spline2D | D_cubic_spline2D | S_quadratic_spline2D | D_quadratic_spline2D

datatype convolve_routine =
    S_separable_2Dconvolve_mirror | D_separable_2Dconvolve_mirror
  | C_separable_2Dconvolve_mirror | Z_separable_2Dconvolve_mirror

datatype forback1_routine = S_IIR_forback1 | D_IIR_forback1

datatype forback1_complex_routine = C_IIR_forback1 | Z_IIR_forback1

datatype forback2_routine = S_IIR_forback2 | D_IIR_forback2

datatype core_call =
    Spline2D spline2D_routine addr addr int int double "int list" "int list" double
  | Convolve2D convolve_routine addr addr int int addr addr int int "int list" "int list"
  | Forback1 forback1_routine real real addr addr int int int double
  | Forback1_complex forback1_complex_routine complex complex addr addr int int int double
  | Forback2 forback2_routine real real addr addr int int int double

type_synonym 'v cores = "core_call \<Rightarrow> 'v heap \<Rightarrow> int \<times> 'v heap"

text \<open>The input pointer, the output pointer, the output strides and the precision of a call.\<close>

fun call_in :: "core_call \<Rightarrow> addr" where
  "call_in (Spline2D f inp out M N lambda instrides outstrides precision) = inp"
| "call_in (Convolve2D f inp out M N hrow hcol Nhrow Nhcol instrides outstrides) = inp"
| "call_in (Forback1 f c0 z1 inp out N instrides outstrides precision) = inp"
| "call_in (Forback1_complex f c0 z1 inp out N instrides outstrides precision) = inp"
| "call_in (Forback2 f r omega inp out N instrides outstrides precision) = inp"

fun call_out :: "core_call \<Rightarrow> addr" where
  "call_out (Spline2D f inp out M N lambda instrides outstrides precision) = out"
| "call_out (Convolve2D f inp out M N hrow hcol Nhrow Nhcol instrides outstrides) = out"
| "call_out (Forback1 f c0 z1 inp out N instrides outstrides precision) = out"
| "call_out (Forback1_complex f c0 z1 inp out N instrides outstrides precision) = out"
| "call_out (Forback2 f r omega inp out N instrides outstrides precision) = out"

fun call_outstrides :: "core_call \<Rightarrow> int list" where
  "call_outstrides (Spline2D f inp out M N lambda instrides outstrides precision) = outstrides"
| "call_outstrides (Convolve2D f inp out M N hrow hcol Nhrow Nhcol instrides outstrides) = outstrides"
| "call_outstrides (Forback1 f c0 z1 inp out N instrides outstrides precision) = [outstrides]"
| "call_outstrides (Forback1_complex f c0 z1 inp out N instrides outstrides precision) = [outstrides]"
| "call_outstrides (Forback2 f r omega inp out N instrides outstrides precision) = [outstrides]"

fun call_precision :: "core_call \<Rightarrow> double option" where
  "call_precision (Spline2D f inp out M N lambda instrides outstrides precision) = Some precision"
| "call_precision (Convolve2D f inp out M N hrow hcol Nhrow Nhcol instrides outstrides) = None"
| "call_precision (Forback1 f c0 z1 inp out N instrides outstrides precision) = Some precision"
| "call_precision (Forback1_complex f c0 z1 inp out N instrides outstrides precision) = Some precision"
| "call_precision (Forback2 f r omega inp out N instrides outstrides precision) = Some precision"

subsection \<open>\<^verbatim>\<open>convert_strides\<close>\<close>

text \<open>
  \<^verbatim>\<open>x >> k\<close> on a signed int, for \<open>0 \<le> k\<close>: the arithmetic shift that GNU C performs (the C
  standard leaves the shift of a negative value to the implementation).
\<close>

definition shr :: "int \<Rightarrow> int \<Rightarrow> int" where
  "shr x k = x div 2 ^ nat k"

text \<open>\<^verbatim>\<open>a / b\<close> on ints: C truncates the quotient towards zero.\<close>

definition c_div :: "int \<Rightarrow> int \<Rightarrow> int" where
  "c_div a b = sgn a * sgn b * (\<bar>a\<bar> div \<bar>b\<bar>)"

text \<open>
  The loop \<^verbatim>\<open>while (size != 0) { size >>= 1; bitshift++; }\<close>. It does not exit for a negative
  \<open>size\<close>, so the result is optional: \<open>None\<close> is a loop that never returns.
\<close>

partial_function (option) bitshift_loop :: "int \<Rightarrow> int \<Rightarrow> int option" where
  "bitshift_loop sz bitshift =
     (if sz \<noteq> 0 then bitshift_loop (shr sz 1) (bitshift + 1) else Some bitshift)"

declare bitshift_loop.simps [code]

text \<open>
  \<^verbatim>\<open>convert_strides(instrides, convstrides, size, N)\<close> writes \<^verbatim>\<open>convstrides[0..N-1]\<close>; the model
  returns the \<open>N\<close> values written. There is no defined result (\<open>None\<close>) when the loop does
  not exit, when the shift count is negative (\<open>size = 0\<close> leaves \<open>bitshift = -1\<close>), or when
  \<open>instrides\<close> has fewer than \<open>N\<close> entries.
\<close>

definition convert_strides :: "int list \<Rightarrow> int \<Rightarrow> nat \<Rightarrow> int list option" where
  "convert_strides instrides sz N =
     (case bitshift_loop sz (- 1) of
        None \<Rightarrow> None
      | Some bitshift \<Rightarrow>
          if bitshift < 0 \<or> length instrides < N then None
          else Some (map (\<lambda>n. shr (instrides ! n) bitshift) [0..<N]))"

section \<open>The entry points\<close>

text \<open>
  Every entry point takes the library, the numerical routines, its parsed arguments (an
  optional argument that the caller omitted is \<open>None\<close>, and the variable keeps its
  initialiser) and the heap. It yields the outcome, the calls of numerical routines it
  made, and the heap it leaves. The definitions follow the statements of the C functions
  in their order; the statement that selects the routine by the element type (an
  \<^verbatim>\<open>if\<close> chain or a \<^verbatim>\<open>switch\<close>) is a definition of its own, which yields the call to make, or
  \<open>None\<close> when no branch makes one.
\<close>

subsection \<open>\<^verbatim>\<open>cspline2d\<close>\<close>

definition cspline2d_call ::
  "PyArray_TYPES \<Rightarrow> addr \<Rightarrow> addr \<Rightarrow> int \<Rightarrow> int \<Rightarrow> double \<Rightarrow> int list \<Rightarrow> int list \<Rightarrow> double
     \<Rightarrow> core_call option" where
  "cspline2d_call thetype data_a_image data_ck M N lambda instrides outstrides precision =
     (if thetype = PyArray_FLOAT then
        Some (Spline2D S_cubic_spline2D data_a_image data_ck M N lambda instrides outstrides
                (if double_le precision (Finite 0) \<or> double_gt precision (Finite 1)
                 then Finite (1 / 1000) else precision))
      else if thetype = PyArray_DOUBLE then
        Some (Spline2D D_cubic_spline2D data_a_image data_ck M N lambda instrides outstrides
                (if double_le precision (Finite 0) \<or> double_gt precision (Finite 1)
                 then Finite (1 / 1000000) else precision))
      else None)"

text \<open>
  When neither branch is taken, \<^verbatim>\<open>retval\<close> is read without having been set: the outcome is
  undefined.
\<close>

definition cspline2d ::
  "'v numeric_api \<Rightarrow> 'v cores \<Rightarrow> PyArrayObject \<Rightarrow> double option \<Rightarrow> double option \<Rightarrow> 'v heap
     \<Rightarrow> outcome \<times> core_call list \<times> 'v heap" where
  "cspline2d api cores img lambda_arg precision_arg h =
    (let lambda = (case lambda_arg of None \<Rightarrow> Finite 0 | Some v \<Rightarrow> v);
         precision = (case precision_arg of None \<Rightarrow> Finite (- 1) | Some v \<Rightarrow> v);
         thetype = PyArray_ObjectType api img PyArray_FLOAT;
         thetype = MIN_type thetype PyArray_DOUBLE
     in case PyArray_FromObject api img thetype 2 2 h of
          Inl err \<Rightarrow> (Raises err, [], h)
        | Inr (a_image, h1) \<Rightarrow>
       (case PyArray_FromDims api 2 (DIMS a_image) thetype h1 of
          Inl err \<Rightarrow> (Raises err, [], h1)
        | Inr (ck, h2) \<Rightarrow>
       (case (c_index (DIMS a_image) 0, c_index (DIMS a_image) 1,
              convert_strides (STRIDES a_image) (ELSIZE a_image) 2) of
          (Some M, Some N, Some instrides) \<Rightarrow>
            (let outstrides = [N, 1]
             in case cspline2d_call thetype (DATA a_image) (DATA ck) M N lambda
                       instrides outstrides precision of
                  None \<Rightarrow> (Undefined, [], h2)
                | Some c \<Rightarrow>
                   (case cores c h2 of
                      (retval, h3) \<Rightarrow>
                        if retval = - 3 then
                          (PYERR ''Precision too high.  Error did not converge.'', [c], h3)
                        else if retval < 0 then
                          (PYERR ''Problem occured inside routine'', [c], h3)
                        else (Returns ck, [c], h3)))
        | _ \<Rightarrow> (Undefined, [], h2))))"

subsection \<open>\<^verbatim>\<open>qspline2d\<close>\<close>

definition qspline2d_call ::
  "PyArray_TYPES \<Rightarrow> addr \<Rightarrow> addr \<Rightarrow> int \<Rightarrow> int \<Rightarrow> double \<Rightarrow> int list \<Rightarrow> int list \<Rightarrow> double
     \<Rightarrow> core_call option" where
  "qspline2d_call thetype data_a_image data_ck M N lambda instrides outstrides precision =
     (if thetype = PyArray_FLOAT then
        Some (Spline2D S_quadratic_spline2D data_a_image data_ck M N lambda instrides outstrides
                (if double_le precision (Finite 0) \<or> double_gt precision (Finite 1)
                 then Finite (1 / 1000) else precision))
      else if thetype = PyArray_DOUBLE then
        Some (Spline2D D_quadratic_spline2D data_a_image data_ck M N lambda instrides outstrides
                (if double_le precision (Finite 0) \<or> double_gt precision (Finite 1)
                 then Finite (1 / 1000000) else precision))
      else None)"

definition qspline2d ::
  "'v numeric_api \<Rightarrow> 'v cores \<Rightarrow> PyArrayObject \<Rightarrow> double option \<Rightarrow> double option \<Rightarrow> 'v heap
     \<Rightarrow> outcome \<times> core_call list \<times> 'v heap" where
  "qspline2d api cores img lambda_arg precision_arg h =
    (let lambda = (case lambda_arg of None \<Rightarrow> Finite 0 | Some v \<Rightarrow> v);
         precision = (case precision_arg of None \<Rightarrow> Finite (- 1) | Some v \<Rightarrow> v)
     in if double_ne lambda (Finite 0) then
          (PYERR ''Smoothing spline not yet implemented.'', [], h)
     else
    (let thetype = PyArray_ObjectType api img PyArray_FLOAT;
         thetype = MIN_type thetype PyArray_DOUBLE
     in case PyArray_FromObject api img thetype 2 2 h of
          Inl err \<Rightarrow> (Raises err, [], h)
        | Inr (a_image, h1) \<Rightarrow>
       (case PyArray_FromDims api 2 (DIMS a_image) thetype h1 of
          Inl err \<Rightarrow> (Raises err, [], h1)
        | Inr (ck, h2) \<Rightarrow>
       (case (c_index (DIMS a_image) 0, c_index (DIMS a_image) 1,
              convert_strides (STRIDES a_image) (ELSIZE a_image) 2) of
          (Some M, Some N, Some instrides) \<Rightarrow>
            (let outstrides = [N, 1]
             in case qspline2d_call thetype (DATA a_image) (DATA ck) M N lambda
                       instrides outstrides precision of
                  None \<Rightarrow> (Undefined, [], h2)
                | Some c \<Rightarrow>
                   (case cores c h2 of
                      (retval, h3) \<Rightarrow>
                        if retval = - 3 then
                          (PYERR ''Precision too high.  Error did not converge.'', [c], h3)
                        else if retval < 0 then
                          (PYERR ''Problem occured inside routine'', [c], h3)
                        else (Returns ck, [c], h3)))
        | _ \<Rightarrow> (Undefined, [], h2)))))"

subsection \<open>\<^verbatim>\<open>FIRsepsym2d\<close>\<close>

text \<open>
  The four cases of the \<^verbatim>\<open>switch\<close> differ in the routine they call and in nothing else: the
  \<^verbatim>\<open>switch\<close> is modelled as the choice of the routine, and the call, whose arguments read
  the lengths of the two kernels, follows in the wrapper. The two complex cases are there
  when \<^verbatim>\<open>__GNUC__\<close> is defined; when it is not, a complex type falls to \<^verbatim>\<open>default\<close>.
\<close>

definition FIRsepsym2d_switch :: "bool \<Rightarrow> PyArray_TYPES \<Rightarrow> convolve_routine option" where
  "FIRsepsym2d_switch GNUC thetype =
     (case thetype of
        PyArray_FLOAT \<Rightarrow> Some S_separable_2Dconvolve_mirror
      | PyArray_DOUBLE \<Rightarrow> Some D_separable_2Dconvolve_mirror
      | PyArray_CFLOAT \<Rightarrow> if GNUC then Some C_separable_2Dconvolve_mirror else None
      | PyArray_CDOUBLE \<Rightarrow> if GNUC then Some Z_separable_2Dconvolve_mirror else None
      | _ \<Rightarrow> None)"

text \<open>
  The three coercions are all performed before any of their results is tested. When
  several fail, the exception that is left set is the one of the last failure.
\<close>

definition heap_after :: "PyErr + PyArrayObject \<times> 'v heap \<Rightarrow> 'v heap \<Rightarrow> 'v heap" where
  "heap_after r h = (case r of Inl err \<Rightarrow> h | Inr (a, h') \<Rightarrow> h')"

definition FIRsepsym2d ::
  "bool \<Rightarrow> 'v numeric_api \<Rightarrow> 'v cores \<Rightarrow> PyArrayObject \<Rightarrow> PyArrayObject \<Rightarrow> PyArrayObject
     \<Rightarrow> 'v heap \<Rightarrow> outcome \<times> core_call list \<times> 'v heap" where
  "FIRsepsym2d GNUC api cores img hrow hcol h =
    (let thetype = PyArray_ObjectType api img PyArray_FLOAT;
         thetype = MIN_type thetype PyArray_CDOUBLE;
         r_image = PyArray_FromObject api img thetype 2 2 h;
         h1 = heap_after r_image h;
         r_hrow = PyArray_ContiguousFromObject api hrow thetype 1 1 h1;
         h2 = heap_after r_hrow h1;
         r_hcol = PyArray_ContiguousFromObject api hcol thetype 1 1 h2;
         h3 = heap_after r_hcol h2
     in case (r_image, r_hrow, r_hcol) of
          (Inr (a_image, _), Inr (a_hrow, _), Inr (a_hcol, _)) \<Rightarrow>
            (case PyArray_FromDims api 2 (DIMS a_image) thetype h3 of
               Inl err \<Rightarrow> (Raises err, [], h3)
             | Inr (out, h4) \<Rightarrow>
            (case (c_index (DIMS a_image) 0, c_index (DIMS a_image) 1,
                   convert_strides (STRIDES a_image) (ELSIZE a_image) 2) of
               (Some M, Some N, Some instrides) \<Rightarrow>
                 (let outstrides = [N, 1]
                  in case FIRsepsym2d_switch GNUC thetype of
                       None \<Rightarrow> (PYERR ''Incorrect type.'', [], h4)
                     | Some f \<Rightarrow>
                        (case (c_index (DIMS a_hrow) 0, c_index (DIMS a_hcol) 0) of
                           (Some Nhrow, Some Nhcol) \<Rightarrow>
                             (let c = Convolve2D f (DATA a_image) (DATA out) M N
                                        (DATA a_hrow) (DATA a_hcol) Nhrow Nhcol instrides outstrides
                              in case cores c h4 of
                                   (ret, h5) \<Rightarrow>
                                     if ret < 0 then
                                       (PYERR ''Problem occured inside routine.'', [c], h5)
                                     else (Returns out, [c], h5))
                         | _ \<Rightarrow> (Undefined, [], h4)))
             | _ \<Rightarrow> (Undefined, [], h4)))
        | (_, _, Inl err) \<Rightarrow> (Raises err, [], h3)
        | (_, Inl err, _) \<Rightarrow> (Raises err, [], h3)
        | (Inl err, _, _) \<Rightarrow> (Raises err, [], h3))"

subsection \<open>\<^verbatim>\<open>IIRsymorder1\<close>\<close>

text \<open>
  The gain \<open>c0\<close> and the pole \<open>z1\<close> are parsed as \<^verbatim>\<open>Py_complex\<close> values, with the fields
  \<^verbatim>\<open>real\<close> and \<^verbatim>\<open>imag\<close> (here \<open>Re\<close> and \<open>Im\<close>). \<open>to_float\<close> is the conversion of a
  finite \<^verbatim>\<open>double\<close> to \<^verbatim>\<open>float\<close>, which the initialisation of a \<^verbatim>\<open>float\<close> or of a
  \<^verbatim>\<open>__complex__ float\<close> variable performs. The two complex cases are there when \<^verbatim>\<open>__GNUC__\<close>
  is defined; when it is not, a complex type falls to \<^verbatim>\<open>default\<close>.
\<close>

definition IIRsymorder1_call ::
  "bool \<Rightarrow> (real \<Rightarrow> real) \<Rightarrow> PyArray_TYPES \<Rightarrow> complex \<Rightarrow> complex \<Rightarrow> addr \<Rightarrow> addr \<Rightarrow> int \<Rightarrow> int
     \<Rightarrow> int \<Rightarrow> double \<Rightarrow> core_call option" where
  "IIRsymorder1_call GNUC to_float thetype c0 z1 data_a_sig data_out N instrides outstrides
       precision =
     (case thetype of
        PyArray_FLOAT \<Rightarrow>
          (let rc0 = to_float (Re c0);
               rz1 = to_float (Re z1);
               precision = (if double_le precision (Finite 0) \<or> double_gt precision (Finite 1)
                            then Finite (1 / 1000000) else precision)
           in Some (Forback1 S_IIR_forback1 rc0 rz1 data_a_sig data_out N
                      instrides outstrides (float_cast to_float precision)))
      | PyArray_DOUBLE \<Rightarrow>
          (let rc0 = Re c0;
               rz1 = Re z1;
               precision = (if double_le precision (Finite 0) \<or> double_gt precision (Finite 1)
                            then Finite (1 / 100000000000) else precision)
           in Some (Forback1 D_IIR_forback1 rc0 rz1 data_a_sig data_out N
                      instrides outstrides precision))
      | PyArray_CFLOAT \<Rightarrow>
          if GNUC then
            (let zc0 = Complex (to_float (Re c0)) (to_float (Im c0));
                 zz1 = Complex (to_float (Re z1)) (to_float (Im z1));
                 precision = (if double_le precision (Finite 0) \<or> double_gt precision (Finite 1)
                              then Finite (1 / 1000000) else precision)
             in Some (Forback1_complex C_IIR_forback1 zc0 zz1 data_a_sig data_out N
                        instrides outstrides (float_cast to_float precision)))
          else None
      | PyArray_CDOUBLE \<Rightarrow>
          if GNUC then
            (let zc0 = Complex (Re c0) (Im c0);
                 zz1 = Complex (Re z1) (Im z1);
                 precision = (if double_le precision (Finite 0) \<or> double_gt precision (Finite 1)
                              then Finite (1 / 100000000000) else precision)
             in Some (Forback1_complex Z_IIR_forback1 zc0 zz1 data_a_sig data_out N
                        instrides outstrides precision))
          else None
      | _ \<Rightarrow> None)"

definition IIRsymorder1 ::
  "bool \<Rightarrow> (real \<Rightarrow> real) \<Rightarrow> 'v numeric_api \<Rightarrow> 'v cores \<Rightarrow> PyArrayObject \<Rightarrow> complex \<Rightarrow> complex
     \<Rightarrow> double option \<Rightarrow> 'v heap \<Rightarrow> outcome \<times> core_call list \<times> 'v heap" where
  "IIRsymorder1 GNUC to_float api cores sig c0 z1 precision_arg h =
    (let precision = (case precision_arg of None \<Rightarrow> Finite (- 1) | Some v \<Rightarrow> v);
         thetype = PyArray_ObjectType api sig PyArray_FLOAT;
         thetype = MIN_type thetype PyArray_CDOUBLE
     in case PyArray_FromObject api sig thetype 1 1 h of
          Inl err \<Rightarrow> (Raises err, [], h)
        | Inr (a_sig, h1) \<Rightarrow>
       (case PyArray_FromDims api 1 (DIMS a_sig) thetype h1 of
          Inl err \<Rightarrow> (Raises err, [], h1)
        | Inr (out, h2) \<Rightarrow>
       (case (c_index (DIMS a_sig) 0, convert_strides (STRIDES a_sig) (ELSIZE a_sig) 1) of
          (Some N, Some [instrides]) \<Rightarrow>
            (let outstrides = 1
             in case IIRsymorder1_call GNUC to_float thetype c0 z1 (DATA a_sig) (DATA out) N
                       instrides outstrides precision of
                  None \<Rightarrow> (PYERR ''Incorrect type.'', [], h2)
                | Some c \<Rightarrow>
                   (case cores c h2 of
                      (ret, h3) \<Rightarrow>
                        if ret < 0 then (PYERR ''Problem occured inside routine.'', [c], h3)
                        else (Returns out, [c], h3)))
        | _ \<Rightarrow> (Undefined, [], h2))))"

subsection \<open>\<^verbatim>\<open>IIRsymorder2\<close>\<close>

definition IIRsymorder2_call ::
  "PyArray_TYPES \<Rightarrow> real \<Rightarrow> real \<Rightarrow> addr \<Rightarrow> addr \<Rightarrow> int \<Rightarrow> int \<Rightarrow> int \<Rightarrow> double
     \<Rightarrow> core_call option" where
  "IIRsymorder2_call thetype r omega data_a_sig data_out N instrides outstrides precision =
     (case thetype of
        PyArray_FLOAT \<Rightarrow>
          Some (Forback2 S_IIR_forback2 r omega data_a_sig data_out N instrides outstrides
                  (if double_le precision (Finite 0) \<or> double_gt precision (Finite 1)
                   then Finite (1 / 1000000) else precision))
      | PyArray_DOUBLE \<Rightarrow>
          Some (Forback2 D_IIR_forback2 r omega data_a_sig data_out N instrides outstrides
                  (if double_le precision (Finite 0) \<or> double_gt precision (Finite 1)
                   then Finite (1 / 100000000000) else precision))
      | _ \<Rightarrow> None)"

definition IIRsymorder2 ::
  "'v numeric_api \<Rightarrow> 'v cores \<Rightarrow> PyArrayObject \<Rightarrow> real \<Rightarrow> real \<Rightarrow> double option \<Rightarrow> 'v heap
     \<Rightarrow> outcome \<times> core_call list \<times> 'v heap" where
  "IIRsymorder2 api cores sig r omega precision_arg h =
    (let precision = (case precision_arg of None \<Rightarrow> Finite (- 1) | Some v \<Rightarrow> v);
         thetype = PyArray_ObjectType api sig PyArray_FLOAT;
         thetype = MIN_type thetype PyArray_DOUBLE
     in case PyArray_FromObject api sig thetype 1 1 h of
          Inl err \<Rightarrow> (Raises err, [], h)
        | Inr (a_sig, h1) \<Rightarrow>
       (case PyArray_FromDims api 1 (DIMS a_sig) thetype h1 of
          Inl err \<Rightarrow> (Raises err, [], h1)
        | Inr (out, h2) \<Rightarrow>
       (case (c_index (DIMS a_sig) 0, convert_strides (STRIDES a_sig) (ELSIZE a_sig) 1) of
          (Some N, Some [instrides]) \<Rightarrow>
            (let outstrides = 1
             in case IIRsymorder2_call thetype r omega (DATA a_sig) (DATA out) N
                       instrides outstrides precision of
                  None \<Rightarrow> (PYERR ''Incorrect type.'', [], h2)
                | Some c \<Rightarrow>
                   (case cores c h2 of
                      (ret, h3) \<Rightarrow>
                        if ret < 0 then (PYERR ''Problem occured inside routine.'', [c], h3)
                        else (Returns out, [c], h3)))
        | _ \<Rightarrow> (Undefined, [], h2))))"

section \<open>What the statements assume of the library and of the routines\<close>

text \<open>
  The wrappers delegate coercion and allocation to the array library, and all computation
  to the numerical routines. Statements that depend on what these do name it as a
  hypothesis. The hypotheses on the library are the documented behaviour of the Numeric C
  API.
\<close>

text \<open>\<open>h'\<close> holds every buffer of \<open>h\<close>, unchanged, and possibly new ones.\<close>

definition heap_extends :: "'v heap \<Rightarrow> 'v heap \<Rightarrow> bool" where
  "heap_extends h h' = (take (length h) h' = h)"

text \<open>
  Types: a coercion that succeeds returns an array of the requested type, and it only
  casts safely, so the requested type is not narrower than the type of a numeric argument;
  an allocation returns an array of the requested type.
\<close>

definition library_types :: "'v numeric_api \<Rightarrow> bool" where
  "library_types api \<longleftrightarrow>
     (\<forall>a t mn mx h r h'.
        (PyArray_FromObject api a t mn mx h = Inr (r, h')
           \<or> PyArray_ContiguousFromObject api a t mn mx h = Inr (r, h'))
        \<longrightarrow> OBJECTTYPE r = t \<and> (OBJECTTYPE a \<noteq> PyArray_OBJECT \<longrightarrow> \<not> narrower t (OBJECTTYPE a)))
     \<and> (\<forall>n dims t h r h'. PyArray_FromDims api n dims t h = Inr (r, h') \<longrightarrow> OBJECTTYPE r = t)"

text \<open>
  \<^verbatim>\<open>PyArray_ObjectType(op, minimum_type)\<close> of an array is the larger of the array's type number
  and the minimum.
\<close>

definition library_object_type :: "'v numeric_api \<Rightarrow> bool" where
  "library_object_type api = (\<forall>a m. PyArray_ObjectType api a m = MAX_type (OBJECTTYPE a) m)"

text \<open>
  The strides in bytes of a contiguous array in row-major order, given its extents and the
  size of an element: for the extents \<open>M, N\<close> they are \<open>e * N\<close> and \<open>e\<close>.
\<close>

fun contiguous_strides :: "int list \<Rightarrow> int \<Rightarrow> int list" where
  "contiguous_strides [] e = []"
| "contiguous_strides (d # ds) e = (e * prod_list ds) # contiguous_strides ds e"

text \<open>
  Shapes: a coercion returns an array whose rank lies between the two depths given, with
  as many extents and strides as its rank and a positive element size;
  \<^verbatim>\<open>PyArray_FromDims(nd, dims, type)\<close> returns a contiguous array of rank \<open>nd\<close> with the first
  \<open>nd\<close> extents of \<open>dims\<close>.
\<close>

definition library_shapes :: "'v numeric_api \<Rightarrow> bool" where
  "library_shapes api \<longleftrightarrow>
     (\<forall>a t mn mx h r h'.
        (PyArray_FromObject api a t mn mx h = Inr (r, h')
           \<or> PyArray_ContiguousFromObject api a t mn mx h = Inr (r, h'))
        \<longrightarrow> mn \<le> RANK r \<and> RANK r \<le> mx \<and> length (DIMS r) = RANK r
            \<and> length (STRIDES r) = RANK r \<and> 0 < ELSIZE r)
     \<and> (\<forall>n dims t h r h'. PyArray_FromDims api n dims t h = Inr (r, h')
        \<longrightarrow> RANK r = n \<and> DIMS r = take n dims
            \<and> STRIDES r = contiguous_strides (take n dims) (ELSIZE r))"

text \<open>
  Memory: a library call leaves the existing buffers as they are, and the data of an array
  made by \<^verbatim>\<open>PyArray_FromDims\<close> is a buffer that did not exist before the call.
\<close>

definition library_frame :: "'v numeric_api \<Rightarrow> bool" where
  "library_frame api \<longleftrightarrow>
     (\<forall>a t mn mx h r h'.
        (PyArray_FromObject api a t mn mx h = Inr (r, h')
           \<or> PyArray_ContiguousFromObject api a t mn mx h = Inr (r, h'))
        \<longrightarrow> heap_extends h h')
     \<and> (\<forall>n dims t h r h'. PyArray_FromDims api n dims t h = Inr (r, h')
        \<longrightarrow> heap_extends h h' \<and> length h \<le> DATA r \<and> DATA r < length h')"

text \<open>
  Modelled from the spec: the numerical routines (\<^verbatim>\<open>S_cubic_spline2D\<close>, \<^verbatim>\<open>D_IIR_forback1\<close> and
  the others) are not among the sources. The specification says of them that they are
  side-effect-free apart from writing the output buffer, and that they never mutate the
  caller's input: a routine changes no buffer but the one its output pointer names, and
  allocates none that survives the call.
\<close>

definition cores_frame :: "'v cores \<Rightarrow> bool" where
  "cores_frame cores =
     (\<forall>c h ret h'. cores c h = (ret, h')
        \<longrightarrow> length h' = length h \<and> (\<forall>b<length h. b \<noteq> call_out c \<longrightarrow> h' ! b = h ! b))"

section \<open>An executable instance\<close>

text \<open>
  A small instance of the library and of the routines, on which the wrappers can be
  evaluated: buffers are lists of reals; a coercion returns its argument when the type
  already matches, copies it to a fresh contiguous array when the cast goes upwards, and
  refuses otherwise; an allocation appends a zero-filled buffer; and every routine returns
  the status it is given after copying its input buffer to its output buffer.
\<close>

definition elsize_of :: "PyArray_TYPES \<Rightarrow> int" where
  "elsize_of t =
     (if t = PyArray_CDOUBLE then 16
      else if t = PyArray_DOUBLE \<or> t = PyArray_CFLOAT \<or> t = PyArray_LONG \<or> t = PyArray_OBJECT then 8
      else if t = PyArray_FLOAT \<or> t = PyArray_INT \<or> t = PyArray_UINT then 4
      else if t = PyArray_SHORT \<or> t = PyArray_USHORT then 2
      else 1)"

definition example_FromObject ::
  "PyArrayObject \<Rightarrow> PyArray_TYPES \<Rightarrow> nat \<Rightarrow> nat \<Rightarrow> real list heap
     \<Rightarrow> PyErr + PyArrayObject \<times> real list heap" where
  "example_FromObject a t mn mx h =
     (if OBJECTTYPE a \<noteq> t \<and> (OBJECTTYPE a = PyArray_OBJECT \<or> narrower t (OBJECTTYPE a)) then
        Inl (PyExc_TypeError ''Array can not be safely cast to required type'')
      else if RANK a < mn then Inl (PyExc_ValueError ''Object of too small depth for desired array'')
      else if mx < RANK a then Inl (PyExc_ValueError ''Object too deep for desired array'')
      else if length (DIMS a) \<noteq> RANK a \<or> length (STRIDES a) \<noteq> RANK a \<or> ELSIZE a \<le> 0
              \<or> length h \<le> DATA a then
        Inl (PyExc_ValueError ''Invalid array'')
      else if OBJECTTYPE a = t then Inr (a, h)
      else Inr (a\<lparr>DATA := length h, STRIDES := contiguous_strides (DIMS a) (elsize_of t),
                  OBJECTTYPE := t, ELSIZE := elsize_of t\<rparr>, h @ [h ! DATA a]))"

definition example_FromDims ::
  "nat \<Rightarrow> int list \<Rightarrow> PyArray_TYPES \<Rightarrow> real list heap \<Rightarrow> PyErr + PyArrayObject \<times> real list heap" where
  "example_FromDims n dims t h =
     (if length dims < n \<or> (\<exists>d \<in> set (take n dims). d < 0) then
        Inl (PyExc_ValueError ''negative dimensions are not allowed'')
      else Inr (\<lparr>DATA = length h, RANK = n, DIMS = take n dims,
                 STRIDES = contiguous_strides (take n dims) (elsize_of t),
                 OBJECTTYPE = t, ELSIZE = elsize_of t\<rparr>,
                h @ [replicate (nat (prod_list (take n dims))) 0]))"

definition example_api :: "real list numeric_api" where
  "example_api =
     \<lparr>PyArray_ObjectType = (\<lambda>a m. MAX_type (OBJECTTYPE a) m),
      PyArray_FromObject = example_FromObject,
      PyArray_ContiguousFromObject = example_FromObject,
      PyArray_FromDims = example_FromDims\<rparr>"

definition example_cores :: "int \<Rightarrow> real list cores" where
  "example_cores status c h =
     (status,
      if call_in c < length h \<and> call_out c < length h then h[call_out c := h ! call_in c] else h)"

text \<open>
  A contiguous array of the given type and extents whose data is buffer \<open>0\<close>, and the
  \<open>2 \<times> 2\<close> image with the rows \<open>1, 2\<close> and \<open>3, 4\<close> in a heap of its own.
\<close>

definition example_array :: "PyArray_TYPES \<Rightarrow> int list \<Rightarrow> PyArrayObject" where
  "example_array t dims =
     \<lparr>DATA = 0, RANK = length dims, DIMS = dims, STRIDES = contiguous_strides dims (elsize_of t),
      OBJECTTYPE = t, ELSIZE = elsize_of t\<rparr>"

definition example_heap :: "real list heap" where
  "example_heap = [[1, 2, 3, 4]]"

text \<open>
  The call that \<^verbatim>\<open>qspline2d\<close> makes on the executable instance in the scenario of the
  specification: the \<open>2 \<times> 2\<close> image above, of type \<^verbatim>\<open>PyArray_DOUBLE\<close>, with \<open>lambda = 0\<close> and
  precision \<open>10\<^sup>-\<^sup>6\<close>. The image is buffer \<open>0\<close> and the output is buffer \<open>1\<close>.
\<close>

definition scenario_call :: core_call where
  "scenario_call =
     Spline2D D_quadratic_spline2D 0 1 2 2 (Finite 0) [2, 1] [2, 1] (Finite (1 / 10 ^ 6))"

text \<open>
  Modelled from the spec: \<^verbatim>\<open>D_quadratic_spline2D\<close> is not among the sources. The specification
  says of the numerical routines that they return a status, \<open>0\<close> for success, and write the
  output buffer only, and of this routine in the scenario that its status is \<open>0\<close>. It leaves
  the convergence criterion of the routine open, so the status cannot be computed from a
  rule, and it gives neither the coefficients nor the status of any other call: the model
  leaves the heap as it is, and answers every other call with the generic failure \<open>-1\<close>.
\<close>

definition scenario_cores :: "real list cores" where
  "scenario_cores c h = (if c = scenario_call then (0, h) else (- 1, h))"

section \<open>Vocabulary of the statements\<close>

text \<open>
  The element type a wrapper works in: \<^verbatim>\<open>cspline2d\<close>, \<^verbatim>\<open>qspline2d\<close> and \<^verbatim>\<open>IIRsymorder2\<close>
  bound the type the library proposes by \<^verbatim>\<open>PyArray_DOUBLE\<close>, \<^verbatim>\<open>FIRsepsym2d\<close> and
  \<^verbatim>\<open>IIRsymorder1\<close> by \<^verbatim>\<open>PyArray_CDOUBLE\<close>.
\<close>

abbreviation real_thetype :: "'v numeric_api \<Rightarrow> PyArrayObject \<Rightarrow> PyArray_TYPES" where
  "real_thetype api img \<equiv> MIN_type (PyArray_ObjectType api img PyArray_FLOAT) PyArray_DOUBLE"

abbreviation any_thetype :: "'v numeric_api \<Rightarrow> PyArrayObject \<Rightarrow> PyArray_TYPES" where
  "any_thetype api img \<equiv> MIN_type (PyArray_ObjectType api img PyArray_FLOAT) PyArray_CDOUBLE"

text \<open>The value of an optional argument: the one given, or the initialiser of the variable.\<close>

definition arg_or :: "'a option \<Rightarrow> 'a \<Rightarrow> 'a" where
  "arg_or a d = (case a of None \<Rightarrow> d | Some v \<Rightarrow> v)"

text \<open>
  How the wrappers turn the status of a routine into an outcome: the two tests of
  \<^verbatim>\<open>cspline2d\<close> and \<^verbatim>\<open>qspline2d\<close>, and the single test of the three others.
\<close>

definition spline_status :: "int \<Rightarrow> PyArrayObject \<Rightarrow> outcome" where
  "spline_status retval ck =
     (if retval = - 3 then PYERR ''Precision too high.  Error did not converge.''
      else if retval < 0 then PYERR ''Problem occured inside routine''
      else Returns ck)"

definition filter_status :: "int \<Rightarrow> PyArrayObject \<Rightarrow> outcome" where
  "filter_status ret out =
     (if ret < 0 then PYERR ''Problem occured inside routine.'' else Returns out)"

text \<open>The smoothing parameter that a call hands to its routine.\<close>

fun call_lambda :: "core_call \<Rightarrow> double option" where
  "call_lambda (Spline2D f inp out M N lambda instrides outstrides precision) = Some lambda"
| "call_lambda (Convolve2D f inp out M N hrow hcol Nhrow Nhcol instrides outstrides) = None"
| "call_lambda (Forback1 f c0 z1 inp out N instrides outstrides precision) = None"
| "call_lambda (Forback1_complex f c0 z1 inp out N instrides outstrides precision) = None"
| "call_lambda (Forback2 f r omega inp out N instrides outstrides precision) = None"

text \<open>
  The precision that reaches the routine when the default of the case is \<open>d\<close>: the test
  \<^verbatim>\<open>(precision <= 0.0) || (precision > 1.0)\<close> and the assignment that follows it.
\<close>

definition clamp_precision :: "real \<Rightarrow> double \<Rightarrow> double" where
  "clamp_precision d p =
     (if double_le p (Finite 0) \<or> double_gt p (Finite 1) then Finite d else p)"

text \<open>A double that lies in the interval \<open>(0, 1]\<close>.\<close>

definition in_unit_interval :: "double \<Rightarrow> bool" where
  "in_unit_interval p = (case p of Finite x \<Rightarrow> 0 < x \<and> x \<le> 1 | _ \<Rightarrow> False)"

text \<open>Single precision element types, real or complex.\<close>

definition single_precision :: "PyArray_TYPES \<Rightarrow> bool" where
  "single_precision t = (t = PyArray_FLOAT \<or> t = PyArray_CFLOAT)"

text \<open>
  The default precisions as the specification gives them: \<open>10\<^sup>-\<^sup>3\<close> in single and \<open>10\<^sup>-\<^sup>6\<close> in
  double precision for the two spline operations, \<open>10\<^sup>-\<^sup>6\<close> and \<open>10\<^sup>-\<^sup>1\<^sup>1\<close> for the two
  symmetric filters.
\<close>

definition spline_default_precision :: "PyArray_TYPES \<Rightarrow> real" where
  "spline_default_precision t = (if single_precision t then 1 / 10 ^ 3 else 1 / 10 ^ 6)"

definition symiir_default_precision :: "PyArray_TYPES \<Rightarrow> real" where
  "symiir_default_precision t = (if single_precision t then 1 / 10 ^ 6 else 1 / 10 ^ 11)"

text \<open>The mirror convolution routine that corresponds to an element type.\<close>

definition convolve_routine_of :: "PyArray_TYPES \<Rightarrow> convolve_routine" where
  "convolve_routine_of t =
     (if t = PyArray_FLOAT then S_separable_2Dconvolve_mirror
      else if t = PyArray_DOUBLE then D_separable_2Dconvolve_mirror
      else if t = PyArray_CFLOAT then C_separable_2Dconvolve_mirror
      else Z_separable_2Dconvolve_mirror)"

text \<open>
  The element type a wrapper works in when the library proposes, as Numeric does, the
  larger of the type of the array and the minimum: an image of a type below
  \<^verbatim>\<open>PyArray_FLOAT\<close> is promoted to \<^verbatim>\<open>PyArray_FLOAT\<close>.
\<close>

definition promoted :: "PyArray_TYPES \<Rightarrow> PyArray_TYPES \<Rightarrow> PyArray_TYPES" where
  "promoted bound t = MIN_type (MAX_type t PyArray_FLOAT) bound"

text \<open>
  What the statements say of a result \<open>res\<close> made for the coerced input \<open>a\<close> by a wrapper that
  was entered with the heap \<open>h\<close>: it has the rank and the extents of \<open>a\<close>, it is contiguous,
  and its data is a buffer that \<open>h\<close> does not hold.
\<close>

definition same_shape_fresh :: "PyArrayObject \<Rightarrow> PyArrayObject \<Rightarrow> 'v heap \<Rightarrow> bool" where
  "same_shape_fresh res a h \<longleftrightarrow>
     RANK res = RANK a \<and> DIMS res = DIMS a
     \<and> STRIDES res = contiguous_strides (DIMS a) (ELSIZE res) \<and> length h \<le> DATA res"

text \<open>
  The conversion that a value handed to a routine has gone through: the single precision
  routines receive \<^verbatim>\<open>float\<close> values.
\<close>

definition narrowed :: "(real \<Rightarrow> real) \<Rightarrow> PyArray_TYPES \<Rightarrow> real \<Rightarrow> real" where
  "narrowed to_float t x = (if single_precision t then to_float x else x)"

section \<open>Properties of \<^verbatim>\<open>convert_strides\<close>\<close>

lemma bitshift_loop_bracket:
  "2 ^ k \<le> sz \<Longrightarrow> sz < 2 ^ Suc k \<Longrightarrow> bitshift_loop sz acc = Some (acc + int k + 1)"
proof (induction k arbitrary: sz acc)
  case 0
  then have "sz = 1" by simp
  then show ?case
    by (simp add: bitshift_loop.simps [of 1] bitshift_loop.simps [of 0] shr_def)
next
  case (Suc k)
  have nz: "sz \<noteq> 0" using Suc.prems by (smt (verit) zero_less_power)
  have lo: "2 ^ k \<le> sz div 2" using Suc.prems by simp
  have hi: "sz div 2 < 2 ^ Suc k" using Suc.prems by simp
  have "bitshift_loop sz acc = bitshift_loop (sz div 2) (acc + 1)"
    using nz by (subst bitshift_loop.simps) (simp add: shr_def)
  also have "\<dots> = Some (acc + 1 + int k + 1)"
    by (rule Suc.IH [OF lo hi])
  finally show ?case by simp
qed

lemma bitshift_loop_Some_nonneg:
  assumes "bitshift_loop sz acc = Some r"
  shows "0 \<le> sz"
proof (rule bitshift_loop.raw_induct [where P = "\<lambda>s a r. 0 \<le> s", OF _ assms])
  fix f :: "int \<Rightarrow> int \<Rightarrow> int option" and s a r
  assume IH: "\<And>s a r. f s a = Some r \<Longrightarrow> 0 \<le> s"
    and step: "(if s \<noteq> 0 then f (shr s 1) (a + 1) else Some a) = Some r"
  show "0 \<le> s"
  proof (cases "s = 0")
    case True
    then show ?thesis by simp
  next
    case False
    with step have "f (shr s 1) (a + 1) = Some r" by simp
    then have "0 \<le> shr s 1" by (rule IH)
    then show ?thesis by (simp add: shr_def)
  qed
qed

lemma bitshift_loop_negative: "sz < 0 \<Longrightarrow> bitshift_loop sz acc = None"
  using bitshift_loop_Some_nonneg [of sz acc] by (cases "bitshift_loop sz acc") auto

lemma convert_strides_bracket:
  assumes "2 ^ k \<le> sz" "sz < 2 ^ Suc k" "N \<le> length instrides"
  shows "convert_strides instrides sz N = Some (map (\<lambda>n. shr (instrides ! n) (int k)) [0..<N])"
  using assms by (simp add: convert_strides_def bitshift_loop_bracket [OF assms(1,2)])

lemma floor_log2_bracket:
  assumes "0 < sz"
  shows "2 ^ nat \<lfloor>log 2 (real_of_int sz)\<rfloor> \<le> sz \<and> sz < 2 ^ Suc (nat \<lfloor>log 2 (real_of_int sz)\<rfloor>)"
proof -
  define m where "m = nat sz"
  define k where "k = nat \<lfloor>log 2 (real m)\<rfloor>"
  have m: "0 < m" "sz = int m" using assms by (simp_all add: m_def)
  have "1 \<le> real m" using m by simp
  then have "0 \<le> log 2 (real m)" by simp
  then have "\<lfloor>log 2 (real m)\<rfloor> = int k" by (simp add: k_def)
  then have "2 ^ k \<le> m \<and> m < 2 ^ (k + 1)"
    using floor_log_nat_eq_powr_iff [of 2 m k] m by simp
  then have "(2::int) ^ k \<le> int m \<and> int m < 2 ^ Suc k"
    by (metis Suc_eq_plus1 of_nat_le_iff of_nat_less_iff of_nat_numeral of_nat_power)
  then show ?thesis using m by (simp add: k_def)
qed

lemma shr_exact: "0 \<le> s \<Longrightarrow> 2 ^ b dvd s \<Longrightarrow> shr s (int b) = c_div s (2 ^ b)"
  by (simp add: shr_def c_div_def sgn_if)

lemma convert_strides_defined:
  assumes "0 < sz" "N \<le> length instrides"
  obtains v where "convert_strides instrides sz N = Some v" "length v = N"
proof -
  define k where "k = nat \<lfloor>log 2 (real_of_int sz)\<rfloor>"
  have br: "2 ^ k \<le> sz" "sz < 2 ^ Suc k"
    using floor_log2_bracket [OF assms(1)] by (simp_all add: k_def)
  have "convert_strides instrides sz N = Some (map (\<lambda>n. shr (instrides ! n) (int k)) [0..<N])"
    by (rule convert_strides_bracket [OF br assms(2)])
  then show ?thesis by (rule that) simp
qed

lemma length_2: "length xs = 2 \<Longrightarrow> \<exists>x y. xs = [x, y]"
  by (cases xs; cases "tl xs") auto

lemma length_1: "length xs = Suc 0 \<Longrightarrow> \<exists>x. xs = [x]"
  by (cases xs) auto

section \<open>The paths through the entry points\<close>

text \<open>
  One case for each way an entry point can end: a coercion fails, the allocation fails, a
  read has no defined value, no routine is selected, or a routine is called and its status
  decides.
\<close>

lemma cspline2d_cases [consumes 1, case_names coerce_fails alloc_fails undefined called]:
  assumes run: "cspline2d api cores img lambda_arg precision_arg h = (out, calls, h')"
  obtains
    err where "PyArray_FromObject api img (real_thetype api img) 2 2 h = Inl err"
      "out = Raises err" "calls = []" "h' = h"
  | a_image h1 err where "PyArray_FromObject api img (real_thetype api img) 2 2 h = Inr (a_image, h1)"
      "PyArray_FromDims api 2 (DIMS a_image) (real_thetype api img) h1 = Inl err"
      "out = Raises err" "calls = []" "h' = h1"
  | a_image h1 ck where "PyArray_FromObject api img (real_thetype api img) 2 2 h = Inr (a_image, h1)"
      "PyArray_FromDims api 2 (DIMS a_image) (real_thetype api img) h1 = Inr (ck, h')"
      "out = Undefined" "calls = []"
  | a_image h1 ck h2 M N instrides c retval where 
      "PyArray_FromObject api img (real_thetype api img) 2 2 h = Inr (a_image, h1)"
      "PyArray_FromDims api 2 (DIMS a_image) (real_thetype api img) h1 = Inr (ck, h2)"
      "c_index (DIMS a_image) 0 = Some M" "c_index (DIMS a_image) 1 = Some N"
      "convert_strides (STRIDES a_image) (ELSIZE a_image) 2 = Some instrides"
      "cspline2d_call (real_thetype api img) (DATA a_image) (DATA ck) M N (arg_or lambda_arg (Finite 0))
         instrides [N, 1] (arg_or precision_arg (Finite (- 1))) = Some c"
      "cores c h2 = (retval, h')" "calls = [c]" "out = spline_status retval ck"
proof (cases "PyArray_FromObject api img (real_thetype api img) 2 2 h")
  case (Inl err)
  with run have "out = Raises err" "calls = []" "h' = h"
    by (simp_all add: cspline2d_def)
  with Inl show ?thesis by (rule that(1))
next
  case (Inr p1)
  then obtain a_image h1 where
    co: "PyArray_FromObject api img (real_thetype api img) 2 2 h = Inr (a_image, h1)"
    by (cases p1) auto
  show ?thesis
  proof (cases "PyArray_FromDims api 2 (DIMS a_image) (real_thetype api img) h1")
    case (Inl err)
    with run co have "out = Raises err" "calls = []" "h' = h1"
      by (simp_all add: cspline2d_def)
    with co Inl show ?thesis by (rule that(2))
  next
    case (Inr p2)
    then obtain ck h2 where
      al: "PyArray_FromDims api 2 (DIMS a_image) (real_thetype api img) h1 = Inr (ck, h2)"
      by (cases p2) auto
    show ?thesis
    proof (cases "\<exists>M N instrides c. c_index (DIMS a_image) 0 = Some M
        \<and> c_index (DIMS a_image) 1 = Some N
        \<and> convert_strides (STRIDES a_image) (ELSIZE a_image) 2 = Some instrides
        \<and> cspline2d_call (real_thetype api img) (DATA a_image) (DATA ck) M N (arg_or lambda_arg (Finite 0))
              instrides [N, 1] (arg_or precision_arg (Finite (- 1))) = Some c")
      case False
      with run co al have "out = Undefined" "calls = []" "h' = h2"
        by (auto simp add: cspline2d_def arg_or_def split: option.splits)
      with co al show ?thesis using that(3) by blast
    next
      case True
      then obtain M N instrides c where
        rd: "c_index (DIMS a_image) 0 = Some M" "c_index (DIMS a_image) 1 = Some N"
          "convert_strides (STRIDES a_image) (ELSIZE a_image) 2 = Some instrides"
        and cl: "cspline2d_call (real_thetype api img) (DATA a_image) (DATA ck) M N (arg_or lambda_arg (Finite 0))
              instrides [N, 1] (arg_or precision_arg (Finite (- 1))) = Some c"
        by blast
      obtain retval h3 where cr: "cores c h2 = (retval, h3)" by (cases "cores c h2") auto
      have "cspline2d api cores img lambda_arg precision_arg h = (spline_status retval ck, [c], h3)"
        using co al rd cl cr
        by (simp add: cspline2d_def arg_or_def spline_status_def)
      with run have "out = spline_status retval ck" "calls = [c]" "h' = h3" by simp_all
      with co al rd cl cr show ?thesis using that(4) by blast
    qed
  qed
qed

lemma qspline2d_cases [consumes 1, case_names smoothing coerce_fails alloc_fails undefined called]:
  assumes run: "qspline2d api cores img lambda_arg precision_arg h = (out, calls, h')"
  obtains
    "double_ne (arg_or lambda_arg (Finite 0)) (Finite 0)" "out = PYERR ''Smoothing spline not yet implemented.''"
      "calls = []" "h' = h"
  | err where "\<not> double_ne (arg_or lambda_arg (Finite 0)) (Finite 0)" "PyArray_FromObject api img (real_thetype api img) 2 2 h = Inl err"
      "out = Raises err" "calls = []" "h' = h"
  | a_image h1 err where "\<not> double_ne (arg_or lambda_arg (Finite 0)) (Finite 0)" "PyArray_FromObject api img (real_thetype api img) 2 2 h = Inr (a_image, h1)"
      "PyArray_FromDims api 2 (DIMS a_image) (real_thetype api img) h1 = Inl err"
      "out = Raises err" "calls = []" "h' = h1"
  | a_image h1 ck where "\<not> double_ne (arg_or lambda_arg (Finite 0)) (Finite 0)" "PyArray_FromObject api img (real_thetype api img) 2 2 h = Inr (a_image, h1)"
      "PyArray_FromDims api 2 (DIMS a_image) (real_thetype api img) h1 = Inr (ck, h')"
      "out = Undefined" "calls = []"
  | a_image h1 ck h2 M N instrides c retval where "\<not> double_ne (arg_or lambda_arg (Finite 0)) (Finite 0)" 
      "PyArray_FromObject api img (real_thetype api img) 2 2 h = Inr (a_image, h1)"
      "PyArray_FromDims api 2 (DIMS a_image) (real_thetype api img) h1 = Inr (ck, h2)"
      "c_index (DIMS a_image) 0 = Some M" "c_index (DIMS a_image) 1 = Some N"
      "convert_strides (STRIDES a_image) (ELSIZE a_image) 2 = Some instrides"
      "qspline2d_call (real_thetype api img) (DATA a_image) (DATA ck) M N (arg_or lambda_arg (Finite 0))
         instrides [N, 1] (arg_or precision_arg (Finite (- 1))) = Some c"
      "cores c h2 = (retval, h')" "calls = [c]" "out = spline_status retval ck"
proof (cases "\<not> double_ne (arg_or lambda_arg (Finite 0)) (Finite 0)")
  case False
  then have ne: "double_ne (arg_or lambda_arg (Finite 0)) (Finite 0)" by simp
  with run have "out = PYERR ''Smoothing spline not yet implemented.''" "calls = []" "h' = h"
    by (simp_all add: qspline2d_def arg_or_def)
  with ne show ?thesis by (rule that(1))
next
  case lam: True
  show ?thesis
  proof (cases "PyArray_FromObject api img (real_thetype api img) 2 2 h")
    case (Inl err)
    with run lam have "out = Raises err" "calls = []" "h' = h"
      by (simp_all add: qspline2d_def arg_or_def)
    with lam Inl show ?thesis by (rule that(2))
  next
    case (Inr p1)
    then obtain a_image h1 where
      co: "PyArray_FromObject api img (real_thetype api img) 2 2 h = Inr (a_image, h1)"
      by (cases p1) auto
    show ?thesis
    proof (cases "PyArray_FromDims api 2 (DIMS a_image) (real_thetype api img) h1")
      case (Inl err)
      with run lam co have "out = Raises err" "calls = []" "h' = h1"
        by (simp_all add: qspline2d_def arg_or_def)
      with lam co Inl show ?thesis by (rule that(3))
    next
      case (Inr p2)
      then obtain ck h2 where
        al: "PyArray_FromDims api 2 (DIMS a_image) (real_thetype api img) h1 = Inr (ck, h2)"
        by (cases p2) auto
      show ?thesis
      proof (cases "\<exists>M N instrides c. c_index (DIMS a_image) 0 = Some M
          \<and> c_index (DIMS a_image) 1 = Some N
          \<and> convert_strides (STRIDES a_image) (ELSIZE a_image) 2 = Some instrides
          \<and> qspline2d_call (real_thetype api img) (DATA a_image) (DATA ck) M N (arg_or lambda_arg (Finite 0))
                instrides [N, 1] (arg_or precision_arg (Finite (- 1))) = Some c")
        case False
        with run lam co al have "out = Undefined" "calls = []" "h' = h2"
          by (auto simp add: qspline2d_def arg_or_def split: option.splits)
        with lam co al show ?thesis using that(4) by blast
      next
        case True
        then obtain M N instrides c where
          rd: "c_index (DIMS a_image) 0 = Some M" "c_index (DIMS a_image) 1 = Some N"
            "convert_strides (STRIDES a_image) (ELSIZE a_image) 2 = Some instrides"
          and cl: "qspline2d_call (real_thetype api img) (DATA a_image) (DATA ck) M N (arg_or lambda_arg (Finite 0))
                instrides [N, 1] (arg_or precision_arg (Finite (- 1))) = Some c"
          by blast
        obtain retval h3 where cr: "cores c h2 = (retval, h3)" by (cases "cores c h2") auto
        have "qspline2d api cores img lambda_arg precision_arg h = (spline_status retval ck, [c], h3)"
          using lam co al rd cl cr
          by (simp add: qspline2d_def arg_or_def spline_status_def)
        with run have "out = spline_status retval ck" "calls = [c]" "h' = h3" by simp_all
        with lam co al rd cl cr show ?thesis using that(5) by blast
      qed
    qed
  qed
qed

lemma FIRsepsym2d_switch_eq:
  "FIRsepsym2d_switch GNUC t
     = (if is_real_float t \<or> (GNUC \<and> is_complex t) then Some (convolve_routine_of t)
        else None)"
  by (cases t) (simp_all add: FIRsepsym2d_switch_def is_real_float_def is_complex_def
      convolve_routine_of_def)

lemma FIRsepsym2d_cases [consumes 1, case_names coerce_fails alloc_fails undefined incorrect_type called]:
  assumes run: "FIRsepsym2d GNUC api cores img hrow hcol h = (out, calls, h')"
  defines "t \<equiv> any_thetype api img"
  defines "r_image \<equiv> PyArray_FromObject api img t 2 2 h"
  defines "r_hrow \<equiv> PyArray_ContiguousFromObject api hrow t 1 1 (heap_after r_image h)"
  defines "r_hcol \<equiv> PyArray_ContiguousFromObject api hcol t 1 1 (heap_after r_hrow (heap_after r_image h))"
  obtains
    err where "r_image = Inl err \<or> r_hrow = Inl err \<or> r_hcol = Inl err"
      "out = Raises err" "calls = []"
      "h' = heap_after r_hcol (heap_after r_hrow (heap_after r_image h))"
  | a_image h1 a_hrow h2 a_hcol h3 err where
      "PyArray_FromObject api img t 2 2 h = Inr (a_image, h1)"
      "PyArray_ContiguousFromObject api hrow t 1 1 h1 = Inr (a_hrow, h2)"
      "PyArray_ContiguousFromObject api hcol t 1 1 h2 = Inr (a_hcol, h3)"
      "PyArray_FromDims api 2 (DIMS a_image) t h3 = Inl err"
      "out = Raises err" "calls = []" "h' = h3"
  | a_image h1 a_hrow h2 a_hcol h3 res where
      "PyArray_FromObject api img t 2 2 h = Inr (a_image, h1)"
      "PyArray_ContiguousFromObject api hrow t 1 1 h1 = Inr (a_hrow, h2)"
      "PyArray_ContiguousFromObject api hcol t 1 1 h2 = Inr (a_hcol, h3)"
      "PyArray_FromDims api 2 (DIMS a_image) t h3 = Inr (res, h')"
      "out = Undefined" "calls = []"
  | a_image h1 a_hrow h2 a_hcol h3 res M N instrides where
      "PyArray_FromObject api img t 2 2 h = Inr (a_image, h1)"
      "PyArray_ContiguousFromObject api hrow t 1 1 h1 = Inr (a_hrow, h2)"
      "PyArray_ContiguousFromObject api hcol t 1 1 h2 = Inr (a_hcol, h3)"
      "PyArray_FromDims api 2 (DIMS a_image) t h3 = Inr (res, h')"
      "c_index (DIMS a_image) 0 = Some M" "c_index (DIMS a_image) 1 = Some N"
      "convert_strides (STRIDES a_image) (ELSIZE a_image) 2 = Some instrides"
      "FIRsepsym2d_switch GNUC t = None"
      "out = PYERR ''Incorrect type.''" "calls = []"
  | a_image h1 a_hrow h2 a_hcol h3 res h4 M N instrides f Nhrow Nhcol c ret where
      "PyArray_FromObject api img t 2 2 h = Inr (a_image, h1)"
      "PyArray_ContiguousFromObject api hrow t 1 1 h1 = Inr (a_hrow, h2)"
      "PyArray_ContiguousFromObject api hcol t 1 1 h2 = Inr (a_hcol, h3)"
      "PyArray_FromDims api 2 (DIMS a_image) t h3 = Inr (res, h4)"
      "c_index (DIMS a_image) 0 = Some M" "c_index (DIMS a_image) 1 = Some N"
      "convert_strides (STRIDES a_image) (ELSIZE a_image) 2 = Some instrides"
      "FIRsepsym2d_switch GNUC t = Some f"
      "c_index (DIMS a_hrow) 0 = Some Nhrow" "c_index (DIMS a_hcol) 0 = Some Nhcol"
      "c = Convolve2D f (DATA a_image) (DATA res) M N (DATA a_hrow) (DATA a_hcol)
             Nhrow Nhcol instrides [N, 1]"
      "cores c h4 = (ret, h')" "calls = [c]" "out = filter_status ret res"
proof -
  define g3 where "g3 = heap_after r_hcol (heap_after r_hrow (heap_after r_image h))"
  have unfold: "FIRsepsym2d GNUC api cores img hrow hcol h =
    (case (r_image, r_hrow, r_hcol) of
          (Inr (a_image, _), Inr (a_hrow, _), Inr (a_hcol, _)) \<Rightarrow>
            (case PyArray_FromDims api 2 (DIMS a_image) t g3 of
               Inl err \<Rightarrow> (Raises err, [], g3)
             | Inr (out, h4) \<Rightarrow>
            (case (c_index (DIMS a_image) 0, c_index (DIMS a_image) 1,
                   convert_strides (STRIDES a_image) (ELSIZE a_image) 2) of
               (Some M, Some N, Some instrides) \<Rightarrow>
                 (case FIRsepsym2d_switch GNUC t of
                       None \<Rightarrow> (PYERR ''Incorrect type.'', [], h4)
                     | Some f \<Rightarrow>
                        (case (c_index (DIMS a_hrow) 0, c_index (DIMS a_hcol) 0) of
                           (Some Nhrow, Some Nhcol) \<Rightarrow>
                             (case cores (Convolve2D f (DATA a_image) (DATA out) M N
                                        (DATA a_hrow) (DATA a_hcol) Nhrow Nhcol instrides [N, 1]) h4 of
                                (ret, h5) \<Rightarrow>
                                  (filter_status ret out,
                                   [Convolve2D f (DATA a_image) (DATA out) M N
                                        (DATA a_hrow) (DATA a_hcol) Nhrow Nhcol instrides [N, 1]],
                                   h5))
                         | _ \<Rightarrow> (Undefined, [], h4)))
             | _ \<Rightarrow> (Undefined, [], h4)))
        | (_, _, Inl err) \<Rightarrow> (Raises err, [], g3)
        | (_, Inl err, _) \<Rightarrow> (Raises err, [], g3)
        | (Inl err, _, _) \<Rightarrow> (Raises err, [], g3))"
    unfolding FIRsepsym2d_def Let_def t_def r_image_def r_hrow_def r_hcol_def g3_def
      filter_status_def
    by (simp split: sum.splits prod.splits option.splits cong: sum.case_cong option.case_cong prod.case_cong)
  show ?thesis
  proof (cases "\<exists>a_image x1 a_hrow x2 a_hcol x3. r_image = Inr (a_image, x1)
      \<and> r_hrow = Inr (a_hrow, x2) \<and> r_hcol = Inr (a_hcol, x3)")
    case False
    then obtain err where e: "r_image = Inl err \<or> r_hrow = Inl err \<or> r_hcol = Inl err"
      and "FIRsepsym2d GNUC api cores img hrow hcol h = (Raises err, [], g3)"
      unfolding unfold
      by (cases r_image; cases r_hrow; cases r_hcol) auto
    with run have "out = Raises err" "calls = []" "h' = g3" by simp_all
    with e show ?thesis unfolding g3_def by (rule that(1))
  next
    case True
    then obtain a_image h1 a_hrow h2 a_hcol h3 where
      co: "r_image = Inr (a_image, h1)" "r_hrow = Inr (a_hrow, h2)" "r_hcol = Inr (a_hcol, h3)"
      by blast
    have co1: "PyArray_FromObject api img t 2 2 h = Inr (a_image, h1)"
      using co(1) by (simp add: r_image_def)
    have co2: "PyArray_ContiguousFromObject api hrow t 1 1 h1 = Inr (a_hrow, h2)"
      using co(2) co(1) by (simp add: r_hrow_def heap_after_def)
    have co3: "PyArray_ContiguousFromObject api hcol t 1 1 h2 = Inr (a_hcol, h3)"
      using co(3) co(2) co(1) by (simp add: r_hcol_def heap_after_def)
    have g3: "g3 = h3" using co by (simp add: g3_def heap_after_def)
    show ?thesis
    proof (cases "PyArray_FromDims api 2 (DIMS a_image) t h3")
      case (Inl err)
      with run co g3 have "out = Raises err" "calls = []" "h' = h3"
        by (simp_all add: unfold)
      with co1 co2 co3 Inl show ?thesis by (rule that(2))
    next
      case (Inr p2)
      then obtain res h4 where
        al: "PyArray_FromDims api 2 (DIMS a_image) t h3 = Inr (res, h4)"
        by (cases p2) auto
      show ?thesis
      proof (cases "\<exists>M N instrides. c_index (DIMS a_image) 0 = Some M
          \<and> c_index (DIMS a_image) 1 = Some N
          \<and> convert_strides (STRIDES a_image) (ELSIZE a_image) 2 = Some instrides")
        case False
        with run co g3 al have "out = Undefined" "calls = []" "h' = h4"
          by (auto simp add: unfold split: option.splits)
        with co1 co2 co3 al show ?thesis using that(3) by blast
      next
        case True
        then obtain M N instrides where
          rd: "c_index (DIMS a_image) 0 = Some M" "c_index (DIMS a_image) 1 = Some N"
            "convert_strides (STRIDES a_image) (ELSIZE a_image) 2 = Some instrides"
          by blast
        show ?thesis
        proof (cases "FIRsepsym2d_switch GNUC t")
          case None
          with run co g3 al rd have "out = PYERR ''Incorrect type.''" "calls = []" "h' = h4"
            by (simp_all add: unfold)
          with co1 co2 co3 al rd None show ?thesis using that(4) by blast
        next
          case (Some f)
          show ?thesis
          proof (cases "\<exists>Nhrow Nhcol. c_index (DIMS a_hrow) 0 = Some Nhrow
              \<and> c_index (DIMS a_hcol) 0 = Some Nhcol")
            case False
            with run co g3 al rd Some have "out = Undefined" "calls = []" "h' = h4"
              by (auto simp add: unfold split: option.splits)
            with co1 co2 co3 al show ?thesis using that(3) by blast
          next
            case True
            then obtain Nhrow Nhcol where
              rk: "c_index (DIMS a_hrow) 0 = Some Nhrow" "c_index (DIMS a_hcol) 0 = Some Nhcol"
              by blast
            define c where "c = Convolve2D f (DATA a_image) (DATA res) M N (DATA a_hrow)
              (DATA a_hcol) Nhrow Nhcol instrides [N, 1]"
            obtain ret h5 where cr: "cores c h4 = (ret, h5)" by (cases "cores c h4") auto
            have "FIRsepsym2d GNUC api cores img hrow hcol h = (filter_status ret res, [c], h5)"
              using co g3 al rd Some rk cr by (simp add: unfold c_def)
            with run have "out = filter_status ret res" "calls = [c]" "h' = h5" by simp_all
            with co1 co2 co3 al rd Some rk c_def cr show ?thesis using that(5) by blast
          qed
        qed
      qed
    qed
  qed
qed

lemma IIRsymorder1_cases [consumes 1, case_names coerce_fails alloc_fails undefined incorrect_type called]:
  assumes run: "IIRsymorder1 GNUC to_float api cores sig c0 z1 precision_arg h = (out, calls, h')"
  obtains
    err where "PyArray_FromObject api sig (any_thetype api sig) 1 1 h = Inl err"
      "out = Raises err" "calls = []" "h' = h"
  | a_sig h1 err where "PyArray_FromObject api sig (any_thetype api sig) 1 1 h = Inr (a_sig, h1)"
      "PyArray_FromDims api 1 (DIMS a_sig) (any_thetype api sig) h1 = Inl err"
      "out = Raises err" "calls = []" "h' = h1"
  | a_sig h1 res where "PyArray_FromObject api sig (any_thetype api sig) 1 1 h = Inr (a_sig, h1)"
      "PyArray_FromDims api 1 (DIMS a_sig) (any_thetype api sig) h1 = Inr (res, h')"
      "out = Undefined" "calls = []"
  | a_sig h1 res N instrides where "PyArray_FromObject api sig (any_thetype api sig) 1 1 h = Inr (a_sig, h1)"
      "PyArray_FromDims api 1 (DIMS a_sig) (any_thetype api sig) h1 = Inr (res, h')"
      "c_index (DIMS a_sig) 0 = Some N"
      "convert_strides (STRIDES a_sig) (ELSIZE a_sig) 1 = Some [instrides]"
      "IIRsymorder1_call GNUC to_float (any_thetype api sig) c0 z1 (DATA a_sig) (DATA res) N instrides 1
         (arg_or precision_arg (Finite (- 1))) = None"
      "out = PYERR ''Incorrect type.''" "calls = []"
  | a_sig h1 res h2 N instrides c ret where
      "PyArray_FromObject api sig (any_thetype api sig) 1 1 h = Inr (a_sig, h1)"
      "PyArray_FromDims api 1 (DIMS a_sig) (any_thetype api sig) h1 = Inr (res, h2)"
      "c_index (DIMS a_sig) 0 = Some N"
      "convert_strides (STRIDES a_sig) (ELSIZE a_sig) 1 = Some [instrides]"
      "IIRsymorder1_call GNUC to_float (any_thetype api sig) c0 z1 (DATA a_sig) (DATA res) N instrides 1
         (arg_or precision_arg (Finite (- 1))) = Some c"
      "cores c h2 = (ret, h')" "calls = [c]" "out = filter_status ret res"
proof (cases "PyArray_FromObject api sig (any_thetype api sig) 1 1 h")
  case (Inl err)
  with run have "out = Raises err" "calls = []" "h' = h"
    by (simp_all add: IIRsymorder1_def)
  with Inl show ?thesis by (rule that(1))
next
  case (Inr p1)
  then obtain a_sig h1 where
    co: "PyArray_FromObject api sig (any_thetype api sig) 1 1 h = Inr (a_sig, h1)"
    by (cases p1) auto
  show ?thesis
  proof (cases "PyArray_FromDims api 1 (DIMS a_sig) (any_thetype api sig) h1")
    case (Inl err)
    with run co have "out = Raises err" "calls = []" "h' = h1"
      by (simp_all add: IIRsymorder1_def)
    with co Inl show ?thesis by (rule that(2))
  next
    case (Inr p2)
    then obtain res h2 where
      al: "PyArray_FromDims api 1 (DIMS a_sig) (any_thetype api sig) h1 = Inr (res, h2)"
      by (cases p2) auto
    show ?thesis
    proof (cases "\<exists>N instrides. c_index (DIMS a_sig) 0 = Some N
        \<and> convert_strides (STRIDES a_sig) (ELSIZE a_sig) 1 = Some [instrides]")
      case False
      with run co al have "out = Undefined" "calls = []" "h' = h2"
        by (auto simp add: IIRsymorder1_def split: option.splits list.splits)
      with co al show ?thesis using that(3) by blast
    next
      case True
      then obtain N instrides where
        rd: "c_index (DIMS a_sig) 0 = Some N"
          "convert_strides (STRIDES a_sig) (ELSIZE a_sig) 1 = Some [instrides]"
        by blast
      show ?thesis
      proof (cases "IIRsymorder1_call GNUC to_float (any_thetype api sig) c0 z1 (DATA a_sig) (DATA res) N instrides 1
          (arg_or precision_arg (Finite (- 1)))")
        case None
        with run co al rd have "out = PYERR ''Incorrect type.''" "calls = []" "h' = h2"
          by (simp_all add: IIRsymorder1_def arg_or_def)
        with co al rd None show ?thesis using that(4) by blast
      next
        case (Some c)
        obtain ret h3 where cr: "cores c h2 = (ret, h3)" by (cases "cores c h2") auto
        have "IIRsymorder1 GNUC to_float api cores sig c0 z1 precision_arg h = (filter_status ret res, [c], h3)"
          using co al rd Some cr
          by (simp add: IIRsymorder1_def arg_or_def filter_status_def)
        with run have "out = filter_status ret res" "calls = [c]" "h' = h3" by simp_all
        with co al rd Some cr show ?thesis using that(5) by blast
      qed
    qed
  qed
qed

lemma IIRsymorder2_cases [consumes 1, case_names coerce_fails alloc_fails undefined incorrect_type called]:
  assumes run: "IIRsymorder2 api cores sig r omega precision_arg h = (out, calls, h')"
  obtains
    err where "PyArray_FromObject api sig (real_thetype api sig) 1 1 h = Inl err"
      "out = Raises err" "calls = []" "h' = h"
  | a_sig h1 err where "PyArray_FromObject api sig (real_thetype api sig) 1 1 h = Inr (a_sig, h1)"
      "PyArray_FromDims api 1 (DIMS a_sig) (real_thetype api sig) h1 = Inl err"
      "out = Raises err" "calls = []" "h' = h1"
  | a_sig h1 res where "PyArray_FromObject api sig (real_thetype api sig) 1 1 h = Inr (a_sig, h1)"
      "PyArray_FromDims api 1 (DIMS a_sig) (real_thetype api sig) h1 = Inr (res, h')"
      "out = Undefined" "calls = []"
  | a_sig h1 res N instrides where "PyArray_FromObject api sig (real_thetype api sig) 1 1 h = Inr (a_sig, h1)"
      "PyArray_FromDims api 1 (DIMS a_sig) (real_thetype api sig) h1 = Inr (res, h')"
      "c_index (DIMS a_sig) 0 = Some N"
      "convert_strides (STRIDES a_sig) (ELSIZE a_sig) 1 = Some [instrides]"
      "IIRsymorder2_call (real_thetype api sig) r omega (DATA a_sig) (DATA res) N instrides 1
         (arg_or precision_arg (Finite (- 1))) = None"
      "out = PYERR ''Incorrect type.''" "calls = []"
  | a_sig h1 res h2 N instrides c ret where
      "PyArray_FromObject api sig (real_thetype api sig) 1 1 h = Inr (a_sig, h1)"
      "PyArray_FromDims api 1 (DIMS a_sig) (real_thetype api sig) h1 = Inr (res, h2)"
      "c_index (DIMS a_sig) 0 = Some N"
      "convert_strides (STRIDES a_sig) (ELSIZE a_sig) 1 = Some [instrides]"
      "IIRsymorder2_call (real_thetype api sig) r omega (DATA a_sig) (DATA res) N instrides 1
         (arg_or precision_arg (Finite (- 1))) = Some c"
      "cores c h2 = (ret, h')" "calls = [c]" "out = filter_status ret res"
proof (cases "PyArray_FromObject api sig (real_thetype api sig) 1 1 h")
  case (Inl err)
  with run have "out = Raises err" "calls = []" "h' = h"
    by (simp_all add: IIRsymorder2_def)
  with Inl show ?thesis by (rule that(1))
next
  case (Inr p1)
  then obtain a_sig h1 where
    co: "PyArray_FromObject api sig (real_thetype api sig) 1 1 h = Inr (a_sig, h1)"
    by (cases p1) auto
  show ?thesis
  proof (cases "PyArray_FromDims api 1 (DIMS a_sig) (real_thetype api sig) h1")
    case (Inl err)
    with run co have "out = Raises err" "calls = []" "h' = h1"
      by (simp_all add: IIRsymorder2_def)
    with co Inl show ?thesis by (rule that(2))
  next
    case (Inr p2)
    then obtain res h2 where
      al: "PyArray_FromDims api 1 (DIMS a_sig) (real_thetype api sig) h1 = Inr (res, h2)"
      by (cases p2) auto
    show ?thesis
    proof (cases "\<exists>N instrides. c_index (DIMS a_sig) 0 = Some N
        \<and> convert_strides (STRIDES a_sig) (ELSIZE a_sig) 1 = Some [instrides]")
      case False
      with run co al have "out = Undefined" "calls = []" "h' = h2"
        by (auto simp add: IIRsymorder2_def split: option.splits list.splits)
      with co al show ?thesis using that(3) by blast
    next
      case True
      then obtain N instrides where
        rd: "c_index (DIMS a_sig) 0 = Some N"
          "convert_strides (STRIDES a_sig) (ELSIZE a_sig) 1 = Some [instrides]"
        by blast
      show ?thesis
      proof (cases "IIRsymorder2_call (real_thetype api sig) r omega (DATA a_sig) (DATA res) N instrides 1
          (arg_or precision_arg (Finite (- 1)))")
        case None
        with run co al rd have "out = PYERR ''Incorrect type.''" "calls = []" "h' = h2"
          by (simp_all add: IIRsymorder2_def arg_or_def)
        with co al rd None show ?thesis using that(4) by blast
      next
        case (Some c)
        obtain ret h3 where cr: "cores c h2 = (ret, h3)" by (cases "cores c h2") auto
        have "IIRsymorder2 api cores sig r omega precision_arg h = (filter_status ret res, [c], h3)"
          using co al rd Some cr
          by (simp add: IIRsymorder2_def arg_or_def filter_status_def)
        with run have "out = filter_status ret res" "calls = [c]" "h' = h3" by simp_all
        with co al rd Some cr show ?thesis using that(5) by blast
      qed
    qed
  qed
qed

subsection \<open>The path on which the routine is selected\<close>

text \<open>
  When the coercions and the allocation succeed and the extents and strides can be read, the
  outcome is the one of the selection of the routine and of the call.
\<close>

lemma cspline2d_coerced:
  assumes "PyArray_FromObject api img (real_thetype api img) 2 2 h = Inr (a_image, h1)"
    and "PyArray_FromDims api 2 (DIMS a_image) (real_thetype api img) h1 = Inr (ck, h2)"
    and "c_index (DIMS a_image) 0 = Some M" and "c_index (DIMS a_image) 1 = Some N"
    and "convert_strides (STRIDES a_image) (ELSIZE a_image) 2 = Some instrides"
  shows "cspline2d api cores img lambda_arg precision_arg h =
     (case cspline2d_call (real_thetype api img) (DATA a_image) (DATA ck) M N
             (arg_or lambda_arg (Finite 0)) instrides [N, 1]
             (arg_or precision_arg (Finite (- 1))) of
        None \<Rightarrow> (Undefined, [], h2)
      | Some c \<Rightarrow> (spline_status (fst (cores c h2)) ck, [c], snd (cores c h2)))"
  using assms
  by (simp add: cspline2d_def arg_or_def spline_status_def Let_def
      split: option.splits prod.splits)

lemma qspline2d_coerced:
  assumes "\<not> double_ne (arg_or lambda_arg (Finite 0)) (Finite 0)"
    and "PyArray_FromObject api img (real_thetype api img) 2 2 h = Inr (a_image, h1)"
    and "PyArray_FromDims api 2 (DIMS a_image) (real_thetype api img) h1 = Inr (ck, h2)"
    and "c_index (DIMS a_image) 0 = Some M" and "c_index (DIMS a_image) 1 = Some N"
    and "convert_strides (STRIDES a_image) (ELSIZE a_image) 2 = Some instrides"
  shows "qspline2d api cores img lambda_arg precision_arg h =
     (case qspline2d_call (real_thetype api img) (DATA a_image) (DATA ck) M N
             (arg_or lambda_arg (Finite 0)) instrides [N, 1]
             (arg_or precision_arg (Finite (- 1))) of
        None \<Rightarrow> (Undefined, [], h2)
      | Some c \<Rightarrow> (spline_status (fst (cores c h2)) ck, [c], snd (cores c h2)))"
  using assms
  by (simp add: qspline2d_def arg_or_def spline_status_def Let_def
      split: option.splits prod.splits)

lemma FIRsepsym2d_coerced:
  assumes "PyArray_FromObject api img (any_thetype api img) 2 2 h = Inr (a_image, h1)"
    and "PyArray_ContiguousFromObject api hrow (any_thetype api img) 1 1 h1 = Inr (a_hrow, h2)"
    and "PyArray_ContiguousFromObject api hcol (any_thetype api img) 1 1 h2 = Inr (a_hcol, h3)"
    and "PyArray_FromDims api 2 (DIMS a_image) (any_thetype api img) h3 = Inr (res, h4)"
    and "c_index (DIMS a_image) 0 = Some M" and "c_index (DIMS a_image) 1 = Some N"
    and "convert_strides (STRIDES a_image) (ELSIZE a_image) 2 = Some instrides"
  shows "FIRsepsym2d GNUC api cores img hrow hcol h =
     (case FIRsepsym2d_switch GNUC (any_thetype api img) of
        None \<Rightarrow> (PYERR ''Incorrect type.'', [], h4)
      | Some f \<Rightarrow>
         (case (c_index (DIMS a_hrow) 0, c_index (DIMS a_hcol) 0) of
            (Some Nhrow, Some Nhcol) \<Rightarrow>
              (filter_status
                 (fst (cores (Convolve2D f (DATA a_image) (DATA res) M N (DATA a_hrow) (DATA a_hcol)
                                Nhrow Nhcol instrides [N, 1]) h4)) res,
               [Convolve2D f (DATA a_image) (DATA res) M N (DATA a_hrow) (DATA a_hcol)
                  Nhrow Nhcol instrides [N, 1]],
               snd (cores (Convolve2D f (DATA a_image) (DATA res) M N (DATA a_hrow) (DATA a_hcol)
                                Nhrow Nhcol instrides [N, 1]) h4))
          | _ \<Rightarrow> (Undefined, [], h4)))"
  using assms
  by (simp add: FIRsepsym2d_def heap_after_def filter_status_def Let_def
      split: option.splits prod.splits)

lemma IIRsymorder1_coerced:
  assumes "PyArray_FromObject api sig (any_thetype api sig) 1 1 h = Inr (a_sig, h1)"
    and "PyArray_FromDims api 1 (DIMS a_sig) (any_thetype api sig) h1 = Inr (res, h2)"
    and "c_index (DIMS a_sig) 0 = Some N"
    and "convert_strides (STRIDES a_sig) (ELSIZE a_sig) 1 = Some [instrides]"
  shows "IIRsymorder1 GNUC to_float api cores sig c0 z1 precision_arg h =
     (case IIRsymorder1_call GNUC to_float (any_thetype api sig) c0 z1 (DATA a_sig) (DATA res) N
             instrides 1 (arg_or precision_arg (Finite (- 1))) of
        None \<Rightarrow> (PYERR ''Incorrect type.'', [], h2)
      | Some c \<Rightarrow> (filter_status (fst (cores c h2)) res, [c], snd (cores c h2)))"
  using assms
  by (simp add: IIRsymorder1_def arg_or_def filter_status_def Let_def
      split: option.splits prod.splits)

lemma IIRsymorder2_coerced:
  assumes "PyArray_FromObject api sig (real_thetype api sig) 1 1 h = Inr (a_sig, h1)"
    and "PyArray_FromDims api 1 (DIMS a_sig) (real_thetype api sig) h1 = Inr (res, h2)"
    and "c_index (DIMS a_sig) 0 = Some N"
    and "convert_strides (STRIDES a_sig) (ELSIZE a_sig) 1 = Some [instrides]"
  shows "IIRsymorder2 api cores sig r omega precision_arg h =
     (case IIRsymorder2_call (real_thetype api sig) r omega (DATA a_sig) (DATA res) N
             instrides 1 (arg_or precision_arg (Finite (- 1))) of
        None \<Rightarrow> (PYERR ''Incorrect type.'', [], h2)
      | Some c \<Rightarrow> (filter_status (fst (cores c h2)) res, [c], snd (cores c h2)))"
  using assms
  by (simp add: IIRsymorder2_def arg_or_def filter_status_def Let_def
      split: option.splits prod.splits)

subsection \<open>The selection of the routine\<close>

lemma clamp_precision_number:
  assumes "p \<noteq> NaN" "\<not> in_unit_interval p"
  shows "clamp_precision d p = Finite d"
  using assms by (cases p) (auto simp: clamp_precision_def in_unit_interval_def)

lemma clamp_precision_NaN: "clamp_precision d NaN = NaN"
  by (simp add: clamp_precision_def)

lemma cspline2d_call_eq:
  "cspline2d_call t inp outp M N lambda instrides outstrides p =
     (if is_real_float t then
        Some (Spline2D (if t = PyArray_FLOAT then S_cubic_spline2D else D_cubic_spline2D)
                inp outp M N lambda instrides outstrides
                (clamp_precision (spline_default_precision t) p))
      else None)"
  by (simp add: cspline2d_call_def spline_default_precision_def single_precision_def
      is_real_float_def clamp_precision_def)

lemma qspline2d_call_eq:
  "qspline2d_call t inp outp M N lambda instrides outstrides p =
     (if is_real_float t then
        Some (Spline2D (if t = PyArray_FLOAT then S_quadratic_spline2D else D_quadratic_spline2D)
                inp outp M N lambda instrides outstrides
                (clamp_precision (spline_default_precision t) p))
      else None)"
  by (simp add: qspline2d_call_def spline_default_precision_def single_precision_def
      is_real_float_def clamp_precision_def)

lemma cspline2d_call_Some:
  assumes "cspline2d_call t inp outp M N lambda instrides outstrides p = Some c"
  shows "is_real_float t"
    and "call_in c = inp" and "call_out c = outp" and "call_outstrides c = outstrides"
    and "call_lambda c = Some lambda"
    and "call_precision c = Some (clamp_precision (spline_default_precision t) p)"
  using assms by (auto simp: cspline2d_call_eq split: if_splits)

lemma qspline2d_call_Some:
  assumes "qspline2d_call t inp outp M N lambda instrides outstrides p = Some c"
  shows "is_real_float t"
    and "call_in c = inp" and "call_out c = outp" and "call_outstrides c = outstrides"
    and "call_lambda c = Some lambda"
    and "call_precision c = Some (clamp_precision (spline_default_precision t) p)"
  using assms by (auto simp: qspline2d_call_eq split: if_splits)

lemma IIRsymorder1_call_eq:
  "IIRsymorder1_call GNUC to_float t c0 z1 inp outp N instrides outstrides p =
     (let d = clamp_precision (symiir_default_precision t) p in
      if t = PyArray_FLOAT then
        Some (Forback1 S_IIR_forback1 (to_float (Re c0)) (to_float (Re z1)) inp outp N
                instrides outstrides (float_cast to_float d))
      else if t = PyArray_DOUBLE then
        Some (Forback1 D_IIR_forback1 (Re c0) (Re z1) inp outp N instrides outstrides d)
      else if t = PyArray_CFLOAT \<and> GNUC then
        Some (Forback1_complex C_IIR_forback1 (Complex (to_float (Re c0)) (to_float (Im c0)))
                (Complex (to_float (Re z1)) (to_float (Im z1))) inp outp N
                instrides outstrides (float_cast to_float d))
      else if t = PyArray_CDOUBLE \<and> GNUC then
        Some (Forback1_complex Z_IIR_forback1 c0 z1 inp outp N instrides outstrides d)
      else None)"
  by (cases t) (simp_all add: IIRsymorder1_call_def symiir_default_precision_def
      single_precision_def Let_def clamp_precision_def)

lemma IIRsymorder1_call_Some:
  assumes "IIRsymorder1_call GNUC to_float t c0 z1 inp outp N instrides outstrides p = Some c"
  shows "is_real_float t \<or> (GNUC \<and> is_complex t)"
    and "call_in c = inp" and "call_out c = outp" and "call_outstrides c = [outstrides]"
    and "call_precision c =
           Some (if single_precision t
                 then float_cast to_float (clamp_precision (symiir_default_precision t) p)
                 else clamp_precision (symiir_default_precision t) p)"
  using assms
  by (auto simp: IIRsymorder1_call_eq Let_def is_real_float_def is_complex_def
      single_precision_def split: if_splits)

lemma IIRsymorder2_call_eq:
  "IIRsymorder2_call t r omega inp outp N instrides outstrides p =
     (if is_real_float t then
        Some (Forback2 (if t = PyArray_FLOAT then S_IIR_forback2 else D_IIR_forback2) r omega
                inp outp N instrides outstrides
                (clamp_precision (symiir_default_precision t) p))
      else None)"
  by (cases t) (simp_all add: IIRsymorder2_call_def symiir_default_precision_def
      single_precision_def is_real_float_def clamp_precision_def)

lemma IIRsymorder2_call_Some:
  assumes "IIRsymorder2_call t r omega inp outp N instrides outstrides p = Some c"
  shows "is_real_float t"
    and "call_in c = inp" and "call_out c = outp" and "call_outstrides c = [outstrides]"
    and "call_precision c = Some (clamp_precision (symiir_default_precision t) p)"
  using assms by (auto simp: IIRsymorder2_call_eq split: if_splits)

subsection \<open>Element types\<close>

lemma real_thetype_not_complex: "type_num (MIN_type t PyArray_DOUBLE) \<le> 9"
  by (simp add: MIN_type_def)

lemma complex_type_num: "is_complex t \<longleftrightarrow> type_num t = 10 \<or> type_num t = 11"
  by (cases t) (simp_all add: is_complex_def)

lemma any_thetype_le: "type_num (MIN_type t PyArray_CDOUBLE) \<le> 11"
  by (simp add: MIN_type_def)

lemma promoted_DOUBLE: "is_real_float (promoted PyArray_DOUBLE t)"
  by (cases t) (simp_all add: promoted_def MIN_type_def MAX_type_def is_real_float_def)

lemma promoted_CDOUBLE:
  "is_real_float (promoted PyArray_CDOUBLE t) \<or> is_complex (promoted PyArray_CDOUBLE t)"
  by (cases t) (simp_all add: promoted_def MIN_type_def MAX_type_def is_real_float_def
      is_complex_def)

lemma promoted_floating:
  "is_real_float t \<or> is_complex t \<Longrightarrow> promoted PyArray_CDOUBLE t = t"
  "is_real_float t \<Longrightarrow> promoted PyArray_DOUBLE t = t"
  by (auto simp: promoted_def MIN_type_def MAX_type_def is_real_float_def is_complex_def)


lemma library_object_type_thetype:
  assumes "library_object_type api"
  shows "real_thetype api a = promoted PyArray_DOUBLE (OBJECTTYPE a)"
    and "any_thetype api a = promoted PyArray_CDOUBLE (OBJECTTYPE a)"
  using assms by (simp_all add: library_object_type_def promoted_def)

lemma spline_status_Returns: "spline_status retval ck = Returns r \<Longrightarrow> r = ck"
  by (simp add: spline_status_def PYERR_def split: if_splits)

lemma filter_status_Returns: "filter_status ret res = Returns r \<Longrightarrow> r = res"
  by (simp add: filter_status_def PYERR_def split: if_splits)

subsection \<open>What the hypotheses on the library give\<close>

lemma library_types_FromObject:
  assumes "library_types api" "PyArray_FromObject api a t mn mx h = Inr (r, h')"
  shows "OBJECTTYPE r = t"
    and "OBJECTTYPE a \<noteq> PyArray_OBJECT \<Longrightarrow> type_num (OBJECTTYPE a) \<le> type_num t"
proof -
  from assms(1) have "\<forall>a t mn mx h r h'.
        (PyArray_FromObject api a t mn mx h = Inr (r, h')
           \<or> PyArray_ContiguousFromObject api a t mn mx h = Inr (r, h'))
        \<longrightarrow> OBJECTTYPE r = t \<and> (OBJECTTYPE a \<noteq> PyArray_OBJECT \<longrightarrow> \<not> narrower t (OBJECTTYPE a))"
    unfolding library_types_def by (rule conjunct1)
  from this [rule_format, of a t mn mx h r h'] assms(2)
  show "OBJECTTYPE r = t"
    and "OBJECTTYPE a \<noteq> PyArray_OBJECT \<Longrightarrow> type_num (OBJECTTYPE a) \<le> type_num t"
    by (simp_all add: narrower_def)
qed

lemma library_types_ContiguousFromObject:
  assumes "library_types api" "PyArray_ContiguousFromObject api a t mn mx h = Inr (r, h')"
  shows "OBJECTTYPE r = t"
    and "OBJECTTYPE a \<noteq> PyArray_OBJECT \<Longrightarrow> type_num (OBJECTTYPE a) \<le> type_num t"
proof -
  from assms(1) have "\<forall>a t mn mx h r h'.
        (PyArray_FromObject api a t mn mx h = Inr (r, h')
           \<or> PyArray_ContiguousFromObject api a t mn mx h = Inr (r, h'))
        \<longrightarrow> OBJECTTYPE r = t \<and> (OBJECTTYPE a \<noteq> PyArray_OBJECT \<longrightarrow> \<not> narrower t (OBJECTTYPE a))"
    unfolding library_types_def by (rule conjunct1)
  from this [rule_format, of a t mn mx h r h'] assms(2)
  show "OBJECTTYPE r = t"
    and "OBJECTTYPE a \<noteq> PyArray_OBJECT \<Longrightarrow> type_num (OBJECTTYPE a) \<le> type_num t"
    by (simp_all add: narrower_def)
qed

lemma library_types_FromDims:
  assumes "library_types api" "PyArray_FromDims api n dims t h = Inr (r, h')"
  shows "OBJECTTYPE r = t"
proof -
  from assms(1) have "\<forall>n dims t h r h'. PyArray_FromDims api n dims t h = Inr (r, h') \<longrightarrow> OBJECTTYPE r = t"
    unfolding library_types_def by (rule conjunct2)
  from this [rule_format, of n dims t h r h'] assms(2) show ?thesis by simp
qed

lemma heap_extends_refl: "heap_extends h h"
  by (simp add: heap_extends_def)

lemma heap_extends_length:
  assumes "heap_extends h h'"
  shows "length h \<le> length h'"
proof -
  from assms have "length (take (length h) h') = length h" by (simp add: heap_extends_def)
  then show ?thesis by simp
qed

lemma heap_extends_trans:
  assumes "heap_extends h g" "heap_extends g k"
  shows "heap_extends h k"
proof -
  have "length h \<le> length g" by (rule heap_extends_length [OF assms(1)])
  then have "take (length h) k = take (length h) (take (length g) k)"
    by (simp add: min_absorb1)
  with assms show ?thesis by (simp add: heap_extends_def)
qed

lemma library_shapes_FromObject:
  assumes "library_shapes api" "PyArray_FromObject api a t mn mx h = Inr (r, h')"
  shows "mn \<le> RANK r" and "RANK r \<le> mx" and "length (DIMS r) = RANK r"
    and "length (STRIDES r) = RANK r" and "0 < ELSIZE r"
proof -
  from assms(1) have "\<forall>a t mn mx h r h'.
        (PyArray_FromObject api a t mn mx h = Inr (r, h')
           \<or> PyArray_ContiguousFromObject api a t mn mx h = Inr (r, h'))
        \<longrightarrow> mn \<le> RANK r \<and> RANK r \<le> mx \<and> length (DIMS r) = RANK r
            \<and> length (STRIDES r) = RANK r \<and> 0 < ELSIZE r"
    unfolding library_shapes_def by (rule conjunct1)
  from this [rule_format, of a t mn mx h r h'] assms(2)
  show "mn \<le> RANK r" and "RANK r \<le> mx" and "length (DIMS r) = RANK r"
    and "length (STRIDES r) = RANK r" and "0 < ELSIZE r"
    by simp_all
qed

lemma library_shapes_ContiguousFromObject:
  assumes "library_shapes api" "PyArray_ContiguousFromObject api a t mn mx h = Inr (r, h')"
  shows "mn \<le> RANK r" and "RANK r \<le> mx" and "length (DIMS r) = RANK r"
    and "length (STRIDES r) = RANK r" and "0 < ELSIZE r"
proof -
  from assms(1) have "\<forall>a t mn mx h r h'.
        (PyArray_FromObject api a t mn mx h = Inr (r, h')
           \<or> PyArray_ContiguousFromObject api a t mn mx h = Inr (r, h'))
        \<longrightarrow> mn \<le> RANK r \<and> RANK r \<le> mx \<and> length (DIMS r) = RANK r
            \<and> length (STRIDES r) = RANK r \<and> 0 < ELSIZE r"
    unfolding library_shapes_def by (rule conjunct1)
  from this [rule_format, of a t mn mx h r h'] assms(2)
  show "mn \<le> RANK r" and "RANK r \<le> mx" and "length (DIMS r) = RANK r"
    and "length (STRIDES r) = RANK r" and "0 < ELSIZE r"
    by simp_all
qed

lemma library_shapes_FromDims:
  assumes "library_shapes api" "PyArray_FromDims api n dims t h = Inr (r, h')"
  shows "RANK r = n" and "DIMS r = take n dims"
    and "STRIDES r = contiguous_strides (take n dims) (ELSIZE r)"
proof -
  from assms(1) have "\<forall>n dims t h r h'. PyArray_FromDims api n dims t h = Inr (r, h')
        \<longrightarrow> RANK r = n \<and> DIMS r = take n dims
            \<and> STRIDES r = contiguous_strides (take n dims) (ELSIZE r)"
    unfolding library_shapes_def by (rule conjunct2)
  from this [rule_format, of n dims t h r h'] assms(2)
  show "RANK r = n" and "DIMS r = take n dims"
    and "STRIDES r = contiguous_strides (take n dims) (ELSIZE r)" by simp_all
qed

lemma library_frame_FromObject:
  assumes "library_frame api" "PyArray_FromObject api a t mn mx h = Inr (r, h')"
  shows "heap_extends h h'"
proof -
  from assms(1) have "\<forall>a t mn mx h r h'.
        (PyArray_FromObject api a t mn mx h = Inr (r, h')
           \<or> PyArray_ContiguousFromObject api a t mn mx h = Inr (r, h'))
        \<longrightarrow> heap_extends h h'"
    unfolding library_frame_def by (rule conjunct1)
  from this [rule_format, of a t mn mx h r h'] assms(2) show ?thesis by simp
qed

lemma library_frame_ContiguousFromObject:
  assumes "library_frame api" "PyArray_ContiguousFromObject api a t mn mx h = Inr (r, h')"
  shows "heap_extends h h'"
proof -
  from assms(1) have "\<forall>a t mn mx h r h'.
        (PyArray_FromObject api a t mn mx h = Inr (r, h')
           \<or> PyArray_ContiguousFromObject api a t mn mx h = Inr (r, h'))
        \<longrightarrow> heap_extends h h'"
    unfolding library_frame_def by (rule conjunct1)
  from this [rule_format, of a t mn mx h r h'] assms(2) show ?thesis by simp
qed

lemma library_frame_FromDims:
  assumes "library_frame api" "PyArray_FromDims api n dims t h = Inr (r, h')"
  shows "heap_extends h h'" and "length h \<le> DATA r" and "DATA r < length h'"
proof -
  from assms(1) have "\<forall>n dims t h r h'. PyArray_FromDims api n dims t h = Inr (r, h')
        \<longrightarrow> heap_extends h h' \<and> length h \<le> DATA r \<and> DATA r < length h'"
    unfolding library_frame_def by (rule conjunct2)
  from this [rule_format, of n dims t h r h'] assms(2)
  show "heap_extends h h'" and "length h \<le> DATA r" and "DATA r < length h'" by simp_all
qed

lemma heap_after_extends:
  assumes "library_frame api"
  shows "heap_extends h (heap_after (PyArray_FromObject api a t mn mx h) h)"
    and "heap_extends h (heap_after (PyArray_ContiguousFromObject api a t mn mx h) h)"
proof -
  show "heap_extends h (heap_after (PyArray_FromObject api a t mn mx h) h)"
  proof (cases "PyArray_FromObject api a t mn mx h")
    case (Inl err)
    then show ?thesis by (simp add: heap_after_def heap_extends_refl)
  next
    case (Inr p)
    then obtain r h' where "PyArray_FromObject api a t mn mx h = Inr (r, h')" by (cases p) auto
    with library_frame_FromObject [OF assms this] show ?thesis by (simp add: heap_after_def)
  qed
  show "heap_extends h (heap_after (PyArray_ContiguousFromObject api a t mn mx h) h)"
  proof (cases "PyArray_ContiguousFromObject api a t mn mx h")
    case (Inl err)
    then show ?thesis by (simp add: heap_after_def heap_extends_refl)
  next
    case (Inr p)
    then obtain r h' where "PyArray_ContiguousFromObject api a t mn mx h = Inr (r, h')"
      by (cases p) auto
    with library_frame_ContiguousFromObject [OF assms this] show ?thesis
      by (simp add: heap_after_def)
  qed
qed

lemma cores_frame_extends:
  assumes "cores_frame cores" and run: "cores c g = (ret, g')"
    and ext: "heap_extends h g" and fresh: "length h \<le> call_out c"
  shows "heap_extends h g'"
proof -
  from assms(1) have "\<forall>c h ret h'. cores c h = (ret, h')
        \<longrightarrow> length h' = length h \<and> (\<forall>b<length h. b \<noteq> call_out c \<longrightarrow> h' ! b = h ! b)"
    by (simp add: cores_frame_def)
  from this [rule_format, of c g ret g'] run
  have len: "length g' = length g" and same: "\<And>b. b < length g \<Longrightarrow> b \<noteq> call_out c \<Longrightarrow> g' ! b = g ! b"
    by simp_all
  have le: "length h \<le> length g" by (rule heap_extends_length [OF ext])
  have "take (length h) g' = take (length h) g"
  proof (rule nth_equalityI)
    show "length (take (length h) g') = length (take (length h) g)" by (simp add: len)
  next
    fix i assume "i < length (take (length h) g')"
    then have i: "i < length h" by simp
    with le fresh have "i < length g" "i \<noteq> call_out c" by simp_all
    then have "g' ! i = g ! i" by (rule same)
    with i show "take (length h) g' ! i = take (length h) g ! i" by simp
  qed
  with ext show ?thesis by (simp add: heap_extends_def)
qed

lemma readable_2d:
  assumes "length (DIMS a) = 2" "length (STRIDES a) = 2" "0 < ELSIZE a"
  obtains M N instrides where "DIMS a = [M, N]"
    "c_index (DIMS a) 0 = Some M" "c_index (DIMS a) 1 = Some N"
    "convert_strides (STRIDES a) (ELSIZE a) 2 = Some instrides"
proof -
  from length_2 [OF assms(1)] obtain M N where d: "DIMS a = [M, N]" by blast
  obtain v where v: "convert_strides (STRIDES a) (ELSIZE a) 2 = Some v"
    using convert_strides_defined [of "ELSIZE a" 2 "STRIDES a"] assms(2,3) by auto
  from d have "c_index (DIMS a) 0 = Some M" "c_index (DIMS a) 1 = Some N"
    by (simp_all add: c_index_def)
  with d v show ?thesis using that by blast
qed

lemma readable_1d:
  assumes "length (DIMS a) = 1" "length (STRIDES a) = 1" "0 < ELSIZE a"
  obtains N instrides where "DIMS a = [N]" "c_index (DIMS a) 0 = Some N"
    "convert_strides (STRIDES a) (ELSIZE a) 1 = Some [instrides]"
proof -
  from length_1 [of "DIMS a"] assms(1) obtain N where d: "DIMS a = [N]" by auto
  obtain v where v: "convert_strides (STRIDES a) (ELSIZE a) 1 = Some v" "length v = 1"
    using convert_strides_defined [of "ELSIZE a" 1 "STRIDES a"] assms(2,3) by auto
  from length_1 [of v] v(2) obtain s where "v = [s]" by auto
  with v have "convert_strides (STRIDES a) (ELSIZE a) 1 = Some [s]" by simp
  moreover from d have "c_index (DIMS a) 0 = Some N" by (simp add: c_index_def)
  ultimately show ?thesis using d that by blast
qed

lemma coerced_2d:
  assumes "library_shapes api" "PyArray_FromObject api img t 2 2 h = Inr (a, h1)"
  obtains M N instrides where "RANK a = 2" "DIMS a = [M, N]"
    "c_index (DIMS a) 0 = Some M" "c_index (DIMS a) 1 = Some N"
    "convert_strides (STRIDES a) (ELSIZE a) 2 = Some instrides"
proof -
  note s = library_shapes_FromObject [OF assms]
  from s have r: "RANK a = 2" by simp
  with s have "length (DIMS a) = 2" "length (STRIDES a) = 2" "0 < ELSIZE a" by simp_all
  from readable_2d [OF this] r show ?thesis using that by blast
qed

lemma coerced_1d:
  assumes "library_shapes api" "PyArray_FromObject api sig t 1 1 h = Inr (a, h1)"
  obtains N instrides where "RANK a = 1" "DIMS a = [N]" "c_index (DIMS a) 0 = Some N"
    "convert_strides (STRIDES a) (ELSIZE a) 1 = Some [instrides]"
proof -
  note s = library_shapes_FromObject [OF assms]
  from s have r: "RANK a = 1" by simp
  with s have "length (DIMS a) = 1" "length (STRIDES a) = 1" "0 < ELSIZE a" by simp_all
  from readable_1d [OF this] r show ?thesis using that by blast
qed

lemma coerced_kernel:
  assumes "library_shapes api" "PyArray_ContiguousFromObject api k t 1 1 h = Inr (a, h1)"
  obtains N where "c_index (DIMS a) 0 = Some N"
proof -
  note s = library_shapes_ContiguousFromObject [OF assms]
  from s have "RANK a = 1" by simp
  with s have "length (DIMS a) = 1" by simp
  then have "c_index (DIMS a) 0 = Some (DIMS a ! 0)" by (simp add: c_index_def)
  then show ?thesis by (rule that)
qed

lemma allocated_like:
  assumes shapes: "library_shapes api" and frame: "library_frame api"
    and len: "length (DIMS a) = RANK a" and ext: "heap_extends h g"
    and al: "PyArray_FromDims api (RANK a) (DIMS a) t g = Inr (res, g')"
  shows "same_shape_fresh res a h"
proof -
  note s = library_shapes_FromDims [OF shapes al]
  have "length h \<le> DATA res"
    using heap_extends_length [OF ext] library_frame_FromDims(2) [OF frame al] by simp
  with s len show ?thesis by (simp add: same_shape_fresh_def)
qed

subsection \<open>The executable instance\<close>

text \<open>
  The instance meets the hypotheses on the library and on the routines, and the wrappers
  can be evaluated on it.
\<close>

lemmas example_defs =
  example_api_def example_FromObject_def example_FromDims_def example_cores_def
  example_array_def example_heap_def elsize_of_def MIN_type_def MAX_type_def narrower_def
  c_index_def

lemma length_contiguous_strides: "length (contiguous_strides ds e) = length ds"
  by (induction ds) simp_all

lemma elsize_of_positive: "0 < elsize_of t"
  by (simp add: elsize_of_def)

lemma example_FromObject_Inr:
  assumes "example_FromObject a t mn mx h = Inr (r, h')"
  shows "OBJECTTYPE r = t" and "OBJECTTYPE a \<noteq> PyArray_OBJECT \<Longrightarrow> \<not> narrower t (OBJECTTYPE a)"
    and "mn \<le> RANK r" and "RANK r \<le> mx" and "length (DIMS r) = RANK r"
    and "heap_extends h h'"
    and "length (STRIDES r) = RANK r" and "0 < ELSIZE r"
  using assms
  by (auto simp: example_FromObject_def heap_extends_def narrower_def
      length_contiguous_strides elsize_of_positive split: if_splits)

lemma example_FromDims_Inr:
  assumes "example_FromDims n dims t h = Inr (r, h')"
  shows "OBJECTTYPE r = t" and "RANK r = n" and "DIMS r = take n dims"
    and "heap_extends h h'" and "length h \<le> DATA r" and "DATA r < length h'"
    and "STRIDES r = contiguous_strides (take n dims) (ELSIZE r)"
  using assms
  by (auto simp: example_FromDims_def heap_extends_def split: if_splits)

lemma example_api_types: "library_types example_api"
  unfolding library_types_def example_api_def
  using example_FromObject_Inr(1,2) example_FromDims_Inr(1) by (simp; blast)

lemma example_api_object_type: "library_object_type example_api"
  by (simp add: library_object_type_def example_api_def)

lemma example_api_shapes: "library_shapes example_api"
  unfolding library_shapes_def example_api_def
  using example_FromObject_Inr(3,4,5,7,8) example_FromDims_Inr(2,3,7) by (simp; blast)

lemma example_api_frame: "library_frame example_api"
  unfolding library_frame_def example_api_def
  using example_FromObject_Inr(6) example_FromDims_Inr(4,5,6) by (simp; blast)

lemma example_cores_frame: "cores_frame (example_cores status)"
  by (auto simp: cores_frame_def example_cores_def)

lemma example_cores_success: "\<forall>c g. 0 \<le> fst (example_cores 0 c g)"
  by (simp add: example_cores_def)

lemma example_cores_status: "fst (example_cores status c g) = status"
  by (simp add: example_cores_def)

lemma example_cores_0:
  "fst (example_cores 0 c [[1, 2, 3, 4], [0, 0, 0, 0]]) = 0"
  "call_in c = 0 \<Longrightarrow> call_out c = 1
     \<Longrightarrow> snd (example_cores 0 c [[1, 2, 3, 4], [0, 0, 0, 0]]) = [[1, 2, 3, 4], [1, 2, 3, 4]]"
  by (simp_all add: example_cores_def)

lemma convert_strides_double_2x2: "convert_strides [16, 8] 8 2 = Some [2, 1]"
  using convert_strides_bracket [of 3 8 2 "[16, 8]"] by (simp add: shr_def upt_rec)

lemma convert_strides_float_2x2: "convert_strides [8, 4] 4 2 = Some [2, 1]"
  using convert_strides_bracket [of 2 4 2 "[8, 4]"] by (simp add: shr_def upt_rec)

lemma convert_strides_double_4: "convert_strides [8] 8 (Suc 0) = Some [1]"
  using convert_strides_bracket [of 3 8 1 "[8]"] by (simp add: shr_def)

lemma example_thetype:
  "real_thetype example_api (example_array t dims) = promoted PyArray_DOUBLE t"
  "any_thetype example_api (example_array t dims) = promoted PyArray_CDOUBLE t"
  by (simp_all add: example_api_def example_array_def promoted_def)

lemma example_coerce_same:
  "PyArray_FromObject example_api (example_array t dims) t (length dims) (length dims)
     example_heap = Inr (example_array t dims, example_heap)"
  "PyArray_ContiguousFromObject example_api (example_array t dims) t (length dims) (length dims)
     example_heap = Inr (example_array t dims, example_heap)"
  using elsize_of_positive [of t]
  by (simp_all add: example_api_def example_FromObject_def example_array_def example_heap_def
      length_contiguous_strides)

lemma example_coerce_2x2:
  "PyArray_FromObject example_api (example_array t [2, 2]) t 2 2 example_heap
     = Inr (example_array t [2, 2], example_heap)"
  using example_coerce_same(1) [of t "[2, 2]"] by (simp add: numeral_2_eq_2)

lemma example_coerce_1d:
  "PyArray_FromObject example_api (example_array t [n]) t 1 1 example_heap
     = Inr (example_array t [n], example_heap)"
  "PyArray_ContiguousFromObject example_api (example_array t [n]) t 1 1 example_heap
     = Inr (example_array t [n], example_heap)"
  using example_coerce_same [of t "[n]"] by simp_all

lemma example_allocate_2x2:
  "PyArray_FromDims example_api 2 [2, 2] t example_heap
     = Inr (\<lparr>DATA = 1, RANK = 2, DIMS = [2, 2], STRIDES = [elsize_of t * 2, elsize_of t],
              OBJECTTYPE = t, ELSIZE = elsize_of t\<rparr>, [[1, 2, 3, 4], [0, 0, 0, 0]])"
  by (simp add: example_api_def example_FromDims_def example_heap_def eval_nat_numeral)

lemma example_allocate_4:
  "PyArray_FromDims example_api 1 [4] t example_heap
     = Inr (\<lparr>DATA = 1, RANK = 1, DIMS = [4], STRIDES = [elsize_of t],
              OBJECTTYPE = t, ELSIZE = elsize_of t\<rparr>, [[1, 2, 3, 4], [0, 0, 0, 0]])"
  by (simp add: example_api_def example_FromDims_def example_heap_def eval_nat_numeral)

lemma example_2x2:
  "DIMS (example_array t [2, 2]) = [2, 2]" "DATA (example_array t dims) = 0"
  "c_index [2, 2 :: int] 0 = Some 2" "c_index [2, 2 :: int] 1 = Some 2"
  "STRIDES (example_array PyArray_DOUBLE [2, 2]) = [16, 8]"
  "ELSIZE (example_array PyArray_DOUBLE [2, 2]) = 8"
  "STRIDES (example_array PyArray_FLOAT [2, 2]) = [8, 4]"
  "ELSIZE (example_array PyArray_FLOAT [2, 2]) = 4"
  by (simp_all add: example_array_def elsize_of_def c_index_def)

lemma example_4:
  "DIMS (example_array t [4]) = [4]" "c_index [4 :: int] 0 = Some 4"
  "STRIDES (example_array PyArray_DOUBLE [4]) = [8]"
  "ELSIZE (example_array PyArray_DOUBLE [4]) = 8"
  "STRIDES (example_array PyArray_CDOUBLE [4]) = [16]"
  "ELSIZE (example_array PyArray_CDOUBLE [4]) = 16"
  by (simp_all add: example_array_def elsize_of_def c_index_def)

lemma cspline2d_example_short:
  "cspline2d example_api (example_cores 0) (example_array PyArray_SHORT [2, 2]) None None example_heap
   = (Returns \<lparr>DATA = 2, RANK = 2, DIMS = [2, 2], STRIDES = [8, 4],
                OBJECTTYPE = PyArray_FLOAT, ELSIZE = 4\<rparr>,
      [Spline2D S_cubic_spline2D 1 2 2 2 (Finite 0) [2, 1] [2, 1] (Finite (1 / 1000))],
      [[1, 2, 3, 4], [1, 2, 3, 4], [1, 2, 3, 4]])"
  by (simp add: cspline2d_def cspline2d_call_def example_defs convert_strides_float_2x2 Let_def)

lemma cspline2d_example_complex:
  "cspline2d example_api (example_cores 0) (example_array PyArray_CDOUBLE [2, 2]) None None example_heap
   = (Raises (PyExc_TypeError ''Array can not be safely cast to required type''), [], example_heap)"
  by (simp add: cspline2d_def example_defs)

lemma cspline2d_example_double:
  "cspline2d example_api (example_cores 0) (example_array PyArray_DOUBLE [2, 2]) None
     (Some (Finite 5)) example_heap
   = (Returns \<lparr>DATA = 1, RANK = 2, DIMS = [2, 2], STRIDES = [16, 8],
                OBJECTTYPE = PyArray_DOUBLE, ELSIZE = 8\<rparr>,
      [Spline2D D_cubic_spline2D 0 1 2 2 (Finite 0) [2, 1] [2, 1] (Finite (1 / 1000000))],
      [[1, 2, 3, 4], [1, 2, 3, 4]])"
  by (simp add: cspline2d_def cspline2d_call_def example_defs convert_strides_double_2x2 Let_def)

lemma qspline2d_scenario:
  "qspline2d example_api scenario_cores (example_array PyArray_DOUBLE [2, 2]) (Some (Finite 0))
       (Some (Finite (1 / 10 ^ 6))) example_heap
     = (Returns \<lparr>DATA = 1, RANK = 2, DIMS = [2, 2], STRIDES = [16, 8],
                  OBJECTTYPE = PyArray_DOUBLE, ELSIZE = 8\<rparr>,
        [scenario_call], [[1, 2, 3, 4], [0, 0, 0, 0]])"
proof -
  have zeros: "replicate 4 (0::real) = [0, 0, 0, 0]" by (simp add: eval_nat_numeral)
  show ?thesis
    by (simp add: qspline2d_def qspline2d_call_def example_api_def example_FromObject_def
      example_FromDims_def example_array_def example_heap_def elsize_of_def MIN_type_def
      MAX_type_def narrower_def c_index_def convert_strides_double_2x2 Let_def
      scenario_call_def scenario_cores_def double_ne_def zeros)
qed

section \<open>The claims\<close>




text \<open>
  C2: on the hypothesis that the library only casts safely, no entry point returns an array
  whose element type is narrower than the one of a numeric input. In particular a complex
  input is not turned into a real working array: \<^verbatim>\<open>cspline2d\<close>, \<^verbatim>\<open>qspline2d\<close> and
  \<^verbatim>\<open>IIRsymorder2\<close>, which ask for a real working type, end with an exception and without
  having called a routine, and \<^verbatim>\<open>FIRsepsym2d\<close> and \<^verbatim>\<open>IIRsymorder1\<close> return a complex array
  when they return one. The result of \<^verbatim>\<open>FIRsepsym2d\<close> is not narrower than a numeric kernel
  either.
\<close>

theorem element_type_never_narrowed:
  assumes lib: "library_types api" and numeric: "OBJECTTYPE img \<noteq> PyArray_OBJECT"
  shows "(cspline2d api cores img lambda_arg precision_arg h = (out, calls, h')
            \<longrightarrow> (\<forall>r. out = Returns r \<longrightarrow> \<not> narrower (OBJECTTYPE r) (OBJECTTYPE img))
              \<and> (is_complex (OBJECTTYPE img) \<longrightarrow> calls = [] \<and> (\<exists>err. out = Raises err)))
       \<and> (qspline2d api cores img lambda_arg precision_arg h = (out, calls, h')
            \<longrightarrow> (\<forall>r. out = Returns r \<longrightarrow> \<not> narrower (OBJECTTYPE r) (OBJECTTYPE img))
              \<and> (is_complex (OBJECTTYPE img) \<longrightarrow> calls = [] \<and> (\<exists>err. out = Raises err)))
       \<and> (FIRsepsym2d GNUC api cores img hrow hcol h = (out, calls, h')
            \<longrightarrow> (\<forall>r. out = Returns r \<longrightarrow> \<not> narrower (OBJECTTYPE r) (OBJECTTYPE img)
                    \<and> (OBJECTTYPE hrow \<noteq> PyArray_OBJECT \<longrightarrow> \<not> narrower (OBJECTTYPE r) (OBJECTTYPE hrow))
                    \<and> (OBJECTTYPE hcol \<noteq> PyArray_OBJECT \<longrightarrow> \<not> narrower (OBJECTTYPE r) (OBJECTTYPE hcol))
                    \<and> (is_complex (OBJECTTYPE img) \<longrightarrow> is_complex (OBJECTTYPE r))))
       \<and> (IIRsymorder1 GNUC to_float api cores img c0 z1 precision_arg h = (out, calls, h')
            \<longrightarrow> (\<forall>r. out = Returns r \<longrightarrow> \<not> narrower (OBJECTTYPE r) (OBJECTTYPE img)
                    \<and> (is_complex (OBJECTTYPE img) \<longrightarrow> is_complex (OBJECTTYPE r))))
       \<and> (IIRsymorder2 api cores img r0 omega precision_arg h = (out, calls, h')
            \<longrightarrow> (\<forall>r. out = Returns r \<longrightarrow> \<not> narrower (OBJECTTYPE r) (OBJECTTYPE img))
              \<and> (is_complex (OBJECTTYPE img) \<longrightarrow> calls = [] \<and> (\<exists>err. out = Raises err)))"
proof -
  have real_refused: False
    if "is_complex (OBJECTTYPE img)"
      and "PyArray_FromObject api img (real_thetype api img) mn mx g = Inr (a, g')"
    for mn mx g a g'
    using library_types_FromObject(2) [OF lib that(2) numeric] that(1)
      real_thetype_not_complex [of "PyArray_ObjectType api img PyArray_FLOAT"]
    by (auto simp: complex_type_num)
  have keeps_complex: "is_complex t"
    if "is_complex (OBJECTTYPE img)" "type_num (OBJECTTYPE img) \<le> type_num t"
      "t = any_thetype api img" for t
    using that any_thetype_le [of "PyArray_ObjectType api img PyArray_FLOAT"]
    by (auto simp: complex_type_num)
  have c: "(\<forall>r. out = Returns r \<longrightarrow> \<not> narrower (OBJECTTYPE r) (OBJECTTYPE img))
              \<and> (is_complex (OBJECTTYPE img) \<longrightarrow> calls = [] \<and> (\<exists>err. out = Raises err))"
    if run: "cspline2d api cores img lambda_arg precision_arg h = (out, calls, h')"
    using run
  proof (cases rule: cspline2d_cases)
    case (called a_image h1 ck h2 M N instrides c retval)
    have "\<not> is_complex (OBJECTTYPE img)" using real_refused called(1) by blast
    moreover have "OBJECTTYPE ck = real_thetype api img"
      by (rule library_types_FromDims [OF lib called(2)])
    moreover have "type_num (OBJECTTYPE img) \<le> type_num (real_thetype api img)"
      by (rule library_types_FromObject(2) [OF lib called(1) numeric])
    ultimately show ?thesis
      using called(9) by (auto simp: narrower_def dest!: spline_status_Returns)
  next
    case (undefined a_image h1 ck)
    then show ?thesis using real_refused by auto
  qed (use real_refused in auto)
  have q: "(\<forall>r. out = Returns r \<longrightarrow> \<not> narrower (OBJECTTYPE r) (OBJECTTYPE img))
              \<and> (is_complex (OBJECTTYPE img) \<longrightarrow> calls = [] \<and> (\<exists>err. out = Raises err))"
    if run: "qspline2d api cores img lambda_arg precision_arg h = (out, calls, h')"
    using run
  proof (cases rule: qspline2d_cases)
    case (called a_image h1 ck h2 M N instrides c retval)
    have "\<not> is_complex (OBJECTTYPE img)" using real_refused called(2) by blast
    moreover have "OBJECTTYPE ck = real_thetype api img"
      by (rule library_types_FromDims [OF lib called(3)])
    moreover have "type_num (OBJECTTYPE img) \<le> type_num (real_thetype api img)"
      by (rule library_types_FromObject(2) [OF lib called(2) numeric])
    ultimately show ?thesis
      using called(10) by (auto simp: narrower_def dest!: spline_status_Returns)
  next
    case (undefined a_image h1 ck)
    then show ?thesis using real_refused by auto
  qed (use real_refused in \<open>auto simp: PYERR_def\<close>)
  have i2: "(\<forall>r. out = Returns r \<longrightarrow> \<not> narrower (OBJECTTYPE r) (OBJECTTYPE img))
              \<and> (is_complex (OBJECTTYPE img) \<longrightarrow> calls = [] \<and> (\<exists>err. out = Raises err))"
    if run: "IIRsymorder2 api cores img r0 omega precision_arg h = (out, calls, h')"
    using run
  proof (cases rule: IIRsymorder2_cases)
    case (called a_sig h1 res h2 N instrides c ret)
    have "\<not> is_complex (OBJECTTYPE img)" using real_refused called(1) by blast
    moreover have "OBJECTTYPE res = real_thetype api img"
      by (rule library_types_FromDims [OF lib called(2)])
    moreover have "type_num (OBJECTTYPE img) \<le> type_num (real_thetype api img)"
      by (rule library_types_FromObject(2) [OF lib called(1) numeric])
    ultimately show ?thesis
      using called(8) by (auto simp: narrower_def dest!: filter_status_Returns)
  qed (use real_refused in \<open>auto simp: PYERR_def\<close>)
  have f: "\<forall>r. out = Returns r \<longrightarrow> \<not> narrower (OBJECTTYPE r) (OBJECTTYPE img)
                    \<and> (OBJECTTYPE hrow \<noteq> PyArray_OBJECT \<longrightarrow> \<not> narrower (OBJECTTYPE r) (OBJECTTYPE hrow))
                    \<and> (OBJECTTYPE hcol \<noteq> PyArray_OBJECT \<longrightarrow> \<not> narrower (OBJECTTYPE r) (OBJECTTYPE hcol))
                    \<and> (is_complex (OBJECTTYPE img) \<longrightarrow> is_complex (OBJECTTYPE r))"
    if run: "FIRsepsym2d GNUC api cores img hrow hcol h = (out, calls, h')"
    using run
  proof (cases rule: FIRsepsym2d_cases)
    case (called a_image h1 a_hrow h2 a_hcol h3 res h4 M N instrides f Nhrow Nhcol c ret)
    have ty: "OBJECTTYPE res = any_thetype api img"
      by (rule library_types_FromDims [OF lib called(4)])
    have le: "type_num (OBJECTTYPE img) \<le> type_num (any_thetype api img)"
      by (rule library_types_FromObject(2) [OF lib called(1) numeric])
    have row: "OBJECTTYPE hrow \<noteq> PyArray_OBJECT
        \<Longrightarrow> type_num (OBJECTTYPE hrow) \<le> type_num (any_thetype api img)"
      by (rule library_types_ContiguousFromObject(2) [OF lib called(2)])
    have col: "OBJECTTYPE hcol \<noteq> PyArray_OBJECT
        \<Longrightarrow> type_num (OBJECTTYPE hcol) \<le> type_num (any_thetype api img)"
      by (rule library_types_ContiguousFromObject(2) [OF lib called(3)])
    show ?thesis
      using called(14) ty le row col keeps_complex [OF _ le refl]
      by (auto simp: narrower_def dest!: filter_status_Returns)
  qed (simp_all add: PYERR_def)
  have i1: "\<forall>r. out = Returns r \<longrightarrow> \<not> narrower (OBJECTTYPE r) (OBJECTTYPE img)
                    \<and> (is_complex (OBJECTTYPE img) \<longrightarrow> is_complex (OBJECTTYPE r))"
    if run: "IIRsymorder1 GNUC to_float api cores img c0 z1 precision_arg h = (out, calls, h')"
    using run
  proof (cases rule: IIRsymorder1_cases)
    case (called a_sig h1 res h2 N instrides c ret)
    have ty: "OBJECTTYPE res = any_thetype api img"
      by (rule library_types_FromDims [OF lib called(2)])
    have le: "type_num (OBJECTTYPE img) \<le> type_num (any_thetype api img)"
      by (rule library_types_FromObject(2) [OF lib called(1) numeric])
    show ?thesis
      using called(8) ty le keeps_complex [OF _ le refl]
      by (auto simp: narrower_def dest!: filter_status_Returns)
  qed (simp_all add: PYERR_def)
  from c q f i1 i2 show ?thesis by blast
qed

theorem element_type_never_narrowed_witness:
  "(\<exists>r calls h'. cspline2d example_api (example_cores 0) (example_array PyArray_SHORT [2, 2]) None None
        example_heap = (Returns r, calls, h')
      \<and> \<not> narrower (OBJECTTYPE r) PyArray_SHORT)
   \<and> (\<exists>err. cspline2d example_api (example_cores 0) (example_array PyArray_CDOUBLE [2, 2]) None None
        example_heap = (Raises err, [], example_heap))"
proof -
  have numeric: "OBJECTTYPE (example_array PyArray_SHORT [2, 2]) \<noteq> PyArray_OBJECT"
    by (simp add: example_array_def)
  have "\<not> narrower (OBJECTTYPE \<lparr>DATA = 2, RANK = 2, DIMS = [2, 2], STRIDES = [8, 4],
                OBJECTTYPE = PyArray_FLOAT, ELSIZE = 4\<rparr>)
           (OBJECTTYPE (example_array PyArray_SHORT [2, 2]))"
    using element_type_never_narrowed [OF example_api_types numeric, THEN conjunct1, rule_format,
        OF cspline2d_example_short]
    by blast
  then show ?thesis
    using cspline2d_example_short cspline2d_example_complex
    by (simp add: example_array_def)
qed

text \<open>
  C3: the two spline entry points tell the status \<open>-3\<close> from the other negative ones, the
  two symmetric filters do not. On the executable instance, with routines that report
  \<open>-3\<close>, \<^verbatim>\<open>cspline2d\<close> raises ``Precision too high.  Error did not converge.'', while
  \<^verbatim>\<open>IIRsymorder1\<close> and \<^verbatim>\<open>IIRsymorder2\<close> raise ``Problem occured inside routine.'', the error
  they also raise when the routine reports \<open>-1\<close>.
\<close>

theorem symmetric_filters_report_nonconvergence_as_generic:
  "fst (cspline2d example_api (example_cores (- 3)) (example_array PyArray_DOUBLE [2, 2]) None None
          example_heap)
     = PYERR ''Precision too high.  Error did not converge.''
   \<and> fst (IIRsymorder1 GNUC to_float example_api (example_cores (- 3)) (example_array PyArray_DOUBLE [4])
            1 (1 / 2) None example_heap)
     = PYERR ''Problem occured inside routine.''
   \<and> fst (IIRsymorder1 GNUC to_float example_api (example_cores (- 1)) (example_array PyArray_DOUBLE [4])
            1 (1 / 2) None example_heap)
     = PYERR ''Problem occured inside routine.''
   \<and> fst (IIRsymorder2 example_api (example_cores (- 3)) (example_array PyArray_DOUBLE [4])
            (1 / 2) 1 None example_heap)
     = PYERR ''Problem occured inside routine.''"
  by (simp add: cspline2d_def cspline2d_call_def IIRsymorder1_def IIRsymorder1_call_def
      IIRsymorder2_def IIRsymorder2_call_def example_defs convert_strides_double_2x2
      convert_strides_double_4 Let_def)

text \<open>
  C4 (amended): when the precision is omitted, or is a number --- finite or infinite ---
  outside \<open>(0, 1]\<close>, and the coercion, the allocation and the reads succeed, every wrapper
  calls its routine once, with the default of the working element type as the precision:
  \<open>10\<^sup>-\<^sup>3\<close> in single and \<open>10\<^sup>-\<^sup>6\<close> in double precision from \<^verbatim>\<open>cspline2d\<close> and \<^verbatim>\<open>qspline2d\<close>,
  \<open>10\<^sup>-\<^sup>6\<close> and \<open>10\<^sup>-\<^sup>1\<^sup>1\<close> from \<^verbatim>\<open>IIRsymorder1\<close> (converted to \<^verbatim>\<open>float\<close> for the single
  precision routines) and \<^verbatim>\<open>IIRsymorder2\<close>. The default is finer in double than in single
  precision, and the defaults of the spline operations differ from those of the symmetric
  filters. The statement says nothing of a precision that is NaN.
\<close>

theorem default_precision_substituted:
  assumes number: "arg_or precision_arg (Finite (- 1)) \<noteq> NaN"
    and outside: "\<not> in_unit_interval (arg_or precision_arg (Finite (- 1)))"
  shows
    "(PyArray_FromObject api img (real_thetype api img) 2 2 h = Inr (a, h1)
        \<and> PyArray_FromDims api 2 (DIMS a) (real_thetype api img) h1 = Inr (res, h2)
        \<and> c_index (DIMS a) 0 = Some M \<and> c_index (DIMS a) 1 = Some N
        \<and> convert_strides (STRIDES a) (ELSIZE a) 2 = Some instrides
        \<and> is_real_float (real_thetype api img)
      \<longrightarrow> (\<exists>c. cspline2d api cores img lambda_arg precision_arg h
                  = (spline_status (fst (cores c h2)) res, [c], snd (cores c h2))
              \<and> call_precision c
                  = Some (Finite (spline_default_precision (real_thetype api img))))
          \<and> (\<not> double_ne (arg_or lambda_arg (Finite 0)) (Finite 0)
              \<longrightarrow> (\<exists>c. qspline2d api cores img lambda_arg precision_arg h
                          = (spline_status (fst (cores c h2)) res, [c], snd (cores c h2))
                      \<and> call_precision c
                          = Some (Finite (spline_default_precision (real_thetype api img))))))
     \<and> (PyArray_FromObject api img (any_thetype api img) 1 1 h = Inr (a, h1)
        \<and> PyArray_FromDims api 1 (DIMS a) (any_thetype api img) h1 = Inr (res, h2)
        \<and> c_index (DIMS a) 0 = Some N
        \<and> convert_strides (STRIDES a) (ELSIZE a) 1 = Some [s]
        \<and> (is_real_float (any_thetype api img) \<or> GNUC \<and> is_complex (any_thetype api img))
      \<longrightarrow> (\<exists>c. IIRsymorder1 GNUC to_float api cores img c0 z1 precision_arg h
                  = (filter_status (fst (cores c h2)) res, [c], snd (cores c h2))
              \<and> call_precision c
                  = Some (Finite (narrowed to_float (any_thetype api img)
                                    (symiir_default_precision (any_thetype api img))))))
     \<and> (PyArray_FromObject api img (real_thetype api img) 1 1 h = Inr (a, h1)
        \<and> PyArray_FromDims api 1 (DIMS a) (real_thetype api img) h1 = Inr (res, h2)
        \<and> c_index (DIMS a) 0 = Some N
        \<and> convert_strides (STRIDES a) (ELSIZE a) 1 = Some [s]
        \<and> is_real_float (real_thetype api img)
      \<longrightarrow> (\<exists>c. IIRsymorder2 api cores img r omega precision_arg h
                  = (filter_status (fst (cores c h2)) res, [c], snd (cores c h2))
              \<and> call_precision c
                  = Some (Finite (symiir_default_precision (real_thetype api img)))))
     \<and> spline_default_precision PyArray_FLOAT = 1 / 1000
     \<and> spline_default_precision PyArray_DOUBLE = 1 / 1000000
     \<and> symiir_default_precision PyArray_FLOAT = 1 / 1000000
     \<and> symiir_default_precision PyArray_DOUBLE = 1 / 100000000000
     \<and> symiir_default_precision PyArray_CFLOAT = 1 / 1000000
     \<and> symiir_default_precision PyArray_CDOUBLE = 1 / 100000000000
     \<and> spline_default_precision PyArray_DOUBLE < spline_default_precision PyArray_FLOAT
     \<and> symiir_default_precision PyArray_DOUBLE < symiir_default_precision PyArray_FLOAT
     \<and> symiir_default_precision PyArray_CDOUBLE < symiir_default_precision PyArray_CFLOAT
     \<and> spline_default_precision t \<noteq> symiir_default_precision t"
proof -
  note cl = clamp_precision_number [OF number outside]
  have splines: "(\<exists>c. cspline2d api cores img lambda_arg precision_arg h
                  = (spline_status (fst (cores c h2)) res, [c], snd (cores c h2))
              \<and> call_precision c
                  = Some (Finite (spline_default_precision (real_thetype api img))))
          \<and> (\<not> double_ne (arg_or lambda_arg (Finite 0)) (Finite 0)
              \<longrightarrow> (\<exists>c. qspline2d api cores img lambda_arg precision_arg h
                          = (spline_status (fst (cores c h2)) res, [c], snd (cores c h2))
                      \<and> call_precision c
                          = Some (Finite (spline_default_precision (real_thetype api img)))))"
    if p: "PyArray_FromObject api img (real_thetype api img) 2 2 h = Inr (a, h1)
        \<and> PyArray_FromDims api 2 (DIMS a) (real_thetype api img) h1 = Inr (res, h2)
        \<and> c_index (DIMS a) 0 = Some M \<and> c_index (DIMS a) 1 = Some N
        \<and> convert_strides (STRIDES a) (ELSIZE a) 2 = Some instrides
        \<and> is_real_float (real_thetype api img)"
  proof -
    from p have co: "PyArray_FromObject api img (real_thetype api img) 2 2 h = Inr (a, h1)"
      and al: "PyArray_FromDims api 2 (DIMS a) (real_thetype api img) h1 = Inr (res, h2)"
      and rd: "c_index (DIMS a) 0 = Some M" "c_index (DIMS a) 1 = Some N"
        "convert_strides (STRIDES a) (ELSIZE a) 2 = Some instrides"
      and fl: "is_real_float (real_thetype api img)"
      by simp_all
    have c: "\<exists>c. cspline2d api cores img lambda_arg precision_arg h
                  = (spline_status (fst (cores c h2)) res, [c], snd (cores c h2))
              \<and> call_precision c
                  = Some (Finite (spline_default_precision (real_thetype api img)))"
      using cspline2d_coerced [OF co al rd, of cores lambda_arg precision_arg] fl
      by (simp add: cspline2d_call_eq cl)
    have q: "\<exists>c. qspline2d api cores img lambda_arg precision_arg h
                  = (spline_status (fst (cores c h2)) res, [c], snd (cores c h2))
              \<and> call_precision c
                  = Some (Finite (spline_default_precision (real_thetype api img)))"
      if z: "\<not> double_ne (arg_or lambda_arg (Finite 0)) (Finite 0)"
      using qspline2d_coerced [OF z co al rd, of cores precision_arg] fl
      by (simp add: qspline2d_call_eq cl)
    from c q show ?thesis by blast
  qed
  have iir1: "\<exists>c. IIRsymorder1 GNUC to_float api cores img c0 z1 precision_arg h
                  = (filter_status (fst (cores c h2)) res, [c], snd (cores c h2))
              \<and> call_precision c
                  = Some (Finite (narrowed to_float (any_thetype api img)
                                    (symiir_default_precision (any_thetype api img))))"
    if p: "PyArray_FromObject api img (any_thetype api img) 1 1 h = Inr (a, h1)
        \<and> PyArray_FromDims api 1 (DIMS a) (any_thetype api img) h1 = Inr (res, h2)
        \<and> c_index (DIMS a) 0 = Some N
        \<and> convert_strides (STRIDES a) (ELSIZE a) 1 = Some [s]
        \<and> (is_real_float (any_thetype api img) \<or> GNUC \<and> is_complex (any_thetype api img))"
  proof -
    from p have co: "PyArray_FromObject api img (any_thetype api img) 1 1 h = Inr (a, h1)"
      and al: "PyArray_FromDims api 1 (DIMS a) (any_thetype api img) h1 = Inr (res, h2)"
      and rd: "c_index (DIMS a) 0 = Some N"
        "convert_strides (STRIDES a) (ELSIZE a) 1 = Some [s]"
      and sup: "is_real_float (any_thetype api img) \<or> GNUC \<and> is_complex (any_thetype api img)"
      by simp_all
    obtain c where c: "IIRsymorder1_call GNUC to_float (any_thetype api img) c0 z1 (DATA a)
        (DATA res) N s 1 (arg_or precision_arg (Finite (- 1))) = Some c"
      using sup by (auto simp: IIRsymorder1_call_eq Let_def is_real_float_def is_complex_def)
    have "call_precision c = Some (Finite (narrowed to_float (any_thetype api img)
                                    (symiir_default_precision (any_thetype api img))))"
      using IIRsymorder1_call_Some(5) [OF c]
      by (simp add: cl narrowed_def float_cast_def)
    moreover have "IIRsymorder1 GNUC to_float api cores img c0 z1 precision_arg h
                  = (filter_status (fst (cores c h2)) res, [c], snd (cores c h2))"
      using IIRsymorder1_coerced [OF co al rd, of GNUC to_float cores c0 z1 precision_arg] c
      by simp
    ultimately show ?thesis by blast
  qed
  have iir2: "\<exists>c. IIRsymorder2 api cores img r omega precision_arg h
                  = (filter_status (fst (cores c h2)) res, [c], snd (cores c h2))
              \<and> call_precision c
                  = Some (Finite (symiir_default_precision (real_thetype api img)))"
    if p: "PyArray_FromObject api img (real_thetype api img) 1 1 h = Inr (a, h1)
        \<and> PyArray_FromDims api 1 (DIMS a) (real_thetype api img) h1 = Inr (res, h2)
        \<and> c_index (DIMS a) 0 = Some N
        \<and> convert_strides (STRIDES a) (ELSIZE a) 1 = Some [s]
        \<and> is_real_float (real_thetype api img)"
  proof -
    from p have co: "PyArray_FromObject api img (real_thetype api img) 1 1 h = Inr (a, h1)"
      and al: "PyArray_FromDims api 1 (DIMS a) (real_thetype api img) h1 = Inr (res, h2)"
      and rd: "c_index (DIMS a) 0 = Some N"
        "convert_strides (STRIDES a) (ELSIZE a) 1 = Some [s]"
      and fl: "is_real_float (real_thetype api img)"
      by simp_all
    show ?thesis
      using IIRsymorder2_coerced [OF co al rd, of cores r omega precision_arg] fl
      by (simp add: IIRsymorder2_call_eq cl)
  qed
  have table: "spline_default_precision PyArray_FLOAT = 1 / 1000
     \<and> spline_default_precision PyArray_DOUBLE = 1 / 1000000
     \<and> symiir_default_precision PyArray_FLOAT = 1 / 1000000
     \<and> symiir_default_precision PyArray_DOUBLE = 1 / 100000000000
     \<and> symiir_default_precision PyArray_CFLOAT = 1 / 1000000
     \<and> symiir_default_precision PyArray_CDOUBLE = 1 / 100000000000
     \<and> spline_default_precision PyArray_DOUBLE < spline_default_precision PyArray_FLOAT
     \<and> symiir_default_precision PyArray_DOUBLE < symiir_default_precision PyArray_FLOAT
     \<and> symiir_default_precision PyArray_CDOUBLE < symiir_default_precision PyArray_CFLOAT
     \<and> spline_default_precision t \<noteq> symiir_default_precision t"
    by (simp add: spline_default_precision_def symiir_default_precision_def single_precision_def)
  from splines iir1 iir2 table show ?thesis by blast
qed

theorem IIRsymorder2_hands_on_NaN_precision:
  "IIRsymorder2 example_api (example_cores 0) (example_array PyArray_DOUBLE [4]) (1 / 2) 1
       (Some NaN) example_heap
   = (Returns \<lparr>DATA = 1, RANK = 1, DIMS = [4], STRIDES = [8], OBJECTTYPE = PyArray_DOUBLE,
                ELSIZE = 8\<rparr>,
      [Forback2 D_IIR_forback2 (1 / 2) 1 0 1 4 1 1 NaN],
      [[1, 2, 3, 4], [1, 2, 3, 4]])"
  by (simp add: IIRsymorder2_def IIRsymorder2_call_def example_defs convert_strides_double_4
      Let_def)

theorem default_precision_substituted_witness:
  "(\<exists>c g. cspline2d example_api (example_cores 0) (example_array PyArray_DOUBLE [2, 2]) None
          (Some (Finite 5)) example_heap
        = (Returns \<lparr>DATA = 1, RANK = 2, DIMS = [2, 2], STRIDES = [16, 8],
                     OBJECTTYPE = PyArray_DOUBLE, ELSIZE = 8\<rparr>, [c], g)
      \<and> call_precision c = Some (Finite (1 / 1000000)))
   \<and> (\<exists>c g. IIRsymorder1 True (\<lambda>x. x) example_api (example_cores 0)
          (example_array PyArray_CDOUBLE [4]) (Complex 1 2) (Complex (1 / 2) 3) None example_heap
        = (Returns \<lparr>DATA = 1, RANK = 1, DIMS = [4], STRIDES = [16],
                     OBJECTTYPE = PyArray_CDOUBLE, ELSIZE = 16\<rparr>, [c], g)
      \<and> call_precision c = Some (Finite (1 / 100000000000)))"
proof -
  let ?img = "example_array PyArray_DOUBLE [2, 2]"
  let ?sig = "example_array PyArray_CDOUBLE [4]"
  let ?heap = "[[1, 2, 3, 4], [0, 0, 0, 0 :: real]]"
  have t: "real_thetype example_api ?img = PyArray_DOUBLE"
    "any_thetype example_api ?sig = PyArray_CDOUBLE"
    unfolding example_thetype by (simp_all add: promoted_def MIN_type_def MAX_type_def)
  have num: "arg_or (Some (Finite 5)) (Finite (- 1)) \<noteq> NaN"
    "arg_or None (Finite (- 1)) \<noteq> NaN"
    by (simp_all add: arg_or_def)
  have out: "\<not> in_unit_interval (arg_or (Some (Finite 5)) (Finite (- 1)))"
    "\<not> in_unit_interval (arg_or None (Finite (- 1)))"
    by (simp_all add: arg_or_def in_unit_interval_def)
  have p2: "PyArray_FromObject example_api ?img (real_thetype example_api ?img) 2 2 example_heap
        = Inr (?img, example_heap)
      \<and> PyArray_FromDims example_api 2 (DIMS ?img) (real_thetype example_api ?img) example_heap
        = Inr (\<lparr>DATA = 1, RANK = 2, DIMS = [2, 2], STRIDES = [16, 8], OBJECTTYPE = PyArray_DOUBLE,
                  ELSIZE = 8\<rparr>, ?heap)
      \<and> c_index (DIMS ?img) 0 = Some 2 \<and> c_index (DIMS ?img) 1 = Some 2
      \<and> convert_strides (STRIDES ?img) (ELSIZE ?img) 2 = Some [2, 1]
      \<and> is_real_float (real_thetype example_api ?img)"
    using example_coerce_2x2 [of PyArray_DOUBLE] example_allocate_2x2 [of PyArray_DOUBLE]
    by (simp add: t example_2x2 c_index_def convert_strides_double_2x2 is_real_float_def
        elsize_of_def)
  have p1: "PyArray_FromObject example_api ?sig (any_thetype example_api ?sig) 1 1 example_heap
        = Inr (?sig, example_heap)
      \<and> PyArray_FromDims example_api 1 (DIMS ?sig) (any_thetype example_api ?sig) example_heap
        = Inr (\<lparr>DATA = 1, RANK = 1, DIMS = [4], STRIDES = [16], OBJECTTYPE = PyArray_CDOUBLE,
                  ELSIZE = 16\<rparr>, ?heap)
      \<and> c_index (DIMS ?sig) 0 = Some 4
      \<and> convert_strides (STRIDES ?sig) (ELSIZE ?sig) 1 = Some [1]
      \<and> (is_real_float (any_thetype example_api ?sig)
          \<or> True \<and> is_complex (any_thetype example_api ?sig))"
    using example_coerce_1d(1) [of PyArray_CDOUBLE 4] example_allocate_4 [of PyArray_CDOUBLE]
      convert_strides_bracket [of 4 16 1 "[16]"]
    by (simp add: t example_4 c_index_def is_complex_def elsize_of_def shr_def)
  from default_precision_substituted [OF num(1) out(1), THEN conjunct1, rule_format, OF p2,
      THEN conjunct1, of "example_cores 0" None]
    default_precision_substituted [OF num(2) out(2), THEN conjunct2, THEN conjunct1, rule_format,
      OF p1, of "\<lambda>x. x" "example_cores 0" "Complex 1 2" "Complex (1 / 2) 3"]
  show ?thesis
    by (auto simp: t example_2x2 example_cores_status spline_status_def filter_status_def
        spline_default_precision_def symiir_default_precision_def single_precision_def
        narrowed_def)
qed

text \<open>
  C5: on the hypothesis that the library only casts safely, \<^verbatim>\<open>IIRsymorder2\<close> given a complex
  array ends at its first step: the coercion to the real working type fails, and the
  wrapper returns with the exception of that failure, without an allocation, without a call
  of a routine, and with the heap as it was.
\<close>

theorem IIRsymorder2_refuses_complex:
  assumes lib: "library_types api" and cplx: "is_complex (OBJECTTYPE sig)"
  shows "\<exists>err. PyArray_FromObject api sig (real_thetype api sig) 1 1 h = Inl err
           \<and> IIRsymorder2 api cores sig r omega precision_arg h = (Raises err, [], h)"
proof (cases "PyArray_FromObject api sig (real_thetype api sig) 1 1 h")
  case (Inl err)
  then show ?thesis by (auto simp: IIRsymorder2_def)
next
  case (Inr p)
  then obtain a g where "PyArray_FromObject api sig (real_thetype api sig) 1 1 h = Inr (a, g)"
    by (cases p) auto
  moreover have "OBJECTTYPE sig \<noteq> PyArray_OBJECT" using cplx by (auto simp: is_complex_def)
  ultimately have "type_num (OBJECTTYPE sig) \<le> type_num (real_thetype api sig)"
    using library_types_FromObject(2) [OF lib] by blast
  with cplx real_thetype_not_complex [of "PyArray_ObjectType api sig PyArray_FLOAT"]
  show ?thesis by (auto simp: complex_type_num)
qed

theorem IIRsymorder2_refuses_complex_witness:
  "is_complex (OBJECTTYPE (example_array PyArray_CDOUBLE [4]))
   \<and> (\<exists>err. IIRsymorder2 example_api (example_cores 0) (example_array PyArray_CDOUBLE [4]) (1 / 2) 1
          None example_heap = (Raises err, [], example_heap))"
proof -
  have c: "is_complex (OBJECTTYPE (example_array PyArray_CDOUBLE [4]))"
    by (simp add: is_complex_def example_array_def)
  from IIRsymorder2_refuses_complex [OF example_api_types c, of example_heap "example_cores 0" "1 / 2" 1 None] c
  show ?thesis by blast
qed




text \<open>
  C7: when the coercion of the input and the allocation of the result succeed and the
  routine reports success, every entry point returns the array that \<^verbatim>\<open>PyArray_FromDims\<close> made:
  it has the rank and the extents of the coerced input (rank \<open>2\<close> for \<^verbatim>\<open>cspline2d\<close>,
  \<^verbatim>\<open>qspline2d\<close> and \<^verbatim>\<open>FIRsepsym2d\<close>, rank \<open>1\<close> for \<^verbatim>\<open>IIRsymorder1\<close> and \<^verbatim>\<open>IIRsymorder2\<close>), its
  strides are those of a contiguous array, and its data is a buffer that did not exist when
  the entry point was called. The one routine that is called receives that buffer as its
  output, with the contiguous strides in elements: \<open>N, 1\<close> for the extents \<open>M, N\<close>, and \<open>1\<close>
  for a signal. In the scenario of the specification, \<^verbatim>\<open>qspline2d\<close> on the \<open>2 \<times> 2\<close> image of
  type \<^verbatim>\<open>PyArray_DOUBLE\<close> with \<open>lambda = 0\<close> and precision \<open>10\<^sup>-\<^sup>6\<close>, the routine modelled from
  the specification reports the status \<open>0\<close> and the result is a \<open>2 \<times> 2\<close> array of type
  \<^verbatim>\<open>PyArray_DOUBLE\<close>.
\<close>

theorem result_has_shape_of_input:
  assumes shapes: "library_shapes api" and frame: "library_frame api"
    and object_type: "library_object_type api"
    and success: "\<forall>c g. 0 \<le> fst (cores c g)"
  shows
    "(PyArray_FromObject api img (real_thetype api img) 2 2 h = Inr (a, h1)
        \<and> PyArray_FromDims api 2 (DIMS a) (real_thetype api img) h1 = Inr (res, h2)
      \<longrightarrow> RANK a = 2 \<and> same_shape_fresh res a h
          \<and> (\<exists>c g. cspline2d api cores img lambda_arg precision_arg h = (Returns res, [c], g)
                \<and> call_out c = DATA res \<and> call_outstrides c = contiguous_strides (DIMS a) 1)
          \<and> (\<not> double_ne (arg_or lambda_arg (Finite 0)) (Finite 0)
              \<longrightarrow> (\<exists>c g. qspline2d api cores img lambda_arg precision_arg h = (Returns res, [c], g)
                    \<and> call_out c = DATA res
                    \<and> call_outstrides c = contiguous_strides (DIMS a) 1)))
     \<and> (PyArray_FromObject api img (any_thetype api img) 2 2 h = Inr (a, h1)
        \<and> PyArray_ContiguousFromObject api hrow (any_thetype api img) 1 1 h1 = Inr (a_hrow, h2)
        \<and> PyArray_ContiguousFromObject api hcol (any_thetype api img) 1 1 h2 = Inr (a_hcol, h3)
        \<and> PyArray_FromDims api 2 (DIMS a) (any_thetype api img) h3 = Inr (res, h4)
        \<and> (GNUC \<or> \<not> is_complex (any_thetype api img))
      \<longrightarrow> RANK a = 2 \<and> same_shape_fresh res a h
          \<and> (\<exists>c g. FIRsepsym2d GNUC api cores img hrow hcol h = (Returns res, [c], g)
                \<and> call_out c = DATA res \<and> call_outstrides c = contiguous_strides (DIMS a) 1))
     \<and> (PyArray_FromObject api img (any_thetype api img) 1 1 h = Inr (a, h1)
        \<and> PyArray_FromDims api 1 (DIMS a) (any_thetype api img) h1 = Inr (res, h2)
        \<and> (GNUC \<or> \<not> is_complex (any_thetype api img))
      \<longrightarrow> RANK a = 1 \<and> same_shape_fresh res a h
          \<and> (\<exists>c g. IIRsymorder1 GNUC to_float api cores img c0 z1 precision_arg h
                      = (Returns res, [c], g)
                \<and> call_out c = DATA res \<and> call_outstrides c = contiguous_strides (DIMS a) 1))
     \<and> (PyArray_FromObject api img (real_thetype api img) 1 1 h = Inr (a, h1)
        \<and> PyArray_FromDims api 1 (DIMS a) (real_thetype api img) h1 = Inr (res, h2)
      \<longrightarrow> RANK a = 1 \<and> same_shape_fresh res a h
          \<and> (\<exists>c g. IIRsymorder2 api cores img r omega precision_arg h = (Returns res, [c], g)
                \<and> call_out c = DATA res \<and> call_outstrides c = contiguous_strides (DIMS a) 1))
     \<and> qspline2d example_api scenario_cores (example_array PyArray_DOUBLE [2, 2]) (Some (Finite 0))
          (Some (Finite (1 / 10 ^ 6))) example_heap
        = (Returns \<lparr>DATA = 1, RANK = 2, DIMS = [2, 2], STRIDES = [16, 8],
                     OBJECTTYPE = PyArray_DOUBLE, ELSIZE = 8\<rparr>,
           [scenario_call], [[1, 2, 3, 4], [0, 0, 0, 0]])
     \<and> fst (scenario_cores scenario_call [[1, 2, 3, 4], [0, 0, 0, 0]]) = 0"
proof -
  note rt = library_object_type_thetype(1) [OF object_type, of img]
  note at = library_object_type_thetype(2) [OF object_type, of img]
  have ok: "spline_status (fst (cores c g)) x = Returns x"
    "filter_status (fst (cores c g)) x = Returns x" for c g x
    using success [rule_format, of c g] by (simp_all add: spline_status_def filter_status_def)
  have splines: "RANK a = 2 \<and> same_shape_fresh res a h
          \<and> (\<exists>c g. cspline2d api cores img lambda_arg precision_arg h = (Returns res, [c], g)
                \<and> call_out c = DATA res \<and> call_outstrides c = contiguous_strides (DIMS a) 1)
          \<and> (\<not> double_ne (arg_or lambda_arg (Finite 0)) (Finite 0)
              \<longrightarrow> (\<exists>c g. qspline2d api cores img lambda_arg precision_arg h = (Returns res, [c], g)
                    \<and> call_out c = DATA res
                    \<and> call_outstrides c = contiguous_strides (DIMS a) 1))"
    if co: "PyArray_FromObject api img (real_thetype api img) 2 2 h = Inr (a, h1)"
      and al: "PyArray_FromDims api 2 (DIMS a) (real_thetype api img) h1 = Inr (res, h2)"
  proof -
    from coerced_2d [OF shapes co] obtain M N instrides where
      rd: "RANK a = 2" "DIMS a = [M, N]" "c_index (DIMS a) 0 = Some M"
        "c_index (DIMS a) 1 = Some N"
        "convert_strides (STRIDES a) (ELSIZE a) 2 = Some instrides"
      by blast
    have fresh: "same_shape_fresh res a h"
      using allocated_like [OF shapes frame _ library_frame_FromObject [OF frame co], of a _ res h2]
        al rd(1,2) by simp
    have fl: "is_real_float (real_thetype api img)"
      unfolding rt by (rule promoted_DOUBLE)
    have c: "\<exists>c g. cspline2d api cores img lambda_arg precision_arg h = (Returns res, [c], g)
                \<and> call_out c = DATA res \<and> call_outstrides c = contiguous_strides (DIMS a) 1"
      using cspline2d_coerced [OF co al rd(3,4,5), of cores lambda_arg precision_arg] fl rd(2)
      by (simp add: cspline2d_call_eq ok)
    have q: "\<exists>c g. qspline2d api cores img lambda_arg precision_arg h = (Returns res, [c], g)
                \<and> call_out c = DATA res \<and> call_outstrides c = contiguous_strides (DIMS a) 1"
      if z: "\<not> double_ne (arg_or lambda_arg (Finite 0)) (Finite 0)"
      using qspline2d_coerced [OF z co al rd(3,4,5), of cores precision_arg] fl rd(2)
      by (simp add: qspline2d_call_eq ok)
    from rd(1) fresh c q show ?thesis by blast
  qed
  have fir: "RANK a = 2 \<and> same_shape_fresh res a h
          \<and> (\<exists>c g. FIRsepsym2d GNUC api cores img hrow hcol h = (Returns res, [c], g)
                \<and> call_out c = DATA res \<and> call_outstrides c = contiguous_strides (DIMS a) 1)"
    if co: "PyArray_FromObject api img (any_thetype api img) 2 2 h = Inr (a, h1)"
      and row: "PyArray_ContiguousFromObject api hrow (any_thetype api img) 1 1 h1 = Inr (a_hrow, h2)"
      and col: "PyArray_ContiguousFromObject api hcol (any_thetype api img) 1 1 h2 = Inr (a_hcol, h3)"
      and al: "PyArray_FromDims api 2 (DIMS a) (any_thetype api img) h3 = Inr (res, h4)"
      and build: "GNUC \<or> \<not> is_complex (any_thetype api img)"
  proof -
    from coerced_2d [OF shapes co] obtain M N instrides where
      rd: "RANK a = 2" "DIMS a = [M, N]" "c_index (DIMS a) 0 = Some M"
        "c_index (DIMS a) 1 = Some N"
        "convert_strides (STRIDES a) (ELSIZE a) 2 = Some instrides"
      by blast
    from coerced_kernel [OF shapes row] obtain Nhrow where nr: "c_index (DIMS a_hrow) 0 = Some Nhrow" .
    from coerced_kernel [OF shapes col] obtain Nhcol where nc: "c_index (DIMS a_hcol) 0 = Some Nhcol" .
    have ext: "heap_extends h h3"
      using library_frame_FromObject [OF frame co]
        library_frame_ContiguousFromObject [OF frame row]
        library_frame_ContiguousFromObject [OF frame col]
      by (blast intro: heap_extends_trans)
    have fresh: "same_shape_fresh res a h"
      using allocated_like [OF shapes frame _ ext, of a _ res h4] al rd(1,2) by simp
    have "is_real_float (any_thetype api img) \<or> is_complex (any_thetype api img)"
      unfolding at by (rule promoted_CDOUBLE)
    with build have sup: "is_real_float (any_thetype api img)
        \<or> (GNUC \<and> is_complex (any_thetype api img))" by blast
    have "\<exists>c g. FIRsepsym2d GNUC api cores img hrow hcol h = (Returns res, [c], g)
                \<and> call_out c = DATA res \<and> call_outstrides c = contiguous_strides (DIMS a) 1"
      using FIRsepsym2d_coerced [OF co row col al rd(3,4,5), of GNUC cores] sup nr nc rd(2)
      by (simp add: FIRsepsym2d_switch_eq ok)
    with rd(1) fresh show ?thesis by blast
  qed
  have iir1: "RANK a = 1 \<and> same_shape_fresh res a h
          \<and> (\<exists>c g. IIRsymorder1 GNUC to_float api cores img c0 z1 precision_arg h
                      = (Returns res, [c], g)
                \<and> call_out c = DATA res \<and> call_outstrides c = contiguous_strides (DIMS a) 1)"
    if co: "PyArray_FromObject api img (any_thetype api img) 1 1 h = Inr (a, h1)"
      and al: "PyArray_FromDims api 1 (DIMS a) (any_thetype api img) h1 = Inr (res, h2)"
      and build: "GNUC \<or> \<not> is_complex (any_thetype api img)"
  proof -
    from coerced_1d [OF shapes co] obtain N instrides where
      rd: "RANK a = 1" "DIMS a = [N]" "c_index (DIMS a) 0 = Some N"
        "convert_strides (STRIDES a) (ELSIZE a) 1 = Some [instrides]"
      by blast
    have fresh: "same_shape_fresh res a h"
      using allocated_like [OF shapes frame _ library_frame_FromObject [OF frame co], of a _ res h2]
        al rd(1,2) by simp
    have "is_real_float (any_thetype api img) \<or> is_complex (any_thetype api img)"
      unfolding at by (rule promoted_CDOUBLE)
    with build have sup: "is_real_float (any_thetype api img)
        \<or> (GNUC \<and> is_complex (any_thetype api img))" by blast
    obtain c where c: "IIRsymorder1_call GNUC to_float (any_thetype api img) c0 z1 (DATA a) (DATA res) N
             instrides 1 (arg_or precision_arg (Finite (- 1))) = Some c"
      using sup by (auto simp: IIRsymorder1_call_eq Let_def is_real_float_def is_complex_def)
    note cl = IIRsymorder1_call_Some [OF c]
    have "IIRsymorder1 GNUC to_float api cores img c0 z1 precision_arg h
            = (Returns res, [c], snd (cores c h2))"
      using IIRsymorder1_coerced [OF co al rd(3,4), of GNUC to_float cores c0 z1 precision_arg] c
      by (simp add: ok)
    with cl(3,4) rd(2) have "\<exists>c g. IIRsymorder1 GNUC to_float api cores img c0 z1 precision_arg h
                      = (Returns res, [c], g)
                \<and> call_out c = DATA res \<and> call_outstrides c = contiguous_strides (DIMS a) 1"
      by simp
    with rd(1) fresh show ?thesis by blast
  qed
  have iir2: "RANK a = 1 \<and> same_shape_fresh res a h
          \<and> (\<exists>c g. IIRsymorder2 api cores img r omega precision_arg h = (Returns res, [c], g)
                \<and> call_out c = DATA res \<and> call_outstrides c = contiguous_strides (DIMS a) 1)"
    if co: "PyArray_FromObject api img (real_thetype api img) 1 1 h = Inr (a, h1)"
      and al: "PyArray_FromDims api 1 (DIMS a) (real_thetype api img) h1 = Inr (res, h2)"
  proof -
    from coerced_1d [OF shapes co] obtain N instrides where
      rd: "RANK a = 1" "DIMS a = [N]" "c_index (DIMS a) 0 = Some N"
        "convert_strides (STRIDES a) (ELSIZE a) 1 = Some [instrides]"
      by blast
    have fresh: "same_shape_fresh res a h"
      using allocated_like [OF shapes frame _ library_frame_FromObject [OF frame co], of a _ res h2]
        al rd(1,2) by simp
    have fl: "is_real_float (real_thetype api img)"
      unfolding rt by (rule promoted_DOUBLE)
    have "\<exists>c g. IIRsymorder2 api cores img r omega precision_arg h = (Returns res, [c], g)
                \<and> call_out c = DATA res \<and> call_outstrides c = contiguous_strides (DIMS a) 1"
      using IIRsymorder2_coerced [OF co al rd(3,4), of cores r omega precision_arg] fl rd(2)
      by (simp add: IIRsymorder2_call_eq ok)
    with rd(1) fresh show ?thesis by blast
  qed
  have status: "fst (scenario_cores scenario_call [[1, 2, 3, 4], [0, 0, 0, 0]]) = 0"
    by (simp add: scenario_cores_def)
  from splines fir iir1 iir2 qspline2d_scenario status show ?thesis by blast
qed

theorem result_has_shape_of_input_witness:
  "same_shape_fresh
      \<lparr>DATA = 1, RANK = 2, DIMS = [2, 2], STRIDES = [16, 8], OBJECTTYPE = PyArray_DOUBLE, ELSIZE = 8\<rparr>
      (example_array PyArray_DOUBLE [2, 2]) example_heap
   \<and> (\<exists>c g. cspline2d example_api (example_cores 0) (example_array PyArray_DOUBLE [2, 2]) None None
          example_heap
        = (Returns \<lparr>DATA = 1, RANK = 2, DIMS = [2, 2], STRIDES = [16, 8],
                     OBJECTTYPE = PyArray_DOUBLE, ELSIZE = 8\<rparr>, [c], g)
        \<and> call_out c = 1 \<and> call_outstrides c = [2, 1])
   \<and> same_shape_fresh
      \<lparr>DATA = 1, RANK = 1, DIMS = [4], STRIDES = [16], OBJECTTYPE = PyArray_CDOUBLE, ELSIZE = 16\<rparr>
      (example_array PyArray_CDOUBLE [4]) example_heap
   \<and> (\<exists>c g. IIRsymorder1 True (\<lambda>x. x) example_api (example_cores 0)
          (example_array PyArray_CDOUBLE [4]) (Complex 1 2) (Complex (1 / 2) 3) None example_heap
        = (Returns \<lparr>DATA = 1, RANK = 1, DIMS = [4], STRIDES = [16],
                     OBJECTTYPE = PyArray_CDOUBLE, ELSIZE = 16\<rparr>, [c], g)
        \<and> call_out c = 1 \<and> call_outstrides c = [1])"
proof -
  let ?img = "example_array PyArray_DOUBLE [2, 2]"
  let ?sig = "example_array PyArray_CDOUBLE [4]"
  have t: "real_thetype example_api ?img = PyArray_DOUBLE"
    "any_thetype example_api ?sig = PyArray_CDOUBLE"
    unfolding example_thetype by (simp_all add: promoted_def MIN_type_def MAX_type_def)
  have d: "DIMS ?img = [2, 2]" "DIMS ?sig = [4]" by (simp_all add: example_array_def)
  have e: "elsize_of PyArray_DOUBLE = 8" "elsize_of PyArray_CDOUBLE = 16"
    by (simp_all add: elsize_of_def)
  have co2: "PyArray_FromObject example_api ?img (real_thetype example_api ?img) 2 2 example_heap
      = Inr (?img, example_heap)"
    using example_coerce_2x2 [of PyArray_DOUBLE] by (simp add: t)
  have al2: "PyArray_FromDims example_api 2 (DIMS ?img) (real_thetype example_api ?img) example_heap
      = Inr (\<lparr>DATA = 1, RANK = 2, DIMS = [2, 2], STRIDES = [16, 8], OBJECTTYPE = PyArray_DOUBLE,
                ELSIZE = 8\<rparr>, [[1, 2, 3, 4], [0, 0, 0, 0]])"
    using example_allocate_2x2 [of PyArray_DOUBLE] by (simp add: t d e)
  have co1: "PyArray_FromObject example_api ?sig (any_thetype example_api ?sig) 1 1 example_heap
      = Inr (?sig, example_heap)"
    using example_coerce_1d(1) [of PyArray_CDOUBLE 4] by (simp add: t)
  have al1: "PyArray_FromDims example_api 1 (DIMS ?sig) (any_thetype example_api ?sig) example_heap
      = Inr (\<lparr>DATA = 1, RANK = 1, DIMS = [4], STRIDES = [16], OBJECTTYPE = PyArray_CDOUBLE,
                ELSIZE = 16\<rparr>, [[1, 2, 3, 4], [0, 0, 0, 0]])"
    using example_allocate_4 [of PyArray_CDOUBLE] by (simp add: t d e)
  note th = result_has_shape_of_input [OF example_api_shapes example_api_frame
      example_api_object_type example_cores_success]
  from th [where GNUC = True, THEN conjunct1, rule_format, OF conjI [OF co2 al2]]
    th [where GNUC = True, THEN conjunct2, THEN conjunct2, THEN conjunct1, rule_format,
        OF conjI [OF co1 conjI [OF al1 disjI1 [OF TrueI]]]]
  show ?thesis by (simp add: d)
qed

text \<open>
  C8 (amended): when the coercion, the allocation and the reads succeed, the result of
  \<^verbatim>\<open>IIRsymorder1\<close> has the working element type, which for a signal of one of the four
  floating types is the type of the signal. For a real signal (\<^verbatim>\<open>PyArray_FLOAT\<close> or
  \<^verbatim>\<open>PyArray_DOUBLE\<close>) the one call made is that of the real routine of the type, with the
  real parts of \<open>c0\<close> and \<open>z1\<close> as gain and pole (converted to \<^verbatim>\<open>float\<close> in single precision):
  the imaginary parts do not appear in the call. For a complex signal (\<^verbatim>\<open>PyArray_CFLOAT\<close> or
  \<^verbatim>\<open>PyArray_CDOUBLE\<close>) in a build with GNU C the one call made is that of the complex routine
  of the type, with both parts of \<open>c0\<close> and \<open>z1\<close> (converted to \<^verbatim>\<open>float\<close> in single
  precision). In a build without GNU C the complex cases are not compiled, and a complex
  signal is answered with ``Incorrect type.'', without a call.
\<close>

theorem IIRsymorder1_gain_and_pole:
  assumes object_type: "library_object_type api" and types: "library_types api"
  shows
    "PyArray_FromObject api sig (any_thetype api sig) 1 1 h = Inr (a_sig, h1)
       \<and> PyArray_FromDims api 1 (DIMS a_sig) (any_thetype api sig) h1 = Inr (res, h2)
       \<and> c_index (DIMS a_sig) 0 = Some N
       \<and> convert_strides (STRIDES a_sig) (ELSIZE a_sig) 1 = Some [instrides]
     \<longrightarrow> OBJECTTYPE res = any_thetype api sig
         \<and> (is_real_float (OBJECTTYPE sig)
            \<longrightarrow> OBJECTTYPE res = OBJECTTYPE sig
                \<and> (\<exists>p. let c = Forback1 (if OBJECTTYPE sig = PyArray_FLOAT then S_IIR_forback1
                                         else D_IIR_forback1)
                                  (narrowed to_float (OBJECTTYPE sig) (Re c0))
                                  (narrowed to_float (OBJECTTYPE sig) (Re z1))
                                  (DATA a_sig) (DATA res) N instrides 1 p
                        in IIRsymorder1 GNUC to_float api cores sig c0 z1 precision_arg h
                             = (filter_status (fst (cores c h2)) res, [c], snd (cores c h2))))
         \<and> (is_complex (OBJECTTYPE sig)
            \<longrightarrow> OBJECTTYPE res = OBJECTTYPE sig
                \<and> (\<exists>p. let c = Forback1_complex (if OBJECTTYPE sig = PyArray_CFLOAT
                                                  then C_IIR_forback1 else Z_IIR_forback1)
                                  (Complex (narrowed to_float (OBJECTTYPE sig) (Re c0))
                                           (narrowed to_float (OBJECTTYPE sig) (Im c0)))
                                  (Complex (narrowed to_float (OBJECTTYPE sig) (Re z1))
                                           (narrowed to_float (OBJECTTYPE sig) (Im z1)))
                                  (DATA a_sig) (DATA res) N instrides 1 p
                        in IIRsymorder1 GNUC to_float api cores sig c0 z1 precision_arg h
                             = (if GNUC then
                                  (filter_status (fst (cores c h2)) res, [c], snd (cores c h2))
                                else (PYERR ''Incorrect type.'', [], h2))))"
proof (intro impI)
  assume p: "PyArray_FromObject api sig (any_thetype api sig) 1 1 h = Inr (a_sig, h1)
       \<and> PyArray_FromDims api 1 (DIMS a_sig) (any_thetype api sig) h1 = Inr (res, h2)
       \<and> c_index (DIMS a_sig) 0 = Some N
       \<and> convert_strides (STRIDES a_sig) (ELSIZE a_sig) 1 = Some [instrides]"
  then have co: "PyArray_FromObject api sig (any_thetype api sig) 1 1 h = Inr (a_sig, h1)"
    and al: "PyArray_FromDims api 1 (DIMS a_sig) (any_thetype api sig) h1 = Inr (res, h2)"
    and rd: "c_index (DIMS a_sig) 0 = Some N"
      "convert_strides (STRIDES a_sig) (ELSIZE a_sig) 1 = Some [instrides]"
    by simp_all
  note at = library_object_type_thetype(2) [OF object_type, of sig]
  note run = IIRsymorder1_coerced [OF co al rd, of GNUC to_float cores c0 z1 precision_arg]
  have ty: "OBJECTTYPE res = any_thetype api sig"
    by (rule library_types_FromDims [OF types al])
  have re: "OBJECTTYPE res = OBJECTTYPE sig
                \<and> (\<exists>p. let c = Forback1 (if OBJECTTYPE sig = PyArray_FLOAT then S_IIR_forback1
                                         else D_IIR_forback1)
                                  (narrowed to_float (OBJECTTYPE sig) (Re c0))
                                  (narrowed to_float (OBJECTTYPE sig) (Re z1))
                                  (DATA a_sig) (DATA res) N instrides 1 p
                        in IIRsymorder1 GNUC to_float api cores sig c0 z1 precision_arg h
                             = (filter_status (fst (cores c h2)) res, [c], snd (cores c h2)))"
    if fl: "is_real_float (OBJECTTYPE sig)"
  proof -
    have same: "any_thetype api sig = OBJECTTYPE sig"
      unfolding at using fl by (intro promoted_floating(1)) simp
    from fl have "OBJECTTYPE sig = PyArray_FLOAT \<or> OBJECTTYPE sig = PyArray_DOUBLE"
      by (simp add: is_real_float_def)
    then have "\<exists>p. let c = Forback1 (if OBJECTTYPE sig = PyArray_FLOAT then S_IIR_forback1
                                         else D_IIR_forback1)
                                  (narrowed to_float (OBJECTTYPE sig) (Re c0))
                                  (narrowed to_float (OBJECTTYPE sig) (Re z1))
                                  (DATA a_sig) (DATA res) N instrides 1 p
                        in IIRsymorder1 GNUC to_float api cores sig c0 z1 precision_arg h
                             = (filter_status (fst (cores c h2)) res, [c], snd (cores c h2))"
      using run unfolding same
      by (auto simp: IIRsymorder1_call_eq Let_def narrowed_def single_precision_def)
    with ty same show ?thesis by simp
  qed
  have cx: "OBJECTTYPE res = OBJECTTYPE sig
                \<and> (\<exists>p. let c = Forback1_complex (if OBJECTTYPE sig = PyArray_CFLOAT
                                                  then C_IIR_forback1 else Z_IIR_forback1)
                                  (Complex (narrowed to_float (OBJECTTYPE sig) (Re c0))
                                           (narrowed to_float (OBJECTTYPE sig) (Im c0)))
                                  (Complex (narrowed to_float (OBJECTTYPE sig) (Re z1))
                                           (narrowed to_float (OBJECTTYPE sig) (Im z1)))
                                  (DATA a_sig) (DATA res) N instrides 1 p
                        in IIRsymorder1 GNUC to_float api cores sig c0 z1 precision_arg h
                             = (if GNUC then
                                  (filter_status (fst (cores c h2)) res, [c], snd (cores c h2))
                                else (PYERR ''Incorrect type.'', [], h2)))"
    if c: "is_complex (OBJECTTYPE sig)"
  proof -
    have same: "any_thetype api sig = OBJECTTYPE sig"
      unfolding at using c by (intro promoted_floating(1)) simp
    from c have "OBJECTTYPE sig = PyArray_CFLOAT \<or> OBJECTTYPE sig = PyArray_CDOUBLE"
      by (simp add: is_complex_def)
    then have "\<exists>p. let c = Forback1_complex (if OBJECTTYPE sig = PyArray_CFLOAT
                                                  then C_IIR_forback1 else Z_IIR_forback1)
                                  (Complex (narrowed to_float (OBJECTTYPE sig) (Re c0))
                                           (narrowed to_float (OBJECTTYPE sig) (Im c0)))
                                  (Complex (narrowed to_float (OBJECTTYPE sig) (Re z1))
                                           (narrowed to_float (OBJECTTYPE sig) (Im z1)))
                                  (DATA a_sig) (DATA res) N instrides 1 p
                        in IIRsymorder1 GNUC to_float api cores sig c0 z1 precision_arg h
                             = (if GNUC then
                                  (filter_status (fst (cores c h2)) res, [c], snd (cores c h2))
                                else (PYERR ''Incorrect type.'', [], h2))"
      using run unfolding same
      by (auto simp: IIRsymorder1_call_eq Let_def narrowed_def single_precision_def)
    with ty same show ?thesis by simp
  qed
  from ty re cx show "OBJECTTYPE res = any_thetype api sig
         \<and> (is_real_float (OBJECTTYPE sig)
            \<longrightarrow> OBJECTTYPE res = OBJECTTYPE sig
                \<and> (\<exists>p. let c = Forback1 (if OBJECTTYPE sig = PyArray_FLOAT then S_IIR_forback1
                                         else D_IIR_forback1)
                                  (narrowed to_float (OBJECTTYPE sig) (Re c0))
                                  (narrowed to_float (OBJECTTYPE sig) (Re z1))
                                  (DATA a_sig) (DATA res) N instrides 1 p
                        in IIRsymorder1 GNUC to_float api cores sig c0 z1 precision_arg h
                             = (filter_status (fst (cores c h2)) res, [c], snd (cores c h2))))
         \<and> (is_complex (OBJECTTYPE sig)
            \<longrightarrow> OBJECTTYPE res = OBJECTTYPE sig
                \<and> (\<exists>p. let c = Forback1_complex (if OBJECTTYPE sig = PyArray_CFLOAT
                                                  then C_IIR_forback1 else Z_IIR_forback1)
                                  (Complex (narrowed to_float (OBJECTTYPE sig) (Re c0))
                                           (narrowed to_float (OBJECTTYPE sig) (Im c0)))
                                  (Complex (narrowed to_float (OBJECTTYPE sig) (Re z1))
                                           (narrowed to_float (OBJECTTYPE sig) (Im z1)))
                                  (DATA a_sig) (DATA res) N instrides 1 p
                        in IIRsymorder1 GNUC to_float api cores sig c0 z1 precision_arg h
                             = (if GNUC then
                                  (filter_status (fst (cores c h2)) res, [c], snd (cores c h2))
                                else (PYERR ''Incorrect type.'', [], h2))))"
    by blast
qed

theorem IIRsymorder1_complex_without_GNUC:
  "IIRsymorder1 False (\<lambda>x. x) example_api (example_cores 0) (example_array PyArray_CDOUBLE [4])
       (Complex 1 2) (Complex (1 / 2) 3) None example_heap
   = (PYERR ''Incorrect type.'', [], [[1, 2, 3, 4], [0, 0, 0, 0]])"
proof -
  have cs: "convert_strides [16] 16 (Suc 0) = Some [1]"
    using convert_strides_bracket [of 4 16 1 "[16]"] by (simp add: shr_def)
  have zeros: "replicate 4 (0::real) = [0, 0, 0, 0]" by (simp add: eval_nat_numeral)
  show ?thesis
    by (simp add: IIRsymorder1_def IIRsymorder1_call_def example_defs cs zeros Let_def)
qed

theorem IIRsymorder1_gain_and_pole_witness:
  "(\<exists>p. IIRsymorder1 True (\<lambda>x. x) example_api (example_cores 0) (example_array PyArray_DOUBLE [4])
          (Complex 1 2) (Complex (1 / 2) 3) None example_heap
        = (Returns \<lparr>DATA = 1, RANK = 1, DIMS = [4], STRIDES = [8], OBJECTTYPE = PyArray_DOUBLE,
                     ELSIZE = 8\<rparr>,
           [Forback1 D_IIR_forback1 1 (1 / 2) 0 1 4 1 1 p], [[1, 2, 3, 4], [1, 2, 3, 4]]))
   \<and> (\<exists>p. IIRsymorder1 True (\<lambda>x. x) example_api (example_cores 0)
          (example_array PyArray_CDOUBLE [4]) (Complex 1 2) (Complex (1 / 2) 3) None example_heap
        = (Returns \<lparr>DATA = 1, RANK = 1, DIMS = [4], STRIDES = [16], OBJECTTYPE = PyArray_CDOUBLE,
                     ELSIZE = 16\<rparr>,
           [Forback1_complex Z_IIR_forback1 (Complex 1 2) (Complex (1 / 2) 3) 0 1 4 1 1 p],
           [[1, 2, 3, 4], [1, 2, 3, 4]]))"
proof -
  let ?heap = "[[1, 2, 3, 4], [0, 0, 0, 0 :: real]]"
  have t: "any_thetype example_api (example_array PyArray_DOUBLE [4]) = PyArray_DOUBLE"
    "any_thetype example_api (example_array PyArray_CDOUBLE [4]) = PyArray_CDOUBLE"
    unfolding example_thetype by (simp_all add: promoted_def MIN_type_def MAX_type_def)
  have ot: "OBJECTTYPE (example_array t [4]) = t" for t by (simp add: example_array_def)
  have cs: "convert_strides [16] 16 1 = Some [1]"
    using convert_strides_bracket [of 4 16 1 "[16]"] by (simp add: shr_def)
  have pd: "PyArray_FromObject example_api (example_array PyArray_DOUBLE [4])
          (any_thetype example_api (example_array PyArray_DOUBLE [4])) 1 1 example_heap
        = Inr (example_array PyArray_DOUBLE [4], example_heap)
      \<and> PyArray_FromDims example_api 1 (DIMS (example_array PyArray_DOUBLE [4]))
          (any_thetype example_api (example_array PyArray_DOUBLE [4])) example_heap
        = Inr (\<lparr>DATA = 1, RANK = 1, DIMS = [4], STRIDES = [8], OBJECTTYPE = PyArray_DOUBLE,
                  ELSIZE = 8\<rparr>, ?heap)
      \<and> c_index (DIMS (example_array PyArray_DOUBLE [4])) 0 = Some 4
      \<and> convert_strides (STRIDES (example_array PyArray_DOUBLE [4]))
          (ELSIZE (example_array PyArray_DOUBLE [4])) 1 = Some [1]"
    using example_coerce_1d(1) [of PyArray_DOUBLE 4] example_allocate_4 [of PyArray_DOUBLE]
      convert_strides_double_4
    by (simp add: t example_4 c_index_def elsize_of_def)
  have pz: "PyArray_FromObject example_api (example_array PyArray_CDOUBLE [4])
          (any_thetype example_api (example_array PyArray_CDOUBLE [4])) 1 1 example_heap
        = Inr (example_array PyArray_CDOUBLE [4], example_heap)
      \<and> PyArray_FromDims example_api 1 (DIMS (example_array PyArray_CDOUBLE [4]))
          (any_thetype example_api (example_array PyArray_CDOUBLE [4])) example_heap
        = Inr (\<lparr>DATA = 1, RANK = 1, DIMS = [4], STRIDES = [16], OBJECTTYPE = PyArray_CDOUBLE,
                  ELSIZE = 16\<rparr>, ?heap)
      \<and> c_index (DIMS (example_array PyArray_CDOUBLE [4])) 0 = Some 4
      \<and> convert_strides (STRIDES (example_array PyArray_CDOUBLE [4]))
          (ELSIZE (example_array PyArray_CDOUBLE [4])) 1 = Some [1]"
    using example_coerce_1d(1) [of PyArray_CDOUBLE 4] example_allocate_4 [of PyArray_CDOUBLE] cs
    by (simp add: t example_4 c_index_def elsize_of_def)
  have fl: "is_real_float (OBJECTTYPE (example_array PyArray_DOUBLE [4]))"
    by (simp add: ot is_real_float_def)
  have cx: "is_complex (OBJECTTYPE (example_array PyArray_CDOUBLE [4]))"
    by (simp add: ot is_complex_def)
  note th = IIRsymorder1_gain_and_pole [OF example_api_object_type example_api_types]
  from th [rule_format, OF pd, THEN conjunct2, THEN conjunct1, rule_format, OF fl,
      THEN conjunct2, of "\<lambda>x. x" "Complex 1 2" "Complex (1 / 2) 3" True "example_cores 0" None]
    th [rule_format, OF pz, THEN conjunct2, THEN conjunct2, rule_format, OF cx,
      THEN conjunct2, of "\<lambda>x. x" "Complex 1 2" "Complex (1 / 2) 3" True "example_cores 0" None]
  show ?thesis
    by (simp add: ot example_2x2 narrowed_def single_precision_def Let_def example_cores_0
        filter_status_def)
qed

text \<open>
  C9: on the hypotheses that the library leaves existing buffers alone and allocates the
  output in a buffer of its own, and that a routine writes no buffer but its output, an
  entry point leaves every buffer that existed at entry as it was, on every path: the heap
  it leaves extends the heap it was given, and the output pointer of every routine it
  called is a buffer that did not exist at entry.
\<close>

theorem input_buffers_unchanged:
  assumes frame: "library_frame api" and cf: "cores_frame cores"
  shows "(cspline2d api cores img lambda_arg precision_arg h = (out, calls, h')
            \<longrightarrow> heap_extends h h' \<and> (\<forall>c \<in> set calls. length h \<le> call_out c))
       \<and> (qspline2d api cores img lambda_arg precision_arg h = (out, calls, h')
            \<longrightarrow> heap_extends h h' \<and> (\<forall>c \<in> set calls. length h \<le> call_out c))
       \<and> (FIRsepsym2d GNUC api cores img hrow hcol h = (out, calls, h')
            \<longrightarrow> heap_extends h h' \<and> (\<forall>c \<in> set calls. length h \<le> call_out c))
       \<and> (IIRsymorder1 GNUC to_float api cores img c0 z1 precision_arg h = (out, calls, h')
            \<longrightarrow> heap_extends h h' \<and> (\<forall>c \<in> set calls. length h \<le> call_out c))
       \<and> (IIRsymorder2 api cores img r omega precision_arg h = (out, calls, h')
            \<longrightarrow> heap_extends h h' \<and> (\<forall>c \<in> set calls. length h \<le> call_out c))"
proof -
  have step: "heap_extends h g' \<and> length h \<le> call_out c"
    if "heap_extends h g" "PyArray_FromDims api n dims t g = Inr (res, g1)"
      "call_out c = DATA res" "cores c g1 = (ret, g')" for g n dims t res g1 c ret g'
  proof -
    have e1: "heap_extends h g1"
      using that(1) library_frame_FromDims(1) [OF frame that(2)] by (rule heap_extends_trans)
    have fresh: "length h \<le> call_out c"
      using heap_extends_length [OF that(1)] library_frame_FromDims(2) [OF frame that(2)] that(3)
      by simp
    from cores_frame_extends [OF cf that(4) e1 fresh] fresh show ?thesis by simp
  qed
  have alloc: "heap_extends h g1"
    if "heap_extends h g" "PyArray_FromDims api n dims t g = Inr (res, g1)" for g n dims t res g1
    using that(1) library_frame_FromDims(1) [OF frame that(2)] by (rule heap_extends_trans)
  have c: "heap_extends h h' \<and> (\<forall>c \<in> set calls. length h \<le> call_out c)"
    if run: "cspline2d api cores img lambda_arg precision_arg h = (out, calls, h')"
    using run
  proof (cases rule: cspline2d_cases)
    case (coerce_fails err)
    then show ?thesis by (simp add: heap_extends_refl)
  next
    case (alloc_fails a_image h1 err)
    then show ?thesis using library_frame_FromObject [OF frame alloc_fails(1)] by simp
  next
    case (undefined a_image h1 ck)
    then show ?thesis
      using alloc [OF library_frame_FromObject [OF frame undefined(1)] undefined(2)] by simp
  next
    case (called a_image h1 ck h2 M N instrides c retval)
    show ?thesis
      using step [OF library_frame_FromObject [OF frame called(1)] called(2)
          cspline2d_call_Some(3) [OF called(6)] called(7)] called(8)
      by simp
  qed
  have q: "heap_extends h h' \<and> (\<forall>c \<in> set calls. length h \<le> call_out c)"
    if run: "qspline2d api cores img lambda_arg precision_arg h = (out, calls, h')"
    using run
  proof (cases rule: qspline2d_cases)
    case smoothing
    then show ?thesis by (simp add: heap_extends_refl)
  next
    case (coerce_fails err)
    then show ?thesis by (simp add: heap_extends_refl)
  next
    case (alloc_fails a_image h1 err)
    then show ?thesis using library_frame_FromObject [OF frame alloc_fails(2)] by simp
  next
    case (undefined a_image h1 ck)
    then show ?thesis
      using alloc [OF library_frame_FromObject [OF frame undefined(2)] undefined(3)] by simp
  next
    case (called a_image h1 ck h2 M N instrides c retval)
    show ?thesis
      using step [OF library_frame_FromObject [OF frame called(2)] called(3)
          qspline2d_call_Some(3) [OF called(7)] called(8)] called(9)
      by simp
  qed
  have i1: "heap_extends h h' \<and> (\<forall>c \<in> set calls. length h \<le> call_out c)"
    if run: "IIRsymorder1 GNUC to_float api cores img c0 z1 precision_arg h = (out, calls, h')"
    using run
  proof (cases rule: IIRsymorder1_cases)
    case (coerce_fails err)
    then show ?thesis by (simp add: heap_extends_refl)
  next
    case (alloc_fails a_sig h1 err)
    then show ?thesis using library_frame_FromObject [OF frame alloc_fails(1)] by simp
  next
    case (undefined a_sig h1 res)
    then show ?thesis
      using alloc [OF library_frame_FromObject [OF frame undefined(1)] undefined(2)] by simp
  next
    case (incorrect_type a_sig h1 res N instrides)
    then show ?thesis
      using alloc [OF library_frame_FromObject [OF frame incorrect_type(1)] incorrect_type(2)]
      by simp
  next
    case (called a_sig h1 res h2 N instrides c ret)
    show ?thesis
      using step [OF library_frame_FromObject [OF frame called(1)] called(2)
          IIRsymorder1_call_Some(3) [OF called(5)] called(6)] called(7)
      by simp
  qed
  have i2: "heap_extends h h' \<and> (\<forall>c \<in> set calls. length h \<le> call_out c)"
    if run: "IIRsymorder2 api cores img r omega precision_arg h = (out, calls, h')"
    using run
  proof (cases rule: IIRsymorder2_cases)
    case (coerce_fails err)
    then show ?thesis by (simp add: heap_extends_refl)
  next
    case (alloc_fails a_sig h1 err)
    then show ?thesis using library_frame_FromObject [OF frame alloc_fails(1)] by simp
  next
    case (undefined a_sig h1 res)
    then show ?thesis
      using alloc [OF library_frame_FromObject [OF frame undefined(1)] undefined(2)] by simp
  next
    case (incorrect_type a_sig h1 res N instrides)
    then show ?thesis
      using alloc [OF library_frame_FromObject [OF frame incorrect_type(1)] incorrect_type(2)]
      by simp
  next
    case (called a_sig h1 res h2 N instrides c ret)
    show ?thesis
      using step [OF library_frame_FromObject [OF frame called(1)] called(2)
          IIRsymorder2_call_Some(3) [OF called(5)] called(6)] called(7)
      by simp
  qed
  have three: "heap_extends h g3"
    if "PyArray_FromObject api img t 2 2 h = Inr (a_image, g1)"
      "PyArray_ContiguousFromObject api hrow t 1 1 g1 = Inr (a_hrow, g2)"
      "PyArray_ContiguousFromObject api hcol t 1 1 g2 = Inr (a_hcol, g3)"
    for t a_image g1 a_hrow g2 a_hcol g3
    using library_frame_FromObject [OF frame that(1)]
      library_frame_ContiguousFromObject [OF frame that(2)]
      library_frame_ContiguousFromObject [OF frame that(3)]
    by (blast intro: heap_extends_trans)
  have f: "heap_extends h h' \<and> (\<forall>c \<in> set calls. length h \<le> call_out c)"
    if run: "FIRsepsym2d GNUC api cores img hrow hcol h = (out, calls, h')"
    using run
  proof (cases rule: FIRsepsym2d_cases)
    case (coerce_fails err)
    have "heap_extends h h'"
      unfolding coerce_fails(4)
      by (blast intro: heap_extends_trans heap_after_extends [OF frame])
    with coerce_fails(3) show ?thesis by simp
  next
    case (alloc_fails a_image h1 a_hrow h2 a_hcol h3 err)
    then show ?thesis using three [OF alloc_fails(1-3)] by simp
  next
    case (undefined a_image h1 a_hrow h2 a_hcol h3 res)
    then show ?thesis using alloc [OF three [OF undefined(1-3)] undefined(4)] by simp
  next
    case (incorrect_type a_image h1 a_hrow h2 a_hcol h3 res M N instrides)
    then show ?thesis
      using alloc [OF three [OF incorrect_type(1-3)] incorrect_type(4)] by simp
  next
    case (called a_image h1 a_hrow h2 a_hcol h3 res h4 M N instrides f Nhrow Nhcol c ret)
    have "call_out c = DATA res" by (simp add: called(11))
    from step [OF three [OF called(1-3)] called(4) this called(12)] called(13)
    show ?thesis by simp
  qed
  from c q f i1 i2 show ?thesis by blast
qed

theorem input_buffers_unchanged_witness:
  "\<exists>out calls h'. cspline2d example_api (example_cores 0) (example_array PyArray_DOUBLE [2, 2]) None
       (Some (Finite 5)) example_heap = (out, calls, h')
     \<and> heap_extends example_heap h' \<and> h' ! 0 = [1, 2, 3, 4]"
proof -
  have "heap_extends example_heap [[1, 2, 3, 4], [1, 2, 3, 4]]"
    using input_buffers_unchanged [OF example_api_frame example_cores_frame, THEN conjunct1,
        rule_format, OF cspline2d_example_double]
    by simp
  with cspline2d_example_double show ?thesis by simp
qed

text \<open>
  C10: when the element size is a power of two and the byte strides are nonnegative
  multiples of it, \<open>convert_strides\<close> returns every stride divided by the size. When the
  size is positive and not a power of two, it returns every stride shifted right by
  \<open>\<lfloor>log\<^sub>2 size\<rfloor>\<close> bits, and that is not the division by the size: some nonnegative multiple
  of the size is converted to a value other than its quotient.
\<close>

theorem convert_strides_divides_iff_power_of_two:
  "(sz = 2 ^ b \<and> N \<le> length instrides \<and> (\<forall>n<N. 0 \<le> instrides ! n \<and> sz dvd instrides ! n)
      \<longrightarrow> convert_strides instrides sz N = Some (map (\<lambda>n. c_div (instrides ! n) sz) [0..<N]))
   \<and> (0 < sz \<and> (\<forall>e. sz \<noteq> 2 ^ e) \<and> N \<le> length instrides
      \<longrightarrow> convert_strides instrides sz N
            = Some (map (\<lambda>n. shr (instrides ! n) \<lfloor>log 2 (real_of_int sz)\<rfloor>) [0..<N])
          \<and> (\<exists>s. 0 \<le> s \<and> sz dvd s \<and> convert_strides [s] sz 1 \<noteq> Some [c_div s sz]))"
proof (intro conjI impI)
  assume a: "sz = 2 ^ b \<and> N \<le> length instrides \<and> (\<forall>n<N. 0 \<le> instrides ! n \<and> sz dvd instrides ! n)"
  then have "convert_strides instrides sz N = Some (map (\<lambda>n. shr (instrides ! n) (int b)) [0..<N])"
    by (intro convert_strides_bracket) simp_all
  moreover have "map (\<lambda>n. shr (instrides ! n) (int b)) [0..<N] = map (\<lambda>n. c_div (instrides ! n) sz) [0..<N]"
    using a by (auto simp: shr_exact)
  ultimately show "convert_strides instrides sz N = Some (map (\<lambda>n. c_div (instrides ! n) sz) [0..<N])"
    by simp
next
  assume a: "0 < sz \<and> (\<forall>e. sz \<noteq> 2 ^ e) \<and> N \<le> length instrides"
  define k where "k = nat \<lfloor>log 2 (real_of_int sz)\<rfloor>"
  have br: "2 ^ k \<le> sz" "sz < 2 ^ Suc k"
    using floor_log2_bracket [of sz] a by (simp_all add: k_def)
  have "1 \<le> real_of_int sz" using a by simp
  then have "0 \<le> log 2 (real_of_int sz)" by simp
  then have fl: "\<lfloor>log 2 (real_of_int sz)\<rfloor> = int k" by (simp add: k_def)
  show "convert_strides instrides sz N
          = Some (map (\<lambda>n. shr (instrides ! n) \<lfloor>log 2 (real_of_int sz)\<rfloor>) [0..<N])"
    using convert_strides_bracket [OF br] a by (simp add: fl)
  have ne: "sz \<noteq> 2 ^ k" using a by blast
  have "convert_strides [sz * 2 ^ k] sz 1 = Some [shr (sz * 2 ^ k) (int k)]"
    using convert_strides_bracket [OF br, of 1 "[sz * 2 ^ k]"] by simp
  moreover have "shr (sz * 2 ^ k) (int k) = sz" by (simp add: shr_def)
  moreover have "c_div (sz * 2 ^ k) sz = 2 ^ k" using a by (simp add: c_div_def sgn_if)
  ultimately have "convert_strides [sz * 2 ^ k] sz 1 \<noteq> Some [c_div (sz * 2 ^ k) sz]"
    using ne by simp
  moreover have "0 \<le> sz * 2 ^ k" "sz dvd sz * 2 ^ k" using a by simp_all
  ultimately show "\<exists>s. 0 \<le> s \<and> sz dvd s \<and> convert_strides [s] sz 1 \<noteq> Some [c_div s sz]"
    by blast
qed

theorem convert_strides_divides_iff_power_of_two_witness:
  "convert_strides [32, 8] 8 2 = Some [4, 1]
   \<and> convert_strides [24, 12] 12 2 = Some [3, 1]
   \<and> (\<exists>s. 0 \<le> s \<and> 12 dvd s \<and> convert_strides [s] 12 1 \<noteq> Some [c_div s 12])"
proof -
  have fl: "\<lfloor>log 2 (12::real)\<rfloor> = 3"
    using floor_log_nat_eq_powr_iff [of 2 12 3] by simp
  have np: "(12::int) \<noteq> 2 ^ e" for e :: nat
  proof
    assume "(12::int) = 2 ^ e"
    then have "(2::int) ^ e = 12" by simp
    then have "e < 4" using power_increasing [of 4 e "2::int"] by (cases "e < 4") auto
    then have "e \<in> {0, 1, 2, 3}" by auto
    with \<open>(2::int) ^ e = 12\<close> show False by auto
  qed
  show ?thesis
    using convert_strides_divides_iff_power_of_two [of 8 3 2 "[32, 8]"]
      convert_strides_divides_iff_power_of_two [of 12 0 2 "[24, 12]"] np
    by (simp add: fl c_div_def shr_def less_Suc_eq upt_rec nth_Cons')
qed

end
